theory Spec2Isabelle
  imports Main "HOL-Library.Word"
begin

unbundle bit_operations_syntax

section \<open>Settings and EEPROM storage (configuration_store.cpp)\<close>

text \<open>
  A shallow embedding of \<^verbatim>\<open>Marlin/src/module/configuration_store.cpp\<close>.
  Every variable that \<^verbatim>\<open>EEPROM_WRITE\<close> / \<^verbatim>\<open>EEPROM_READ\<close> touches is kept as the
  raw byte image the macros copy (\<^verbatim>\<open>(uint8_t*)&VAR, sizeof(VAR)\<close>, with
  \<^verbatim>\<open>#pragma pack(push, 1)\<close>): a float is its four bytes, an array the concatenation of
  its elements. Preprocessor conditionals become tests on a build configuration value.
\<close>

subsection \<open>Bytes and scalars\<close>

type_synonym byte = "8 word"

definition le16 :: "16 word \<Rightarrow> byte list" where
  "le16 w = [ucast w, ucast (drop_bit 8 w)]"

definition le32 :: "32 word \<Rightarrow> byte list" where
  "le32 w = [ucast w, ucast (drop_bit 8 w), ucast (drop_bit 16 w), ucast (drop_bit 24 w)]"

definition rd16 :: "byte list \<Rightarrow> 16 word" where
  "rd16 bs = (case bs of b0 # b1 # _ \<Rightarrow> ucast b0 OR push_bit 8 (ucast b1) | _ \<Rightarrow> 0)"

definition rd32 :: "byte list \<Rightarrow> 32 word" where
  "rd32 bs = (case bs of b0 # b1 # b2 # b3 # _ \<Rightarrow>
       ucast b0 OR push_bit 8 (ucast b1) OR push_bit 16 (ucast b2) OR push_bit 24 (ucast b3)
     | _ \<Rightarrow> 0)"

text \<open>A C \<^verbatim>\<open>bool\<close> stored as one byte.\<close>

definition bool_byte :: "bool \<Rightarrow> byte list" where
  "bool_byte b = [if b then 1 else 0]"

text \<open>Element \<open>i\<close> of an array of four-byte elements (\<^verbatim>\<open>uint32_t\<close>, \<^verbatim>\<open>float\<close>).\<close>

definition elem4 :: "byte list \<Rightarrow> nat \<Rightarrow> byte list" where
  "elem4 bs i = take 4 (drop (4 * i) bs)"

text \<open>\<^verbatim>\<open>isnan\<close> on the bits of an IEEE-754 single: exponent all ones, fraction not zero.\<close>

definition isnan :: "byte list \<Rightarrow> bool" where
  "isnan bs = (let w = rd32 bs in
     (drop_bit 23 w AND 0xFF) = 0xFF \<and> (w AND 0x7FFFFF) \<noteq> 0)"

definition NAN :: "byte list" where
  "NAN = le32 0x7FC00000"

subsection \<open>The checksum accumulator and the medium driver\<close>

text \<open>
  Modelled from the spec: the checksum accumulator (\<^verbatim>\<open>crc16\<close>, in libs/) is not part of
  the sources at hand. The spec asks for a streaming accumulator folding each byte into a
  running 16-bit value; the CCITT polynomial is used here.
\<close>

fun crc16_bits :: "nat \<Rightarrow> 16 word \<Rightarrow> 16 word" where
  "crc16_bits 0 c = c"
| "crc16_bits (Suc n) c =
     crc16_bits n (if c AND 0x8000 \<noteq> 0 then push_bit 1 c XOR 0x1021 else push_bit 1 c)"

definition crc16_byte :: "16 word \<Rightarrow> byte \<Rightarrow> 16 word" where
  "crc16_byte c b = crc16_bits 8 (c XOR push_bit 8 (ucast b))"

definition crc16 :: "16 word \<Rightarrow> byte list \<Rightarrow> 16 word" where
  "crc16 c bs = foldl crc16_byte c bs"

text \<open>
  Modelled from the spec: the medium driver \<^verbatim>\<open>persistentStore\<close> (HAL) is not part of the
  sources at hand. Its contract: \<^verbatim>\<open>access_start() -> bool\<close>, \<^verbatim>\<open>access_finish()\<close>,
  \<^verbatim>\<open>read_data(pos&, buf, len, &crc, writing)\<close>, \<^verbatim>\<open>write_data(pos&, buf, len, &crc)\<close>,
  \<^verbatim>\<open>capacity()\<close>. Both transfer functions advance the cursor by \<open>len\<close>, fold the bytes
  into the running checksum and return \<^verbatim>\<open>true\<close> on error (as \<^verbatim>\<open>store_mesh\<close> reads the
  status). A cell marked \<open>stuck\<close> keeps its content when written; the write reports an
  error when the cell does not hold the byte afterwards. With \<open>writing = false\<close> a read
  folds the bytes into the checksum and leaves the destination buffer as it was.
\<close>

record persistentStore =
  mem :: "int \<Rightarrow> byte"
  stuck :: "int \<Rightarrow> bool"
  present :: bool
  capacity :: nat

definition access_start :: "persistentStore \<Rightarrow> bool" where
  "access_start ps = present ps"

fun write_data :: "persistentStore \<Rightarrow> int \<Rightarrow> byte list \<Rightarrow> 16 word
    \<Rightarrow> bool \<times> int \<times> 16 word \<times> persistentStore" where
  "write_data ps pos [] crc = (False, pos, crc, ps)"
| "write_data ps pos (v # vs) crc =
     (let ps' = (if stuck ps pos then ps else ps\<lparr>mem := (mem ps)(pos := v)\<rparr>);
          bad = (mem ps' pos \<noteq> v);
          (err, pos', crc', ps'') = write_data ps' (pos + 1) vs (crc16_byte crc v)
      in (bad \<or> err, pos', crc', ps''))"

definition peek :: "persistentStore \<Rightarrow> int \<Rightarrow> nat \<Rightarrow> byte list" where
  "peek ps pos n = map (\<lambda>i. mem ps (pos + int i)) [0..<n]"

definition read_data :: "persistentStore \<Rightarrow> int \<Rightarrow> byte list \<Rightarrow> nat \<Rightarrow> 16 word \<Rightarrow> bool
    \<Rightarrow> bool \<times> int \<times> 16 word \<times> byte list" where
  "read_data ps pos buf n crc writing =
     (False, pos + int n, crc16 crc (peek ps pos n), if writing then peek ps pos n else buf)"

subsection \<open>Build configuration and live variables\<close>

text \<open>The stepper drivers \<^verbatim>\<open>stepperX\<close> \<dots> \<^verbatim>\<open>stepperE5\<close>, in the member order of
  \<^verbatim>\<open>tmc_stepper_current_t\<close>.\<close>

datatype axis = stepperX | stepperY | stepperZ | stepperX2 | stepperY2 | stepperZ2
  | stepperZ3 | stepperZ4 | stepperE0 | stepperE1 | stepperE2 | stepperE3 | stepperE4 | stepperE5

definition tmc_axes :: "axis list" where
  "tmc_axes = [stepperX, stepperY, stepperZ, stepperX2, stepperY2, stepperZ2, stepperZ3,
     stepperZ4, stepperE0, stepperE1, stepperE2, stepperE3, stepperE4, stepperE5]"

text \<open>The live variables of the subsystems, each holding its raw byte image. The
  scalar and array variables are numbered; the per-hotend and per-driver ones carry
  their index.\<close>

datatype var = V nat
  | hotend_offset nat
  | PID_Kp nat
  | PID_Ki nat
  | PID_Kd nat
  | PID_Kc nat
  | PID_Kf nat
  | stepper_milliamps axis
  | stepper_pwm_thrs axis
  | stepper_homing_threshold axis
  | stepper_stealthChop_enabled axis

abbreviation planner_settings_max_acceleration_mm_per_s2 :: var where "planner_settings_max_acceleration_mm_per_s2 \<equiv> V 0"
abbreviation planner_settings_min_segment_time_us :: var where "planner_settings_min_segment_time_us \<equiv> V 1"
abbreviation planner_settings_axis_steps_per_mm :: var where "planner_settings_axis_steps_per_mm \<equiv> V 2"
abbreviation planner_settings_max_feedrate_mm_s :: var where "planner_settings_max_feedrate_mm_s \<equiv> V 3"
abbreviation planner_settings_acceleration :: var where "planner_settings_acceleration \<equiv> V 4"
abbreviation planner_settings_retract_acceleration :: var where "planner_settings_retract_acceleration \<equiv> V 5"
abbreviation planner_settings_travel_acceleration :: var where "planner_settings_travel_acceleration \<equiv> V 6"
abbreviation planner_settings_min_feedrate_mm_s :: var where "planner_settings_min_feedrate_mm_s \<equiv> V 7"
abbreviation planner_settings_min_travel_feedrate_mm_s :: var where "planner_settings_min_travel_feedrate_mm_s \<equiv> V 8"
abbreviation planner_max_jerk :: var where "planner_max_jerk \<equiv> V 9"
abbreviation planner_junction_deviation_mm :: var where "planner_junction_deviation_mm \<equiv> V 10"
abbreviation home_offset :: var where "home_offset \<equiv> V 11"
abbreviation scara_home_offset :: var where "scara_home_offset \<equiv> V 12"
abbreviation runout_enabled :: var where "runout_enabled \<equiv> V 13"
abbreviation runout_distance_mm :: var where "runout_distance_mm \<equiv> V 14"
abbreviation planner_z_fade_height :: var where "planner_z_fade_height \<equiv> V 15"
abbreviation new_z_fade_height :: var where "new_z_fade_height \<equiv> V 16"
abbreviation mbl_z_offset :: var where "mbl_z_offset \<equiv> V 17"
abbreviation mbl_z_values :: var where "mbl_z_values \<equiv> V 18"
abbreviation probe_offset :: var where "probe_offset \<equiv> V 19"
abbreviation planner_bed_level_matrix :: var where "planner_bed_level_matrix \<equiv> V 20"
abbreviation bilinear_grid_spacing :: var where "bilinear_grid_spacing \<equiv> V 21"
abbreviation bilinear_start :: var where "bilinear_start \<equiv> V 22"
abbreviation z_values :: var where "z_values \<equiv> V 23"
abbreviation planner_leveling_active :: var where "planner_leveling_active \<equiv> V 24"
abbreviation ubl_storage_slot :: var where "ubl_storage_slot \<equiv> V 25"
abbreviation ubl_z_values :: var where "ubl_z_values \<equiv> V 26"
abbreviation servo_angles :: var where "servo_angles \<equiv> V 27"
abbreviation temp_comp_z_offsets_probe :: var where "temp_comp_z_offsets_probe \<equiv> V 28"
abbreviation temp_comp_z_offsets_bed :: var where "temp_comp_z_offsets_bed \<equiv> V 29"
abbreviation temp_comp_z_offsets_ext :: var where "temp_comp_z_offsets_ext \<equiv> V 30"
abbreviation temp_comp_index :: var where "temp_comp_index \<equiv> V 31"
abbreviation bltouch_last_written_mode :: var where "bltouch_last_written_mode \<equiv> V 32"
abbreviation delta_height :: var where "delta_height \<equiv> V 33"
abbreviation delta_endstop_adj :: var where "delta_endstop_adj \<equiv> V 34"
abbreviation delta_radius :: var where "delta_radius \<equiv> V 35"
abbreviation delta_diagonal_rod :: var where "delta_diagonal_rod \<equiv> V 36"
abbreviation delta_segments_per_second :: var where "delta_segments_per_second \<equiv> V 37"
abbreviation delta_tower_angle_trim :: var where "delta_tower_angle_trim \<equiv> V 38"
abbreviation endstops_x2_endstop_adj :: var where "endstops_x2_endstop_adj \<equiv> V 39"
abbreviation endstops_y2_endstop_adj :: var where "endstops_y2_endstop_adj \<equiv> V 40"
abbreviation endstops_z2_endstop_adj :: var where "endstops_z2_endstop_adj \<equiv> V 41"
abbreviation endstops_z3_endstop_adj :: var where "endstops_z3_endstop_adj \<equiv> V 42"
abbreviation endstops_z4_endstop_adj :: var where "endstops_z4_endstop_adj \<equiv> V 43"
abbreviation endstops_enabled_globally :: var where "endstops_enabled_globally \<equiv> V 44"
abbreviation z_stepper_align_xy :: var where "z_stepper_align_xy \<equiv> V 45"
abbreviation z_stepper_align_stepper_xy :: var where "z_stepper_align_stepper_xy \<equiv> V 46"
abbreviation ui_preheat_hotend_temp :: var where "ui_preheat_hotend_temp \<equiv> V 47"
abbreviation ui_preheat_bed_temp :: var where "ui_preheat_bed_temp \<equiv> V 48"
abbreviation ui_preheat_fan_speed :: var where "ui_preheat_fan_speed \<equiv> V 49"
abbreviation thermalManager_lpq_len :: var where "thermalManager_lpq_len \<equiv> V 50"
abbreviation temp_bed_pid_Kp :: var where "temp_bed_pid_Kp \<equiv> V 51"
abbreviation temp_bed_pid_Ki :: var where "temp_bed_pid_Ki \<equiv> V 52"
abbreviation temp_bed_pid_Kd :: var where "temp_bed_pid_Kd \<equiv> V 53"
abbreviation thermalManager_user_thermistor :: var where "thermalManager_user_thermistor \<equiv> V 54"
abbreviation ui_contrast :: var where "ui_contrast \<equiv> V 55"
abbreviation controllerFan_settings :: var where "controllerFan_settings \<equiv> V 56"
abbreviation recovery_enabled :: var where "recovery_enabled \<equiv> V 57"
abbreviation fwretract_settings :: var where "fwretract_settings \<equiv> V 58"
abbreviation fwretract_autoretract_enabled :: var where "fwretract_autoretract_enabled \<equiv> V 59"
abbreviation parser_volumetric_enabled :: var where "parser_volumetric_enabled \<equiv> V 60"
abbreviation planner_filament_size :: var where "planner_filament_size \<equiv> V 61"
abbreviation planner_extruder_advance_K :: var where "planner_extruder_advance_K \<equiv> V 62"
abbreviation other_extruder_advance_K :: var where "other_extruder_advance_K \<equiv> V 63"
abbreviation stepper_motor_current_setting :: var where "stepper_motor_current_setting \<equiv> V 64"
abbreviation gcode_coordinate_system :: var where "gcode_coordinate_system \<equiv> V 65"
abbreviation gcode_active_coordinate_system :: var where "gcode_active_coordinate_system \<equiv> V 66"
abbreviation planner_skew_factor :: var where "planner_skew_factor \<equiv> V 67"
abbreviation fc_settings :: var where "fc_settings \<equiv> V 68"
abbreviation toolchange_settings :: var where "toolchange_settings \<equiv> V 69"
abbreviation backlash_distance_mm :: var where "backlash_distance_mm \<equiv> V 70"
abbreviation backlash_correction :: var where "backlash_correction \<equiv> V 71"
abbreviation backlash_smoothing_mm :: var where "backlash_smoothing_mm \<equiv> V 72"
abbreviation extui_data :: var where "extui_data \<equiv> V 73"
abbreviation case_light_brightness :: var where "case_light_brightness \<equiv> V 74"

text \<open>The preprocessor switches the file tests.\<close>

datatype feature = F nat

abbreviation FLASH_EEPROM_EMULATION :: feature where "FLASH_EEPROM_EMULATION \<equiv> F 0"
abbreviation HAS_CLASSIC_JERK :: feature where "HAS_CLASSIC_JERK \<equiv> F 1"
abbreviation HAS_LINEAR_E_JERK :: feature where "HAS_LINEAR_E_JERK \<equiv> F 2"
abbreviation HAS_CLASSIC_E_JERK :: feature where "HAS_CLASSIC_E_JERK \<equiv> F 3"
abbreviation CLASSIC_JERK :: feature where "CLASSIC_JERK \<equiv> F 4"
abbreviation HAS_SCARA_OFFSET :: feature where "HAS_SCARA_OFFSET \<equiv> F 5"
abbreviation HAS_HOME_OFFSET :: feature where "HAS_HOME_OFFSET \<equiv> F 6"
abbreviation HAS_HOTEND_OFFSET :: feature where "HAS_HOTEND_OFFSET \<equiv> F 7"
abbreviation HAS_FILAMENT_SENSOR :: feature where "HAS_FILAMENT_SENSOR \<equiv> F 8"
abbreviation FILAMENT_RUNOUT_DISTANCE_MM :: feature where "FILAMENT_RUNOUT_DISTANCE_MM \<equiv> F 9"
abbreviation ENABLE_LEVELING_FADE_HEIGHT :: feature where "ENABLE_LEVELING_FADE_HEIGHT \<equiv> F 10"
abbreviation HAS_LEVELING :: feature where "HAS_LEVELING \<equiv> F 11"
abbreviation MESH_BED_LEVELING :: feature where "MESH_BED_LEVELING \<equiv> F 12"
abbreviation HAS_BED_PROBE :: feature where "HAS_BED_PROBE \<equiv> F 13"
abbreviation HAS_PROBE_XY_OFFSET :: feature where "HAS_PROBE_XY_OFFSET \<equiv> F 14"
abbreviation ABL_PLANAR :: feature where "ABL_PLANAR \<equiv> F 15"
abbreviation AUTO_BED_LEVELING_BILINEAR :: feature where "AUTO_BED_LEVELING_BILINEAR \<equiv> F 16"
abbreviation AUTO_BED_LEVELING_UBL :: feature where "AUTO_BED_LEVELING_UBL \<equiv> F 17"
abbreviation UBL_SAVE_ACTIVE_ON_M500 :: feature where "UBL_SAVE_ACTIVE_ON_M500 \<equiv> F 18"
abbreviation HAS_SERVO_ANGLES :: feature where "HAS_SERVO_ANGLES \<equiv> F 19"
abbreviation EDITABLE_SERVO_ANGLES :: feature where "EDITABLE_SERVO_ANGLES \<equiv> F 20"
abbreviation PROBE_TEMP_COMPENSATION :: feature where "PROBE_TEMP_COMPENSATION \<equiv> F 21"
abbreviation USE_TEMP_EXT_COMPENSATION :: feature where "USE_TEMP_EXT_COMPENSATION \<equiv> F 22"
abbreviation BLTOUCH :: feature where "BLTOUCH \<equiv> F 23"
abbreviation DELTA :: feature where "DELTA \<equiv> F 24"
abbreviation HAS_EXTRA_ENDSTOPS :: feature where "HAS_EXTRA_ENDSTOPS \<equiv> F 25"
abbreviation X_DUAL_ENDSTOPS :: feature where "X_DUAL_ENDSTOPS \<equiv> F 26"
abbreviation Y_DUAL_ENDSTOPS :: feature where "Y_DUAL_ENDSTOPS \<equiv> F 27"
abbreviation Z_MULTI_ENDSTOPS :: feature where "Z_MULTI_ENDSTOPS \<equiv> F 28"
abbreviation Z_STEPPER_AUTO_ALIGN :: feature where "Z_STEPPER_AUTO_ALIGN \<equiv> F 29"
abbreviation Z_STEPPER_ALIGN_KNOWN_STEPPER_POSITIONS :: feature where "Z_STEPPER_ALIGN_KNOWN_STEPPER_POSITIONS \<equiv> F 30"
abbreviation HAS_LCD_MENU :: feature where "HAS_LCD_MENU \<equiv> F 31"
abbreviation PIDTEMP :: feature where "PIDTEMP \<equiv> F 32"
abbreviation PID_EXTRUSION_SCALING :: feature where "PID_EXTRUSION_SCALING \<equiv> F 33"
abbreviation PID_FAN_SCALING :: feature where "PID_FAN_SCALING \<equiv> F 34"
abbreviation PIDTEMPBED :: feature where "PIDTEMPBED \<equiv> F 35"
abbreviation HAS_USER_THERMISTORS :: feature where "HAS_USER_THERMISTORS \<equiv> F 36"
abbreviation HAS_LCD_CONTRAST :: feature where "HAS_LCD_CONTRAST \<equiv> F 37"
abbreviation USE_CONTROLLER_FAN :: feature where "USE_CONTROLLER_FAN \<equiv> F 38"
abbreviation CONTROLLER_FAN_EDITABLE :: feature where "CONTROLLER_FAN_EDITABLE \<equiv> F 39"
abbreviation POWER_LOSS_RECOVERY :: feature where "POWER_LOSS_RECOVERY \<equiv> F 40"
abbreviation PLR_ENABLED_DEFAULT :: feature where "PLR_ENABLED_DEFAULT \<equiv> F 41"
abbreviation FWRETRACT :: feature where "FWRETRACT \<equiv> F 42"
abbreviation FWRETRACT_AUTORETRACT :: feature where "FWRETRACT_AUTORETRACT \<equiv> F 43"
abbreviation NO_VOLUMETRICS :: feature where "NO_VOLUMETRICS \<equiv> F 44"
abbreviation VOLUMETRIC_DEFAULT_ON :: feature where "VOLUMETRIC_DEFAULT_ON \<equiv> F 45"
abbreviation HAS_TRINAMIC_CONFIG :: feature where "HAS_TRINAMIC_CONFIG \<equiv> F 46"
abbreviation HYBRID_THRESHOLD :: feature where "HYBRID_THRESHOLD \<equiv> F 47"
abbreviation USE_SENSORLESS :: feature where "USE_SENSORLESS \<equiv> F 48"
abbreviation X_SENSORLESS :: feature where "X_SENSORLESS \<equiv> F 49"
abbreviation X2_SENSORLESS :: feature where "X2_SENSORLESS \<equiv> F 50"
abbreviation Y_SENSORLESS :: feature where "Y_SENSORLESS \<equiv> F 51"
abbreviation Z_SENSORLESS :: feature where "Z_SENSORLESS \<equiv> F 52"
abbreviation X_STALL_SENSITIVITY :: feature where "X_STALL_SENSITIVITY \<equiv> F 53"
abbreviation Y_STALL_SENSITIVITY :: feature where "Y_STALL_SENSITIVITY \<equiv> F 54"
abbreviation Z_STALL_SENSITIVITY :: feature where "Z_STALL_SENSITIVITY \<equiv> F 55"
abbreviation HAS_STEALTHCHOP :: feature where "HAS_STEALTHCHOP \<equiv> F 56"
abbreviation LIN_ADVANCE :: feature where "LIN_ADVANCE \<equiv> F 57"
abbreviation EXTRA_LIN_ADVANCE_K :: feature where "EXTRA_LIN_ADVANCE_K \<equiv> F 58"
abbreviation HAS_MOTOR_CURRENT_PWM :: feature where "HAS_MOTOR_CURRENT_PWM \<equiv> F 59"
abbreviation CNC_COORDINATE_SYSTEMS :: feature where "CNC_COORDINATE_SYSTEMS \<equiv> F 60"
abbreviation SKEW_CORRECTION_GCODE :: feature where "SKEW_CORRECTION_GCODE \<equiv> F 61"
abbreviation SKEW_CORRECTION_FOR_Z :: feature where "SKEW_CORRECTION_FOR_Z \<equiv> F 62"
abbreviation ADVANCED_PAUSE_FEATURE :: feature where "ADVANCED_PAUSE_FEATURE \<equiv> F 63"
abbreviation TOOLCHANGE_FILAMENT_SWAP :: feature where "TOOLCHANGE_FILAMENT_SWAP \<equiv> F 64"
abbreviation TOOLCHANGE_PARK :: feature where "TOOLCHANGE_PARK \<equiv> F 65"
abbreviation MAGNETIC_PARKING_EXTRUDER :: feature where "MAGNETIC_PARKING_EXTRUDER \<equiv> F 66"
abbreviation BACKLASH_GCODE :: feature where "BACKLASH_GCODE \<equiv> F 67"
abbreviation BACKLASH_SMOOTHING_MM :: feature where "BACKLASH_SMOOTHING_MM \<equiv> F 68"
abbreviation EXTENSIBLE_UI :: feature where "EXTENSIBLE_UI \<equiv> F 69"
abbreviation HAS_CASE_LIGHT_BRIGHTNESS :: feature where "HAS_CASE_LIGHT_BRIGHTNESS \<equiv> F 70"
abbreviation ENDSTOPS_ALWAYS_ON_DEFAULT :: feature where "ENDSTOPS_ALWAYS_ON_DEFAULT \<equiv> F 71"
abbreviation EEPROM_AUTO_INIT :: feature where "EEPROM_AUTO_INIT \<equiv> F 72"
abbreviation EEPROM_CHITCHAT :: feature where "EEPROM_CHITCHAT \<equiv> F 73"
abbreviation DISABLE_M503 :: feature where "DISABLE_M503 \<equiv> F 74"
abbreviation EEPROM_BOOT_SILENT :: feature where "EEPROM_BOOT_SILENT \<equiv> F 75"
abbreviation ARCHIM2_SPI_FLASH_EEPROM_BACKUP_SIZE :: feature where "ARCHIM2_SPI_FLASH_EEPROM_BACKUP_SIZE \<equiv> F 76"

text \<open>
  The build configuration: the switches, the array dimensions, and the constants and
  types that come from headers outside this file (\<^verbatim>\<open>Configuration.h\<close>,
  \<^verbatim>\<open>planner.h\<close>, \<^verbatim>\<open>temperature.h\<close>, \<dots>), taken as parameters.
  \<open>DEFAULT_MAX_ACCELERATION\<close>, \<open>DEFAULT_AXIS_STEPS_PER_UNIT\<close> and
  \<open>DEFAULT_MAX_FEEDRATE\<close> are the initialisers of \<^verbatim>\<open>_DMA\<close>, \<^verbatim>\<open>_DASU\<close> and
  \<^verbatim>\<open>_DMF\<close>, one four-byte image per element. \<open>hardcoded\<close> gives the image a
  variable takes from its compile-time default (what \<^verbatim>\<open>reset()\<close> and the subsystem
  \<^verbatim>\<open>reset\<close> functions assign, and the placeholder written for an absent feature).
  \<open>sizeof_int\<close> and \<open>sizeof_size_t\<close> are the widths in bytes of the target's
  \<^verbatim>\<open>int\<close> and \<^verbatim>\<open>size_t\<close> (2 and 2 on the 8-bit AVR boards, 4 and 4 on the 32-bit
  ones): the mesh slot arithmetic is done in these types.
\<close>

record config =
  enabled :: "feature \<Rightarrow> bool"
  AXIS_IS_TMC :: "axis \<Rightarrow> bool"
  AXIS_HAS_STEALTHCHOP :: "axis \<Rightarrow> bool"
  AXIS_HAS_STALLGUARD :: "axis \<Rightarrow> bool"
  XYZE_N :: nat
  HOTENDS :: nat
  EXTRUDERS :: nat
  GRID_MAX_POINTS_X :: nat
  GRID_MAX_POINTS_Y :: nat
  EEPROM_NUM_SERVOS :: nat
  NUM_Z_STEPPER_DRIVERS :: nat
  USER_THERMISTORS :: nat
  MAX_COORDINATE_SYSTEMS :: nat
  eeprom_data_size :: nat
  COUNT_z_offsets_probe :: nat
  COUNT_z_offsets_bed :: nat
  COUNT_z_offsets_ext :: nat
  sizeof_user_thermistor_t :: nat
  sizeof_controllerFan_settings_t :: nat
  sizeof_toolchange_settings_t :: nat
  DEFAULT_MAX_ACCELERATION :: "byte list list"
  DEFAULT_AXIS_STEPS_PER_UNIT :: "byte list list"
  DEFAULT_MAX_FEEDRATE :: "byte list list"
  DEFAULT_EJERK :: "byte list"
  DEFAULT_NOMINAL_FILAMENT_DIA :: "byte list"
  CURRENT :: "axis \<Rightarrow> 16 word"
  hardcoded :: "var \<Rightarrow> byte list"
  scalePID_i :: "byte list \<Rightarrow> byte list"
  unscalePID_i :: "byte list \<Rightarrow> byte list"
  scalePID_d :: "byte list \<Rightarrow> byte list"
  unscalePID_d :: "byte list \<Rightarrow> byte list"
  ubl_sanity_check :: "(var \<Rightarrow> byte list) \<Rightarrow> bool"
  restoreEEPROM :: "persistentStore \<Rightarrow> bool \<times> persistentStore"
  IsRunning :: bool
  sizeof_int :: nat
  sizeof_size_t :: nat

definition XYZ :: nat where
  "XYZ = 3"

text \<open>\<^verbatim>\<open>#define ALIM(I,ARR) _MIN(I, COUNT(ARR) - 1)\<close> and the table lookup through it.\<close>

definition ALIM :: "nat \<Rightarrow> 'a list \<Rightarrow> nat" where
  "ALIM i arr = min i (length arr - 1)"

definition pgm_read :: "byte list list \<Rightarrow> nat \<Rightarrow> byte list" where
  "pgm_read arr i = (if arr = [] then replicate 4 0 else arr ! ALIM i arr)"

subsection \<open>The record layout\<close>

definition EEPROM_VERSION :: "byte list" where
  "EEPROM_VERSION = [0x56, 0x37, 0x36]"

definition version :: "byte list" where
  "version = EEPROM_VERSION @ [0]"

definition EEPROM_OFFSET :: int where
  "EEPROM_OFFSET = 100"

text \<open>\<^verbatim>\<open>sizeof(SettingsData)\<close>, member by member in declaration order.\<close>

definition sizeof_planner_settings_t :: "config \<Rightarrow> nat" where
  "sizeof_planner_settings_t cfg = 4 * XYZE_N cfg + 4 + 4 * XYZE_N cfg + 4 * XYZE_N cfg + 5 * 4"

definition mesh_num :: "config \<Rightarrow> nat \<times> nat" where
  "mesh_num cfg = (if enabled cfg MESH_BED_LEVELING
     then (GRID_MAX_POINTS_X cfg, GRID_MAX_POINTS_Y cfg) else (3, 3))"

definition grid_max :: "config \<Rightarrow> nat \<times> nat" where
  "grid_max cfg = (if enabled cfg AUTO_BED_LEVELING_BILINEAR
     then (GRID_MAX_POINTS_X cfg, GRID_MAX_POINTS_Y cfg) else (3, 3))"

definition sizeof_SettingsData :: "config \<Rightarrow> nat" where
  "sizeof_SettingsData cfg =
     4 + 2
   + 1
   + sizeof_planner_settings_t cfg
   + 16 + 4
   + 12
   + (if enabled cfg HAS_HOTEND_OFFSET then 12 * (HOTENDS cfg - 1) else 0)
   + 1 + 4
   + 4
   + 4 + 1 + 1 + 4 * (fst (mesh_num cfg) * snd (mesh_num cfg))
   + 12
   + 36
   + 1 + 1 + 8 + 8 + 4 * (fst (grid_max cfg) * snd (grid_max cfg))
   + 1 + 1
   + 2 * (EEPROM_NUM_SERVOS cfg * 2)
   + (if enabled cfg PROBE_TEMP_COMPENSATION
      then 2 * COUNT_z_offsets_probe cfg + 2 * COUNT_z_offsets_bed cfg
         + (if enabled cfg USE_TEMP_EXT_COMPENSATION then 2 * COUNT_z_offsets_ext cfg else 0)
      else 0)
   + 1
   + (if enabled cfg DELTA then 4 + 12 + 4 + 4 + 4 + 12
      else if enabled cfg HAS_EXTRA_ENDSTOPS then 5 * 4 else 0)
   + (if enabled cfg Z_STEPPER_AUTO_ALIGN
      then 8 * NUM_Z_STEPPER_DRIVERS cfg
         + (if enabled cfg Z_STEPPER_ALIGN_KNOWN_STEPPER_POSITIONS
            then 8 * NUM_Z_STEPPER_DRIVERS cfg else 0)
      else 0)
   + 4 + 4 + 2
   + 20 * HOTENDS cfg + 2
   + 12
   + (if enabled cfg HAS_USER_THERMISTORS
      then sizeof_user_thermistor_t cfg * USER_THERMISTORS cfg else 0)
   + 2
   + sizeof_controllerFan_settings_t cfg
   + 1
   + 32 + 1
   + 1 + 4 * EXTRUDERS cfg
   + 28 + 56 + 8 + 14
   + 4 * max (EXTRUDERS cfg) 1
   + 12
   + 12 * MAX_COORDINATE_SYSTEMS cfg
   + 12
   + (if 0 < EXTRUDERS cfg then 8 * EXTRUDERS cfg else 0)
   + (if 1 < EXTRUDERS cfg then sizeof_toolchange_settings_t cfg else 0)
   + 12 + 1 + 4
   + (if enabled cfg EXTENSIBLE_UI then eeprom_data_size cfg else 0)
   + (if enabled cfg HAS_CASE_LIGHT_BRIGHTNESS then 1 else 0)"

text \<open>\<^verbatim>\<open>uint16_t MarlinSettings::datasize() { return sizeof(SettingsData); }\<close>\<close>

definition datasize :: "config \<Rightarrow> 16 word" where
  "datasize cfg = of_nat (sizeof_SettingsData cfg)"

subsection \<open>Program state\<close>

text \<open>
  Calls into collaborators outside this file are recorded by name, in call order, next
  to the effect they have on the live variables (where the spec or the call itself
  says which).
\<close>

datatype event = Call string | Message string | Echo int

record MarlinSettings =
  live :: "var \<Rightarrow> byte list"
  eeprom_error :: bool
  validating :: bool
  events :: "event list"
  eeprom_index :: int
  working_crc :: "16 word"

definition call :: "string \<Rightarrow> MarlinSettings \<Rightarrow> MarlinSettings" where
  "call name s = s\<lparr>events := events s @ [Call name]\<rparr>"

definition message :: "string \<Rightarrow> MarlinSettings \<Rightarrow> MarlinSettings" where
  "message txt s = s\<lparr>events := events s @ [Message txt]\<rparr>"

definition assign :: "var \<Rightarrow> byte list \<Rightarrow> MarlinSettings \<Rightarrow> MarlinSettings" where
  "assign v bs s = s\<lparr>live := (live s)(v := bs)\<rparr>"

text \<open>A step compiled in only under a preprocessor condition.\<close>

definition ifdef :: "bool \<Rightarrow> (MarlinSettings \<Rightarrow> MarlinSettings) \<Rightarrow> MarlinSettings \<Rightarrow> MarlinSettings" where
  "ifdef c f s = (if c then f s else s)"

text \<open>\<^verbatim>\<open>DEBUG_ECHO\<dots>\<close> print only with \<^verbatim>\<open>EEPROM_CHITCHAT\<close>; \<open>debug\<close> logs the text
  of one such line, \<open>debug_echo\<close> a number printed with \<^verbatim>\<open>DEBUG_ECHO\<close>.\<close>

definition debug :: "config \<Rightarrow> string \<Rightarrow> MarlinSettings \<Rightarrow> MarlinSettings" where
  "debug cfg txt s = (if enabled cfg EEPROM_CHITCHAT then message txt s else s)"

definition debug_echo :: "config \<Rightarrow> int \<Rightarrow> MarlinSettings \<Rightarrow> MarlinSettings" where
  "debug_echo cfg n s =
     (if enabled cfg EEPROM_CHITCHAT then s\<lparr>events := events s @ [Echo n]\<rparr> else s)"

text \<open>
  \<^verbatim>\<open>EEPROM_WRITE(VAR)\<close> and the driver calls copy \<^verbatim>\<open>sizeof(VAR)\<close> bytes: \<open>img n bs\<close>
  is the image of a variable of \<open>n\<close> bytes.
\<close>

definition img :: "nat \<Rightarrow> byte list \<Rightarrow> byte list" where
  "img n bs = take n bs @ replicate (n - length bs) 0"

text \<open>\<^verbatim>\<open>bool MarlinSettings::size_error(const uint16_t size)\<close>\<close>

definition size_error :: "config \<Rightarrow> 16 word \<Rightarrow> bool" where
  "size_error cfg size16 = (size16 \<noteq> datasize cfg)"

subsection \<open>Mesh slots (AUTO_BED_LEVELING_UBL)\<close>

text \<open>\<^verbatim>\<open>sizeof(ubl.z_values)\<close>: a grid of floats.\<close>

definition sizeof_ubl_z_values :: "config \<Rightarrow> nat" where
  "sizeof_ubl_z_values cfg = 4 * (GRID_MAX_POINTS_X cfg * GRID_MAX_POINTS_Y cfg)"

text \<open>\<^verbatim>\<open>const uint16_t MarlinSettings::meshes_end = persistentStore.capacity() - 129;\<close>\<close>

definition meshes_end :: "persistentStore \<Rightarrow> 16 word" where
  "meshes_end ps = of_int (int (capacity ps) - 129)"

text \<open>\<^verbatim>\<open>return (datasize() + EEPROM_OFFSET + 32) & 0xFFF8;\<close>\<close>

definition meshes_start_index :: "config \<Rightarrow> 16 word" where
  "meshes_start_index cfg = of_int (uint (datasize cfg) + EEPROM_OFFSET + 32) AND 0xFFF8"

text \<open>
  \<^verbatim>\<open>return (meshes_end - meshes_start_index()) / sizeof(ubl.z_values);\<close>
  The two \<^verbatim>\<open>uint16_t\<close> operands are promoted: to \<^verbatim>\<open>int\<close> where \<^verbatim>\<open>int\<close> is wider than
  16 bits (the difference may then be negative), to \<^verbatim>\<open>unsigned int\<close> where it is not
  (the difference wraps at 16 bits). The difference is converted to \<^verbatim>\<open>size_t\<close>, the
  type of \<^verbatim>\<open>sizeof\<close>, for the unsigned division, and the quotient is returned as
  \<^verbatim>\<open>uint16_t\<close>.
\<close>

definition calc_num_meshes :: "config \<Rightarrow> persistentStore \<Rightarrow> 16 word" where
  "calc_num_meshes cfg ps =
     (let d = uint (meshes_end ps) - uint (meshes_start_index cfg);
          promoted = (if 2 < sizeof_int cfg then d else d mod 2 ^ 16)
      in of_int ((promoted mod 2 ^ (8 * sizeof_size_t cfg)) div int (sizeof_ubl_z_values cfg)))"

text \<open>\<^verbatim>\<open>return meshes_end - (slot + 1) * sizeof(ubl.z_values);\<close> with an
  \<^verbatim>\<open>int8_t\<close> slot: the product and the difference are computed in \<^verbatim>\<open>size_t\<close>, and
  the result is converted to \<^verbatim>\<open>int\<close>.\<close>

definition mesh_slot_offset :: "config \<Rightarrow> persistentStore \<Rightarrow> 8 word \<Rightarrow> int" where
  "mesh_slot_offset cfg ps slot =
     signed_take_bit (8 * sizeof_int cfg - 1)
       ((uint (meshes_end ps) - (sint slot + 1) * int (sizeof_ubl_z_values cfg))
          mod 2 ^ (8 * sizeof_size_t cfg))"

text \<open>\<^verbatim>\<open>#define WITHIN(N,L,H) ((N) >= (L) && (N) <= (H))\<close>\<close>

definition WITHIN :: "int \<Rightarrow> int \<Rightarrow> int \<Rightarrow> bool" where
  "WITHIN n l h = (l \<le> n \<and> n \<le> h)"

text \<open>\<^verbatim>\<open>inline void ubl_invalid_slot(const int s)\<close>: three debug prints, nothing
  without \<^verbatim>\<open>EEPROM_CHITCHAT\<close>.\<close>

definition ubl_invalid_slot :: "config \<Rightarrow> int \<Rightarrow> MarlinSettings \<Rightarrow> MarlinSettings" where
  "ubl_invalid_slot cfg a s =
     debug cfg '' mesh slots available.'' (debug_echo cfg a (debug cfg ''?Invalid slot.'' s))"

text \<open>\<^verbatim>\<open>void MarlinSettings::store_mesh(const int8_t slot)\<close>: \<open>a\<close> is the slot count
  read as \<^verbatim>\<open>int16_t\<close>.\<close>

definition store_mesh :: "config \<Rightarrow> 8 word \<Rightarrow> MarlinSettings \<times> persistentStore
    \<Rightarrow> MarlinSettings \<times> persistentStore" where
  "store_mesh cfg slot sp =
     (let (s, ps) = sp in
      if \<not> enabled cfg AUTO_BED_LEVELING_UBL then (s, ps)
      else
        let a = sint (calc_num_meshes cfg ps) in
        if \<not> WITHIN (sint slot) 0 (a - 1)
        then (debug cfg ''E2END= meshes_end= slot='' (ubl_invalid_slot cfg a s), ps)
        else
          let pos = mesh_slot_offset cfg ps slot;
              s1 = call ''persistentStore.access_start'' s;
              (status, pos', crc, ps') =
                 write_data ps pos (img (sizeof_ubl_z_values cfg) (live s ubl_z_values)) 0;
              s2 = call ''persistentStore.access_finish'' s1
          in (if status then message ''?Unable to save mesh data.'' s2
              else debug cfg ''Mesh saved in slot '' s2, ps'))"

text \<open>\<^verbatim>\<open>void MarlinSettings::load_mesh(const int8_t slot, void * const into)\<close>:
  \<open>into\<close> is the optional destination; the default is \<^verbatim>\<open>ubl.z_values\<close>.\<close>

definition load_mesh :: "config \<Rightarrow> 8 word \<Rightarrow> var option \<Rightarrow> persistentStore \<Rightarrow> MarlinSettings
    \<Rightarrow> MarlinSettings" where
  "load_mesh cfg slot into ps s =
     (if \<not> enabled cfg AUTO_BED_LEVELING_UBL then s
      else
        let a = sint (calc_num_meshes cfg ps) in
        if \<not> WITHIN (sint slot) 0 (a - 1)
        then ubl_invalid_slot cfg a s
        else
          let pos = mesh_slot_offset cfg ps slot;
              dest = (case into of Some d \<Rightarrow> d | None \<Rightarrow> ubl_z_values);
              s1 = call ''persistentStore.access_start'' s;
              (status, pos', crc, buf) =
                 read_data ps pos (live s1 dest) (sizeof_ubl_z_values cfg) 0 True;
              s2 = call ''persistentStore.access_finish'' (assign dest buf s1);
              s3 = (if status then message ''?Unable to load mesh data.'' s2
                    else debug cfg ''Mesh loaded from slot '' s2)
          in call ''persistentStore.access_finish'' s3)"

subsection \<open>M500: the fields \<^verbatim>\<open>save()\<close> streams\<close>

text \<open>
  Each block below lists, in source order, the byte ranges its \<^verbatim>\<open>EEPROM_WRITE\<close> calls
  send, one list element per call.
\<close>

definition zeros :: "nat \<Rightarrow> byte list" where
  "zeros n = replicate n 0"

definition u8 :: "nat \<Rightarrow> byte list" where
  "u8 n = [of_nat n]"

definition save_planner_motion :: "config \<Rightarrow> (var \<Rightarrow> byte list) \<Rightarrow> byte list list" where
  "save_planner_motion cfg lv =
     [ img (4 * XYZE_N cfg) (lv planner_settings_max_acceleration_mm_per_s2)
       @ img 4 (lv planner_settings_min_segment_time_us)
       @ img (4 * XYZE_N cfg) (lv planner_settings_axis_steps_per_mm)
       @ img (4 * XYZE_N cfg) (lv planner_settings_max_feedrate_mm_s)
       @ img 4 (lv planner_settings_acceleration)
       @ img 4 (lv planner_settings_retract_acceleration)
       @ img 4 (lv planner_settings_travel_acceleration)
       @ img 4 (lv planner_settings_min_feedrate_mm_s)
       @ img 4 (lv planner_settings_min_travel_feedrate_mm_s) ]
   @ (if enabled cfg HAS_CLASSIC_JERK
      then (if enabled cfg HAS_LINEAR_E_JERK
            then [img 12 (lv planner_max_jerk), img 4 (DEFAULT_EJERK cfg)]
            else [img 16 (lv planner_max_jerk)])
      else [le32 0x41200000 @ le32 0x41200000 @ le32 0x3ECCCCCD @ img 4 (DEFAULT_EJERK cfg)])
   @ [if enabled cfg CLASSIC_JERK then le32 0x3CA3D70A
      else img 4 (lv planner_junction_deviation_mm)]"

definition save_home_offset :: "config \<Rightarrow> (var \<Rightarrow> byte list) \<Rightarrow> byte list list" where
  "save_home_offset cfg lv =
     [if enabled cfg HAS_SCARA_OFFSET then img 12 (lv scara_home_offset)
      else if \<not> enabled cfg HAS_HOME_OFFSET then zeros 12
      else img 12 (lv home_offset)]
   @ (if enabled cfg HAS_HOTEND_OFFSET
      then map (\<lambda>e. img 12 (lv (hotend_offset e))) [1..<HOTENDS cfg] else [])"

definition save_runout :: "config \<Rightarrow> (var \<Rightarrow> byte list) \<Rightarrow> byte list list" where
  "save_runout cfg lv =
     [if enabled cfg HAS_FILAMENT_SENSOR then img 1 (lv runout_enabled) else bool_byte True,
      if enabled cfg HAS_FILAMENT_SENSOR \<and> enabled cfg FILAMENT_RUNOUT_DISTANCE_MM
      then img 4 (lv runout_distance_mm) else le32 0]"

definition save_global_leveling :: "config \<Rightarrow> (var \<Rightarrow> byte list) \<Rightarrow> byte list list" where
  "save_global_leveling cfg lv =
     [if enabled cfg ENABLE_LEVELING_FADE_HEIGHT then img 4 (lv planner_z_fade_height)
      else le32 0x41200000]"

definition save_mesh_bed_leveling :: "config \<Rightarrow> (var \<Rightarrow> byte list) \<Rightarrow> byte list list" where
  "save_mesh_bed_leveling cfg lv =
     (let (mesh_num_x, mesh_num_y) = mesh_num cfg in
      [if enabled cfg MESH_BED_LEVELING then img 4 (lv mbl_z_offset) else le32 0,
       u8 mesh_num_x, u8 mesh_num_y]
    @ (if enabled cfg MESH_BED_LEVELING
       then [img (4 * (GRID_MAX_POINTS_X cfg * GRID_MAX_POINTS_Y cfg)) (lv mbl_z_values)]
       else replicate (mesh_num_x * mesh_num_y) (le32 0)))"

definition save_probe_offset :: "config \<Rightarrow> (var \<Rightarrow> byte list) \<Rightarrow> byte list list" where
  "save_probe_offset cfg lv =
     [if enabled cfg HAS_BED_PROBE then img 12 (lv probe_offset) else zeros 12]"

definition save_planar :: "config \<Rightarrow> (var \<Rightarrow> byte list) \<Rightarrow> byte list list" where
  "save_planar cfg lv =
     (if enabled cfg ABL_PLANAR then [img 36 (lv planner_bed_level_matrix)]
      else replicate 9 (le32 0))"

definition save_bilinear :: "config \<Rightarrow> (var \<Rightarrow> byte list) \<Rightarrow> byte list list" where
  "save_bilinear cfg lv =
     (let (grid_max_x, grid_max_y) = grid_max cfg in
      [u8 grid_max_x, u8 grid_max_y,
       if enabled cfg AUTO_BED_LEVELING_BILINEAR then img 8 (lv bilinear_grid_spacing)
       else zeros 8,
       if enabled cfg AUTO_BED_LEVELING_BILINEAR then img 8 (lv bilinear_start) else zeros 8]
    @ (if enabled cfg AUTO_BED_LEVELING_BILINEAR
       then [img (4 * (GRID_MAX_POINTS_X cfg * GRID_MAX_POINTS_Y cfg)) (lv z_values)]
       else replicate (grid_max_x * grid_max_y) (le32 0)))"

definition save_ubl :: "config \<Rightarrow> (var \<Rightarrow> byte list) \<Rightarrow> byte list list" where
  "save_ubl cfg lv =
     [if enabled cfg AUTO_BED_LEVELING_UBL then img 1 (lv planner_leveling_active)
      else bool_byte False,
      if enabled cfg AUTO_BED_LEVELING_UBL then img 1 (lv ubl_storage_slot) else [- 1]]"

definition save_servo_angles :: "config \<Rightarrow> (var \<Rightarrow> byte list) \<Rightarrow> byte list list" where
  "save_servo_angles cfg lv =
     [if \<not> enabled cfg HAS_SERVO_ANGLES then zeros (2 * (EEPROM_NUM_SERVOS cfg * 2))
      else img (2 * (EEPROM_NUM_SERVOS cfg * 2)) (lv servo_angles)]"

definition save_temp_comp :: "config \<Rightarrow> (var \<Rightarrow> byte list) \<Rightarrow> byte list list" where
  "save_temp_comp cfg lv =
     (if enabled cfg PROBE_TEMP_COMPENSATION
      then [img (2 * COUNT_z_offsets_probe cfg) (lv temp_comp_z_offsets_probe),
            img (2 * COUNT_z_offsets_bed cfg) (lv temp_comp_z_offsets_bed)]
         @ (if enabled cfg USE_TEMP_EXT_COMPENSATION
            then [img (2 * COUNT_z_offsets_ext cfg) (lv temp_comp_z_offsets_ext)] else [])
      else [])"

definition save_bltouch :: "config \<Rightarrow> (var \<Rightarrow> byte list) \<Rightarrow> byte list list" where
  "save_bltouch cfg lv =
     [if enabled cfg BLTOUCH then img 1 (lv bltouch_last_written_mode) else bool_byte False]"

definition save_endstops :: "config \<Rightarrow> (var \<Rightarrow> byte list) \<Rightarrow> byte list list" where
  "save_endstops cfg lv =
     (if enabled cfg DELTA
      then [img 4 (lv delta_height), img 12 (lv delta_endstop_adj), img 4 (lv delta_radius),
            img 4 (lv delta_diagonal_rod), img 4 (lv delta_segments_per_second),
            img 12 (lv delta_tower_angle_trim)]
      else if enabled cfg HAS_EXTRA_ENDSTOPS
      then [if enabled cfg X_DUAL_ENDSTOPS then img 4 (lv endstops_x2_endstop_adj) else le32 0,
            if enabled cfg Y_DUAL_ENDSTOPS then img 4 (lv endstops_y2_endstop_adj) else le32 0,
            if enabled cfg Z_MULTI_ENDSTOPS then img 4 (lv endstops_z2_endstop_adj) else le32 0,
            if enabled cfg Z_MULTI_ENDSTOPS \<and> 3 \<le> NUM_Z_STEPPER_DRIVERS cfg
            then img 4 (lv endstops_z3_endstop_adj) else le32 0,
            if enabled cfg Z_MULTI_ENDSTOPS \<and> 4 \<le> NUM_Z_STEPPER_DRIVERS cfg
            then img 4 (lv endstops_z4_endstop_adj) else le32 0]
      else [])"

definition save_z_stepper_align :: "config \<Rightarrow> (var \<Rightarrow> byte list) \<Rightarrow> byte list list" where
  "save_z_stepper_align cfg lv =
     (if enabled cfg Z_STEPPER_AUTO_ALIGN
      then [img (8 * NUM_Z_STEPPER_DRIVERS cfg) (lv z_stepper_align_xy)]
         @ (if enabled cfg Z_STEPPER_ALIGN_KNOWN_STEPPER_POSITIONS
            then [img (8 * NUM_Z_STEPPER_DRIVERS cfg) (lv z_stepper_align_stepper_xy)] else [])
      else [])"

definition save_preheat :: "config \<Rightarrow> (var \<Rightarrow> byte list) \<Rightarrow> byte list list" where
  "save_preheat cfg lv =
     (let src = (if 0 < HOTENDS cfg \<and> enabled cfg HAS_LCD_MENU then lv else hardcoded cfg) in
      [img 4 (src ui_preheat_hotend_temp), img 4 (src ui_preheat_bed_temp),
       img 2 (src ui_preheat_fan_speed)])"

definition save_hotend_pid :: "config \<Rightarrow> (var \<Rightarrow> byte list) \<Rightarrow> byte list list" where
  "save_hotend_pid cfg lv =
     map (\<lambda>e. if \<not> enabled cfg PIDTEMP then NAN @ NAN @ NAN @ NAN @ NAN
              else img 4 (lv (PID_Kp e))
                 @ img 4 (unscalePID_i cfg (lv (PID_Ki e)))
                 @ img 4 (unscalePID_d cfg (lv (PID_Kd e)))
                 @ img 4 (lv (PID_Kc e))
                 @ img 4 (lv (PID_Kf e))) [0..<HOTENDS cfg]
   @ [if enabled cfg PID_EXTRUSION_SCALING then img 2 (lv thermalManager_lpq_len)
      else le16 20]"

definition save_bed_pid :: "config \<Rightarrow> (var \<Rightarrow> byte list) \<Rightarrow> byte list list" where
  "save_bed_pid cfg lv =
     [if \<not> enabled cfg PIDTEMPBED then NAN @ NAN @ NAN
      else img 4 (lv temp_bed_pid_Kp)
         @ img 4 (unscalePID_i cfg (lv temp_bed_pid_Ki))
         @ img 4 (unscalePID_d cfg (lv temp_bed_pid_Kd))]"

definition save_user_thermistors :: "config \<Rightarrow> (var \<Rightarrow> byte list) \<Rightarrow> byte list list" where
  "save_user_thermistors cfg lv =
     (if enabled cfg HAS_USER_THERMISTORS
      then [img (sizeof_user_thermistor_t cfg * USER_THERMISTORS cfg)
              (lv thermalManager_user_thermistor)]
      else [])"

definition save_lcd_contrast :: "config \<Rightarrow> (var \<Rightarrow> byte list) \<Rightarrow> byte list list" where
  "save_lcd_contrast cfg lv =
     [if enabled cfg HAS_LCD_CONTRAST then img 2 (lv ui_contrast) else le16 127]"

definition save_controller_fan :: "config \<Rightarrow> (var \<Rightarrow> byte list) \<Rightarrow> byte list list" where
  "save_controller_fan cfg lv =
     [img (sizeof_controllerFan_settings_t cfg)
        (if enabled cfg USE_CONTROLLER_FAN then lv controllerFan_settings
         else hardcoded cfg controllerFan_settings)]"

definition save_power_loss :: "config \<Rightarrow> (var \<Rightarrow> byte list) \<Rightarrow> byte list list" where
  "save_power_loss cfg lv =
     [if enabled cfg POWER_LOSS_RECOVERY then img 1 (lv recovery_enabled)
      else bool_byte (enabled cfg PLR_ENABLED_DEFAULT)]"

text \<open>\<^verbatim>\<open>autoretract_defaults = { 3, 45, 0, 0, 0, 13, 0, 8 }\<close>, eight floats.\<close>

definition autoretract_defaults :: "byte list" where
  "autoretract_defaults = le32 0x40400000 @ le32 0x42340000 @ le32 0 @ le32 0 @ le32 0
     @ le32 0x41500000 @ le32 0 @ le32 0x41000000"

definition save_fwretract :: "config \<Rightarrow> (var \<Rightarrow> byte list) \<Rightarrow> byte list list" where
  "save_fwretract cfg lv =
     [if enabled cfg FWRETRACT then img 32 (lv fwretract_settings) else autoretract_defaults,
      if enabled cfg FWRETRACT_AUTORETRACT then img 1 (lv fwretract_autoretract_enabled)
      else bool_byte False]"

definition save_volumetric :: "config \<Rightarrow> (var \<Rightarrow> byte list) \<Rightarrow> byte list list" where
  "save_volumetric cfg lv =
     (if \<not> enabled cfg NO_VOLUMETRICS
      then [img 1 (lv parser_volumetric_enabled),
            img (4 * EXTRUDERS cfg) (lv planner_filament_size)]
      else bool_byte False
         # replicate (EXTRUDERS cfg) (img 4 (DEFAULT_NOMINAL_FILAMENT_DIA cfg)))"

definition save_tmc :: "config \<Rightarrow> (var \<Rightarrow> byte list) \<Rightarrow> byte list list" where
  "save_tmc cfg lv =
     [concat (map (\<lambda>ax. if enabled cfg HAS_TRINAMIC_CONFIG \<and> AXIS_IS_TMC cfg ax
                         then img 2 (lv (stepper_milliamps ax)) else le16 0) tmc_axes),
      if enabled cfg HYBRID_THRESHOLD
      then concat (map (\<lambda>ax. if AXIS_HAS_STEALTHCHOP cfg ax
                              then img 4 (lv (stepper_pwm_thrs ax)) else le32 0) tmc_axes)
      else le32 100 @ le32 100 @ le32 3 @ le32 100 @ le32 100 @ le32 3 @ le32 3 @ le32 3
         @ le32 30 @ le32 30 @ le32 30 @ le32 30 @ le32 30 @ le32 30,
      (if enabled cfg USE_SENSORLESS \<and> enabled cfg X_SENSORLESS
       then img 2 (lv (stepper_homing_threshold stepperX)) else le16 0)
    @ (if enabled cfg USE_SENSORLESS \<and> enabled cfg Y_SENSORLESS
       then img 2 (lv (stepper_homing_threshold stepperY)) else le16 0)
    @ (if enabled cfg USE_SENSORLESS \<and> enabled cfg Z_SENSORLESS
       then img 2 (lv (stepper_homing_threshold stepperZ)) else le16 0)
    @ (if enabled cfg USE_SENSORLESS \<and> enabled cfg X2_SENSORLESS
       then img 2 (lv (stepper_homing_threshold stepperX2)) else le16 0),
      concat (map (\<lambda>ax. if enabled cfg HAS_STEALTHCHOP \<and> AXIS_HAS_STEALTHCHOP cfg ax
                         then img 1 (lv (stepper_stealthChop_enabled ax))
                         else bool_byte False) tmc_axes)]"

definition save_lin_advance :: "config \<Rightarrow> (var \<Rightarrow> byte list) \<Rightarrow> byte list list" where
  "save_lin_advance cfg lv =
     (if enabled cfg LIN_ADVANCE
      then [img (4 * max (EXTRUDERS cfg) 1) (lv planner_extruder_advance_K)]
      else replicate (max (EXTRUDERS cfg) 1) (le32 0))"

definition save_motor_current :: "config \<Rightarrow> (var \<Rightarrow> byte list) \<Rightarrow> byte list list" where
  "save_motor_current cfg lv =
     [if enabled cfg HAS_MOTOR_CURRENT_PWM then img 12 (lv stepper_motor_current_setting)
      else zeros 12]"

definition save_coordinate_system :: "config \<Rightarrow> (var \<Rightarrow> byte list) \<Rightarrow> byte list list" where
  "save_coordinate_system cfg lv =
     [if enabled cfg CNC_COORDINATE_SYSTEMS
      then img (12 * MAX_COORDINATE_SYSTEMS cfg) (lv gcode_coordinate_system)
      else zeros (12 * MAX_COORDINATE_SYSTEMS cfg)]"

definition save_skew :: "config \<Rightarrow> (var \<Rightarrow> byte list) \<Rightarrow> byte list list" where
  "save_skew cfg lv = [img 12 (lv planner_skew_factor)]"

definition save_fc_settings :: "config \<Rightarrow> (var \<Rightarrow> byte list) \<Rightarrow> byte list list" where
  "save_fc_settings cfg lv =
     (if 0 < EXTRUDERS cfg
      then [if \<not> enabled cfg ADVANCED_PAUSE_FEATURE then zeros (8 * EXTRUDERS cfg)
            else img (8 * EXTRUDERS cfg) (lv fc_settings)]
      else [])"

definition save_toolchange :: "config \<Rightarrow> (var \<Rightarrow> byte list) \<Rightarrow> byte list list" where
  "save_toolchange cfg lv =
     (if 1 < EXTRUDERS cfg
      then [img (sizeof_toolchange_settings_t cfg) (lv toolchange_settings)] else [])"

definition save_backlash :: "config \<Rightarrow> (var \<Rightarrow> byte list) \<Rightarrow> byte list list" where
  "save_backlash cfg lv =
     [if enabled cfg BACKLASH_GCODE then img 12 (lv backlash_distance_mm) else zeros 12,
      if enabled cfg BACKLASH_GCODE then img 1 (lv backlash_correction) else [0],
      if enabled cfg BACKLASH_GCODE \<and> enabled cfg BACKLASH_SMOOTHING_MM
      then img 4 (lv backlash_smoothing_mm) else le32 0x40400000]"

text \<open>\<^verbatim>\<open>ExtUI::onStoreSettings(extui_data)\<close> fills the buffer from the user interface's
  own data, kept here in the variable \<open>extui_data\<close>.\<close>

definition save_extui :: "config \<Rightarrow> (var \<Rightarrow> byte list) \<Rightarrow> byte list list" where
  "save_extui cfg lv =
     (if enabled cfg EXTENSIBLE_UI then [img (eeprom_data_size cfg) (lv extui_data)] else [])"

definition save_case_light :: "config \<Rightarrow> (var \<Rightarrow> byte list) \<Rightarrow> byte list list" where
  "save_case_light cfg lv =
     (if enabled cfg HAS_CASE_LIGHT_BRIGHTNESS then [img 1 (lv case_light_brightness)] else [])"

text \<open>The whole body, from \<^verbatim>\<open>esteppers\<close> on, in the order \<^verbatim>\<open>save()\<close> walks it.\<close>

definition save_fields :: "config \<Rightarrow> (var \<Rightarrow> byte list) \<Rightarrow> byte list list" where
  "save_fields cfg lv =
     [u8 (XYZE_N cfg - XYZ)]
   @ save_planner_motion cfg lv
   @ save_home_offset cfg lv
   @ save_runout cfg lv
   @ save_global_leveling cfg lv
   @ save_mesh_bed_leveling cfg lv
   @ save_probe_offset cfg lv
   @ save_planar cfg lv
   @ save_bilinear cfg lv
   @ save_ubl cfg lv
   @ save_servo_angles cfg lv
   @ save_temp_comp cfg lv
   @ save_bltouch cfg lv
   @ save_endstops cfg lv
   @ save_z_stepper_align cfg lv
   @ save_preheat cfg lv
   @ save_hotend_pid cfg lv
   @ save_bed_pid cfg lv
   @ save_user_thermistors cfg lv
   @ save_lcd_contrast cfg lv
   @ save_controller_fan cfg lv
   @ save_power_loss cfg lv
   @ save_fwretract cfg lv
   @ save_volumetric cfg lv
   @ save_tmc cfg lv
   @ save_lin_advance cfg lv
   @ save_motor_current cfg lv
   @ save_coordinate_system cfg lv
   @ save_skew cfg lv
   @ save_fc_settings cfg lv
   @ save_toolchange cfg lv
   @ save_backlash cfg lv
   @ save_extui cfg lv
   @ save_case_light cfg lv"

subsection \<open>M500: \<^verbatim>\<open>save()\<close>\<close>

text \<open>\<^verbatim>\<open>EEPROM_WRITE\<close> hands the range to the driver and drops the status it returns.\<close>

definition EEPROM_WRITE :: "byte list \<Rightarrow> MarlinSettings \<times> persistentStore
    \<Rightarrow> MarlinSettings \<times> persistentStore" where
  "EEPROM_WRITE bs sp =
     (let (s, ps) = sp;
          (status, pos', crc', ps') = write_data ps (eeprom_index s) bs (working_crc s)
      in (s\<lparr>eeprom_index := pos', working_crc := crc'\<rparr>, ps'))"

definition EEPROM_SKIP :: "nat \<Rightarrow> MarlinSettings \<Rightarrow> MarlinSettings" where
  "EEPROM_SKIP n s = s\<lparr>eeprom_index := eeprom_index s + int n\<rparr>"

text \<open>An \<^verbatim>\<open>int8_t\<close> variable read as a number.\<close>

definition int8_of :: "byte list \<Rightarrow> int" where
  "int8_of bs = (case bs of [] \<Rightarrow> 0 | b # _ \<Rightarrow> sint b)"

definition ERR :: "byte list" where
  "ERR = [0x45, 0x52, 0x52, 0]"

definition save_header :: "config \<Rightarrow> MarlinSettings \<times> persistentStore
    \<Rightarrow> MarlinSettings \<times> persistentStore" where
  "save_header cfg sp =
     (let (s, ps) = sp;
          s0 = s\<lparr>eeprom_index := EEPROM_OFFSET, eeprom_error := False\<rparr>;
          (s1, ps1) = (if enabled cfg FLASH_EEPROM_EMULATION then (EEPROM_SKIP 4 s0, ps)
                       else EEPROM_WRITE ERR (s0, ps))
      in ((EEPROM_SKIP 2 s1)\<lparr>working_crc := 0\<rparr>, ps1))"

text \<open>The body of \<^verbatim>\<open>save()\<close>. Its one call into a subsystem,
  \<^verbatim>\<open>ExtUI::onStoreSettings(extui_data)\<close>, is logged ahead of the writes (which log
  nothing); the buffer it fills is the image \<open>save_extui\<close> streams.\<close>

definition save_body :: "config \<Rightarrow> MarlinSettings \<times> persistentStore
    \<Rightarrow> MarlinSettings \<times> persistentStore" where
  "save_body cfg sp =
     foldl (\<lambda>sp bs. EEPROM_WRITE bs sp)
       (ifdef (enabled cfg EXTENSIBLE_UI) (call ''ExtUI::onStoreSettings'') (fst sp), snd sp)
       (save_fields cfg (live (fst sp)))"

definition save_finish :: "config \<Rightarrow> MarlinSettings \<times> persistentStore
    \<Rightarrow> MarlinSettings \<times> persistentStore" where
  "save_finish cfg sp =
     (let (s, ps) = sp in
      if \<not> eeprom_error s
      then
        let eeprom_size = (of_int (eeprom_index s - EEPROM_OFFSET) :: 16 word);
            final_crc = working_crc s;
            (s', ps') = EEPROM_WRITE (le16 final_crc)
                          (EEPROM_WRITE version (s\<lparr>eeprom_index := EEPROM_OFFSET\<rparr>, ps))
        in (s'\<lparr>eeprom_error := (eeprom_error s' \<or> size_error cfg eeprom_size)\<rparr>, ps')
      else (s, ps))"

definition save :: "config \<Rightarrow> MarlinSettings \<times> persistentStore
    \<Rightarrow> bool \<times> MarlinSettings \<times> persistentStore" where
  "save cfg sp =
     (let (s, ps) = sp in
      if \<not> access_start ps then (False, message ''No EEPROM.'' s, ps)
      else
        let (s4, ps4) = save_finish cfg (save_body cfg (save_header cfg
                          (call ''persistentStore.access_start'' (s\<lparr>working_crc := 0\<rparr>), ps)));
            s5 = call ''persistentStore.access_finish'' s4;
            (s6, ps6) = (if enabled cfg UBL_SAVE_ACTIVE_ON_M500
                           \<and> 0 \<le> int8_of (live s5 ubl_storage_slot)
                         then store_mesh cfg (of_int (int8_of (live s5 ubl_storage_slot))) (s5, ps4)
                         else (s5, ps4));
            s7 = (if enabled cfg EXTENSIBLE_UI
                  then call ''ExtUI::onConfigurationStoreWritten'' s6 else s6)
        in (\<not> eeprom_error s7, s7, ps6))"

subsection \<open>M501: the field walk of \<^verbatim>\<open>_load()\<close>\<close>

text \<open>
  \<^verbatim>\<open>EEPROM_READ(VAR)\<close> passes \<^verbatim>\<open>!validating\<close> as the driver's \<open>writing\<close> flag,
  \<^verbatim>\<open>EEPROM_READ_ALWAYS(VAR)\<close> lets it default to true. \<open>buf\<close> is the destination as it
  is before the call. \<open>READ_var\<close> is \<^verbatim>\<open>EEPROM_READ\<close> on a live variable (or on a
  reference to one), \<open>READ_dummy\<close> is \<^verbatim>\<open>EEPROM_READ\<close> on a local that is not looked at
  afterwards.
\<close>

definition EEPROM_READ :: "persistentStore \<Rightarrow> nat \<Rightarrow> byte list \<Rightarrow> MarlinSettings
    \<Rightarrow> byte list \<times> MarlinSettings" where
  "EEPROM_READ ps n buf s =
     (let (status, pos', crc', buf') =
            read_data ps (eeprom_index s) buf n (working_crc s) (\<not> validating s)
      in (buf', s\<lparr>eeprom_index := pos', working_crc := crc'\<rparr>))"

definition EEPROM_READ_ALWAYS :: "persistentStore \<Rightarrow> nat \<Rightarrow> MarlinSettings
    \<Rightarrow> byte list \<times> MarlinSettings" where
  "EEPROM_READ_ALWAYS ps n s =
     (let (status, pos', crc', buf') =
            read_data ps (eeprom_index s) [] n (working_crc s) True
      in (buf', s\<lparr>eeprom_index := pos', working_crc := crc'\<rparr>))"

definition READ_var :: "persistentStore \<Rightarrow> var \<Rightarrow> nat \<Rightarrow> MarlinSettings \<Rightarrow> MarlinSettings" where
  "READ_var ps v n s = (let r = EEPROM_READ ps n (live s v) s in assign v (fst r) (snd r))"

definition READ_dummy :: "persistentStore \<Rightarrow> nat \<Rightarrow> MarlinSettings \<Rightarrow> MarlinSettings" where
  "READ_dummy ps n s = snd (EEPROM_READ ps n [] s)"

text \<open>\<open>committing s f\<close> is \<^verbatim>\<open>if (!validating) f\<close>.\<close>

definition committing :: "(MarlinSettings \<Rightarrow> MarlinSettings) \<Rightarrow> MarlinSettings \<Rightarrow> MarlinSettings" where
  "committing f s = (if \<not> validating s then f s else s)"

definition uint8_of :: "byte list \<Rightarrow> nat" where
  "uint8_of bs = (case bs of [] \<Rightarrow> 0 | b # _ \<Rightarrow> unat b)"

text \<open>The reconciliation loop over \<^verbatim>\<open>LOOP_XYZE_N(i)\<close> for one of the three arrays.\<close>

definition reconcile :: "config \<Rightarrow> nat \<Rightarrow> byte list \<Rightarrow> byte list list \<Rightarrow> byte list" where
  "reconcile cfg esteppers tmp dflt =
     concat (map (\<lambda>i. if i < esteppers + XYZ then elem4 tmp i else pgm_read dflt i)
                 [0..<XYZE_N cfg])"

definition load_planner_motion :: "config \<Rightarrow> persistentStore \<Rightarrow> MarlinSettings \<Rightarrow> MarlinSettings" where
  "load_planner_motion cfg ps s =
     (let r0 = EEPROM_READ_ALWAYS ps 1 s;
          esteppers = uint8_of (fst r0);
          r1 = EEPROM_READ ps (4 * (XYZ + esteppers)) [] (snd r0);
          s1 = READ_var ps planner_settings_min_segment_time_us 4 (snd r1);
          r2 = EEPROM_READ ps (4 * (XYZ + esteppers)) [] s1;
          r3 = EEPROM_READ ps (4 * (XYZ + esteppers)) [] (snd r2);
          s3 = committing
                 (assign planner_settings_max_feedrate_mm_s
                    (reconcile cfg esteppers (fst r3) (DEFAULT_MAX_FEEDRATE cfg))
                  \<circ> assign planner_settings_axis_steps_per_mm
                    (reconcile cfg esteppers (fst r2) (DEFAULT_AXIS_STEPS_PER_UNIT cfg))
                  \<circ> assign planner_settings_max_acceleration_mm_per_s2
                    (reconcile cfg esteppers (fst r1) (DEFAULT_MAX_ACCELERATION cfg)))
                 (snd r3);
          s4 = READ_var ps planner_settings_acceleration 4 s3;
          s5 = READ_var ps planner_settings_retract_acceleration 4 s4;
          s6 = READ_var ps planner_settings_travel_acceleration 4 s5;
          s7 = READ_var ps planner_settings_min_feedrate_mm_s 4 s6;
          s8 = READ_var ps planner_settings_min_travel_feedrate_mm_s 4 s7;
          s9 = (if enabled cfg HAS_CLASSIC_JERK
                then (if enabled cfg HAS_LINEAR_E_JERK
                      then READ_dummy ps 4 (READ_var ps planner_max_jerk 12 s8)
                      else READ_var ps planner_max_jerk 16 s8)
                else ((READ_dummy ps 4) ^^ 4) s8)
      in if enabled cfg CLASSIC_JERK then READ_dummy ps 4 s9
         else READ_var ps planner_junction_deviation_mm 4 s9)"

definition load_home_offset :: "config \<Rightarrow> persistentStore \<Rightarrow> MarlinSettings \<Rightarrow> MarlinSettings" where
  "load_home_offset cfg ps s =
     (let s1 = (if enabled cfg HAS_SCARA_OFFSET then READ_var ps scara_home_offset 12 s
                else if \<not> enabled cfg HAS_HOME_OFFSET then READ_dummy ps 12 s
                else READ_var ps home_offset 12 s)
      in if enabled cfg HAS_HOTEND_OFFSET
         then foldl (\<lambda>s e. READ_var ps (hotend_offset e) 12 s) s1 [1..<HOTENDS cfg]
         else s1)"

definition load_runout :: "config \<Rightarrow> persistentStore \<Rightarrow> MarlinSettings \<Rightarrow> MarlinSettings" where
  "load_runout cfg ps s =
     (let s1 = (if enabled cfg HAS_FILAMENT_SENSOR then READ_var ps runout_enabled 1 s
                else READ_dummy ps 1 s);
          r = EEPROM_READ ps 4 [] s1
      in if enabled cfg HAS_FILAMENT_SENSOR \<and> enabled cfg FILAMENT_RUNOUT_DISTANCE_MM
         then committing (assign runout_distance_mm (fst r)) (snd r)
         else snd r)"

definition load_global_leveling :: "config \<Rightarrow> persistentStore \<Rightarrow> MarlinSettings \<Rightarrow> MarlinSettings" where
  "load_global_leveling cfg ps s =
     (if enabled cfg ENABLE_LEVELING_FADE_HEIGHT then READ_var ps new_z_fade_height 4 s
      else READ_dummy ps 4 s)"

text \<open>\<^verbatim>\<open>mbl.reset()\<close> (outside this file): the manual mesh goes back to its flat,
  hardcoded image.\<close>

definition mbl_reset :: "config \<Rightarrow> MarlinSettings \<Rightarrow> MarlinSettings" where
  "mbl_reset cfg s =
     call ''mbl.reset'' (assign mbl_z_values (hardcoded cfg mbl_z_values)
       (assign mbl_z_offset (hardcoded cfg mbl_z_offset) s))"

definition load_mesh_bed_leveling :: "config \<Rightarrow> persistentStore \<Rightarrow> MarlinSettings \<Rightarrow> MarlinSettings" where
  "load_mesh_bed_leveling cfg ps s =
     (let r0 = EEPROM_READ ps 4 [] s;
          dummyf = fst r0;
          rx = EEPROM_READ_ALWAYS ps 1 (snd r0);
          ry = EEPROM_READ_ALWAYS ps 1 (snd rx);
          mesh_num_x = uint8_of (fst rx);
          mesh_num_y = uint8_of (fst ry);
          s1 = snd ry
      in if enabled cfg MESH_BED_LEVELING
         then
           let s2 = committing (assign mbl_z_offset dummyf) s1 in
           if mesh_num_x = GRID_MAX_POINTS_X cfg \<and> mesh_num_y = GRID_MAX_POINTS_Y cfg
           then READ_var ps mbl_z_values (4 * (GRID_MAX_POINTS_X cfg * GRID_MAX_POINTS_Y cfg)) s2
           else ((READ_dummy ps 4) ^^ (mesh_num_x * mesh_num_y)) (committing (mbl_reset cfg) s2)
         else ((READ_dummy ps 4) ^^ (mesh_num_x * mesh_num_y)) s1)"

definition load_probe_offset :: "config \<Rightarrow> persistentStore \<Rightarrow> MarlinSettings \<Rightarrow> MarlinSettings" where
  "load_probe_offset cfg ps s =
     (if enabled cfg HAS_BED_PROBE then READ_var ps probe_offset 12 s else READ_dummy ps 12 s)"

definition load_planar :: "config \<Rightarrow> persistentStore \<Rightarrow> MarlinSettings \<Rightarrow> MarlinSettings" where
  "load_planar cfg ps s =
     (if enabled cfg ABL_PLANAR then READ_var ps planner_bed_level_matrix 36 s
      else ((READ_dummy ps 4) ^^ 9) s)"

text \<open>\<^verbatim>\<open>set_bed_leveling_enabled(false)\<close> (outside this file).\<close>

definition set_bed_leveling_enabled_false :: "MarlinSettings \<Rightarrow> MarlinSettings" where
  "set_bed_leveling_enabled_false s =
     call ''set_bed_leveling_enabled'' (assign planner_leveling_active (bool_byte False) s)"

definition load_bilinear :: "config \<Rightarrow> persistentStore \<Rightarrow> MarlinSettings \<Rightarrow> MarlinSettings" where
  "load_bilinear cfg ps s =
     (let rx = EEPROM_READ_ALWAYS ps 1 s;
          ry = EEPROM_READ_ALWAYS ps 1 (snd rx);
          grid_max_x = uint8_of (fst rx);
          grid_max_y = uint8_of (fst ry);
          s1 = snd ry
      in if enabled cfg AUTO_BED_LEVELING_BILINEAR
            \<and> grid_max_x = GRID_MAX_POINTS_X cfg \<and> grid_max_y = GRID_MAX_POINTS_Y cfg
         then READ_var ps z_values (4 * (GRID_MAX_POINTS_X cfg * GRID_MAX_POINTS_Y cfg))
                (READ_var ps bilinear_start 8
                  (READ_var ps bilinear_grid_spacing 8
                    (committing set_bed_leveling_enabled_false s1)))
         else ((READ_dummy ps 4) ^^ (grid_max_x * grid_max_y))
                (READ_dummy ps 8 (READ_dummy ps 8 s1)))"

definition load_ubl :: "config \<Rightarrow> persistentStore \<Rightarrow> MarlinSettings \<Rightarrow> MarlinSettings" where
  "load_ubl cfg ps s =
     (if enabled cfg AUTO_BED_LEVELING_UBL
      then READ_var ps ubl_storage_slot 1 (READ_var ps planner_leveling_active 1 s)
      else READ_dummy ps 1 (READ_dummy ps 1 s))"

definition load_servo_angles :: "config \<Rightarrow> persistentStore \<Rightarrow> MarlinSettings \<Rightarrow> MarlinSettings" where
  "load_servo_angles cfg ps s =
     (if enabled cfg EDITABLE_SERVO_ANGLES
      then READ_var ps servo_angles (2 * (EEPROM_NUM_SERVOS cfg * 2)) s
      else READ_dummy ps (2 * (EEPROM_NUM_SERVOS cfg * 2)) s)"

text \<open>\<^verbatim>\<open>temp_comp.reset_index()\<close> (outside this file) is called on every pass.\<close>

definition temp_comp_reset_index :: "config \<Rightarrow> MarlinSettings \<Rightarrow> MarlinSettings" where
  "temp_comp_reset_index cfg s =
     call ''temp_comp.reset_index'' (assign temp_comp_index (hardcoded cfg temp_comp_index) s)"

definition load_temp_comp :: "config \<Rightarrow> persistentStore \<Rightarrow> MarlinSettings \<Rightarrow> MarlinSettings" where
  "load_temp_comp cfg ps s =
     (if enabled cfg PROBE_TEMP_COMPENSATION
      then
        let s1 = READ_var ps temp_comp_z_offsets_probe (2 * COUNT_z_offsets_probe cfg) s;
            s2 = READ_var ps temp_comp_z_offsets_bed (2 * COUNT_z_offsets_bed cfg) s1;
            s3 = (if enabled cfg USE_TEMP_EXT_COMPENSATION
                  then READ_var ps temp_comp_z_offsets_ext (2 * COUNT_z_offsets_ext cfg) s2
                  else s2)
        in temp_comp_reset_index cfg s3
      else s)"

definition load_bltouch :: "config \<Rightarrow> persistentStore \<Rightarrow> MarlinSettings \<Rightarrow> MarlinSettings" where
  "load_bltouch cfg ps s =
     (if enabled cfg BLTOUCH then READ_var ps bltouch_last_written_mode 1 s
      else READ_dummy ps 1 s)"

definition load_endstops :: "config \<Rightarrow> persistentStore \<Rightarrow> MarlinSettings \<Rightarrow> MarlinSettings" where
  "load_endstops cfg ps s =
     (if enabled cfg DELTA
      then READ_var ps delta_tower_angle_trim 12
             (READ_var ps delta_segments_per_second 4
               (READ_var ps delta_diagonal_rod 4
                 (READ_var ps delta_radius 4
                   (READ_var ps delta_endstop_adj 12
                     (READ_var ps delta_height 4 s)))))
      else if enabled cfg HAS_EXTRA_ENDSTOPS
      then
        let s1 = (if enabled cfg X_DUAL_ENDSTOPS then READ_var ps endstops_x2_endstop_adj 4 s
                  else READ_dummy ps 4 s);
            s2 = (if enabled cfg Y_DUAL_ENDSTOPS then READ_var ps endstops_y2_endstop_adj 4 s1
                  else READ_dummy ps 4 s1);
            s3 = (if enabled cfg Z_MULTI_ENDSTOPS then READ_var ps endstops_z2_endstop_adj 4 s2
                  else READ_dummy ps 4 s2);
            s4 = (if enabled cfg Z_MULTI_ENDSTOPS \<and> 3 \<le> NUM_Z_STEPPER_DRIVERS cfg
                  then READ_var ps endstops_z3_endstop_adj 4 s3 else READ_dummy ps 4 s3)
        in if enabled cfg Z_MULTI_ENDSTOPS \<and> 4 \<le> NUM_Z_STEPPER_DRIVERS cfg
           then READ_var ps endstops_z4_endstop_adj 4 s4 else READ_dummy ps 4 s4
      else s)"

definition load_z_stepper_align :: "config \<Rightarrow> persistentStore \<Rightarrow> MarlinSettings \<Rightarrow> MarlinSettings" where
  "load_z_stepper_align cfg ps s =
     (if enabled cfg Z_STEPPER_AUTO_ALIGN
      then
        let s1 = READ_var ps z_stepper_align_xy (8 * NUM_Z_STEPPER_DRIVERS cfg) s
        in if enabled cfg Z_STEPPER_ALIGN_KNOWN_STEPPER_POSITIONS
           then READ_var ps z_stepper_align_stepper_xy (8 * NUM_Z_STEPPER_DRIVERS cfg) s1
           else s1
      else s)"

definition load_preheat :: "config \<Rightarrow> persistentStore \<Rightarrow> MarlinSettings \<Rightarrow> MarlinSettings" where
  "load_preheat cfg ps s =
     (if 0 < HOTENDS cfg \<and> enabled cfg HAS_LCD_MENU
      then READ_var ps ui_preheat_fan_speed 2
             (READ_var ps ui_preheat_bed_temp 4 (READ_var ps ui_preheat_hotend_temp 4 s))
      else READ_dummy ps 2 (READ_dummy ps 4 (READ_dummy ps 4 s)))"

text \<open>One turn of \<^verbatim>\<open>HOTEND_LOOP()\<close>: the gains go live only on a committing pass and
  when the stored \<^verbatim>\<open>Kp\<close> is a number.\<close>

definition load_pidcf :: "config \<Rightarrow> persistentStore \<Rightarrow> MarlinSettings \<Rightarrow> nat \<Rightarrow> MarlinSettings" where
  "load_pidcf cfg ps s e =
     (let r = EEPROM_READ ps 20 [] s;
          pidcf = fst r
      in if enabled cfg PIDTEMP \<and> \<not> validating (snd r) \<and> \<not> isnan (elem4 pidcf 0)
         then
           let s1 = assign (PID_Kd e) (scalePID_d cfg (elem4 pidcf 2))
                      (assign (PID_Ki e) (scalePID_i cfg (elem4 pidcf 1))
                        (assign (PID_Kp e) (elem4 pidcf 0) (snd r)));
               s2 = (if enabled cfg PID_EXTRUSION_SCALING
                     then assign (PID_Kc e) (elem4 pidcf 3) s1 else s1)
           in if enabled cfg PID_FAN_SCALING then assign (PID_Kf e) (elem4 pidcf 4) s2 else s2
         else snd r)"

definition load_hotend_pid :: "config \<Rightarrow> persistentStore \<Rightarrow> MarlinSettings \<Rightarrow> MarlinSettings" where
  "load_hotend_pid cfg ps s =
     (let s1 = foldl (load_pidcf cfg ps) s [0..<HOTENDS cfg]
      in if enabled cfg PID_EXTRUSION_SCALING then READ_var ps thermalManager_lpq_len 2 s1
         else READ_dummy ps 2 s1)"

definition load_bed_pid :: "config \<Rightarrow> persistentStore \<Rightarrow> MarlinSettings \<Rightarrow> MarlinSettings" where
  "load_bed_pid cfg ps s =
     (let r = EEPROM_READ ps 12 [] s;
          pid = fst r
      in if enabled cfg PIDTEMPBED \<and> \<not> validating (snd r) \<and> \<not> isnan (elem4 pid 0)
         then assign temp_bed_pid_Kd (scalePID_d cfg (elem4 pid 2))
                (assign temp_bed_pid_Ki (scalePID_i cfg (elem4 pid 1))
                  (assign temp_bed_pid_Kp (elem4 pid 0) (snd r)))
         else snd r)"

definition load_user_thermistors :: "config \<Rightarrow> persistentStore \<Rightarrow> MarlinSettings \<Rightarrow> MarlinSettings" where
  "load_user_thermistors cfg ps s =
     (if enabled cfg HAS_USER_THERMISTORS
      then READ_var ps thermalManager_user_thermistor
             (sizeof_user_thermistor_t cfg * USER_THERMISTORS cfg) s
      else s)"

text \<open>
  \<^verbatim>\<open>int16_t lcd_contrast; EEPROM_READ(lcd_contrast); ui.set_contrast(lcd_contrast);\<close>
  The local is not initialised: \<open>junk\<close> stands for what it holds before the read, which
  is what it still holds after a validating read. \<^verbatim>\<open>ui.set_contrast\<close> (outside this
  file) is called on every pass.
\<close>

definition ui_set_contrast :: "byte list \<Rightarrow> MarlinSettings \<Rightarrow> MarlinSettings" where
  "ui_set_contrast c s = call ''ui.set_contrast'' (assign ui_contrast c s)"

definition load_lcd_contrast :: "config \<Rightarrow> byte list \<Rightarrow> persistentStore \<Rightarrow> MarlinSettings
    \<Rightarrow> MarlinSettings" where
  "load_lcd_contrast cfg junk ps s =
     (let r = EEPROM_READ ps 2 junk s
      in if enabled cfg HAS_LCD_CONTRAST then ui_set_contrast (fst r) (snd r) else snd r)"

definition load_controller_fan :: "config \<Rightarrow> persistentStore \<Rightarrow> MarlinSettings \<Rightarrow> MarlinSettings" where
  "load_controller_fan cfg ps s =
     (if enabled cfg CONTROLLER_FAN_EDITABLE
      then READ_var ps controllerFan_settings (sizeof_controllerFan_settings_t cfg) s
      else READ_dummy ps (sizeof_controllerFan_settings_t cfg) s)"

definition load_power_loss :: "config \<Rightarrow> persistentStore \<Rightarrow> MarlinSettings \<Rightarrow> MarlinSettings" where
  "load_power_loss cfg ps s =
     (if enabled cfg POWER_LOSS_RECOVERY then READ_var ps recovery_enabled 1 s
      else READ_dummy ps 1 s)"

definition load_fwretract :: "config \<Rightarrow> persistentStore \<Rightarrow> MarlinSettings \<Rightarrow> MarlinSettings" where
  "load_fwretract cfg ps s =
     (let s1 = (if enabled cfg FWRETRACT then READ_var ps fwretract_settings 32 s
                else READ_dummy ps 32 s)
      in if enabled cfg FWRETRACT \<and> enabled cfg FWRETRACT_AUTORETRACT
         then READ_var ps fwretract_autoretract_enabled 1 s1
         else READ_dummy ps 1 s1)"

definition load_volumetric :: "config \<Rightarrow> persistentStore \<Rightarrow> MarlinSettings \<Rightarrow> MarlinSettings" where
  "load_volumetric cfg ps s =
     (let r = EEPROM_READ ps (1 + 4 * EXTRUDERS cfg) [] s;
          storage = fst r
      in if \<not> enabled cfg NO_VOLUMETRICS
         then committing (assign planner_filament_size (drop 1 storage)
                          \<circ> assign parser_volumetric_enabled (take 1 storage)) (snd r)
         else snd r)"

text \<open>
  \<^verbatim>\<open>reset_stepper_drivers()\<close> (outside this file) re-initialises every Trinamic driver
  from its compile-time settings.
\<close>

definition reset_stepper_drivers :: "config \<Rightarrow> MarlinSettings \<Rightarrow> MarlinSettings" where
  "reset_stepper_drivers cfg s =
     call ''reset_stepper_drivers''
       (if enabled cfg HAS_TRINAMIC_CONFIG
        then foldl (\<lambda>s ax. if AXIS_IS_TMC cfg ax
                      then assign (stepper_stealthChop_enabled ax)
                             (hardcoded cfg (stepper_stealthChop_enabled ax))
                            (assign (stepper_homing_threshold ax)
                               (hardcoded cfg (stepper_homing_threshold ax))
                              (assign (stepper_pwm_thrs ax) (hardcoded cfg (stepper_pwm_thrs ax))
                                (assign (stepper_milliamps ax)
                                   (hardcoded cfg (stepper_milliamps ax)) s)))
                      else s) s tmc_axes
        else s)"

text \<open>The position of a driver's member in the \<^verbatim>\<open>tmc_*_t\<close> structures.\<close>

fun member_index :: "axis \<Rightarrow> nat" where
  "member_index stepperX = 0"
| "member_index stepperY = 1"
| "member_index stepperZ = 2"
| "member_index stepperX2 = 3"
| "member_index stepperY2 = 4"
| "member_index stepperZ2 = 5"
| "member_index stepperZ3 = 6"
| "member_index stepperZ4 = 7"
| "member_index stepperE0 = 8"
| "member_index stepperE1 = 9"
| "member_index stepperE2 = 10"
| "member_index stepperE3 = 11"
| "member_index stepperE4 = 12"
| "member_index stepperE5 = 13"

definition member :: "nat \<Rightarrow> byte list \<Rightarrow> nat \<Rightarrow> byte list" where
  "member w bs i = take w (drop (w * i) bs)"

text \<open>\<^verbatim>\<open>#define SET_CURR(Q) stepper##Q.rms_current(currents.Q ? currents.Q : Q##_CURRENT)\<close>\<close>

definition SET_CURR :: "config \<Rightarrow> byte list \<Rightarrow> MarlinSettings \<Rightarrow> axis \<Rightarrow> MarlinSettings" where
  "SET_CURR cfg currents s ax =
     (if AXIS_IS_TMC cfg ax
      then let c = rd16 (member 2 currents (member_index ax))
           in assign (stepper_milliamps ax) (le16 (if c \<noteq> 0 then c else CURRENT cfg ax)) s
      else s)"

definition load_tmc_current :: "config \<Rightarrow> persistentStore \<Rightarrow> MarlinSettings \<Rightarrow> MarlinSettings" where
  "load_tmc_current cfg ps s =
     (let r = EEPROM_READ ps 28 [] s
      in if enabled cfg HAS_TRINAMIC_CONFIG
         then committing (\<lambda>s. foldl (SET_CURR cfg (fst r)) s tmc_axes) (snd r)
         else snd r)"

definition load_tmc_hybrid_threshold :: "config \<Rightarrow> persistentStore \<Rightarrow> MarlinSettings
    \<Rightarrow> MarlinSettings" where
  "load_tmc_hybrid_threshold cfg ps s =
     (let r = EEPROM_READ ps 56 [] s
      in if enabled cfg HYBRID_THRESHOLD
         then committing
                (\<lambda>s. foldl (\<lambda>s ax. if AXIS_HAS_STEALTHCHOP cfg ax
                         then assign (stepper_pwm_thrs ax) (member 4 (fst r) (member_index ax)) s
                         else s) s tmc_axes) (snd r)
         else snd r)"

text \<open>X and X2, Y and Y2, and the Z drivers share a stored StallGuard value.\<close>

definition homing_threshold :: "config \<Rightarrow> bool \<Rightarrow> axis \<Rightarrow> byte list \<Rightarrow> MarlinSettings
    \<Rightarrow> MarlinSettings" where
  "homing_threshold cfg cond ax v s =
     (if cond then assign (stepper_homing_threshold ax) v s else s)"

definition load_tmc_sgt :: "config \<Rightarrow> persistentStore \<Rightarrow> MarlinSettings \<Rightarrow> MarlinSettings" where
  "load_tmc_sgt cfg ps s =
     (let r = EEPROM_READ ps 8 [] s;
          sgt_X = member 2 (fst r) 0;
          sgt_Y = member 2 (fst r) 1;
          sgt_Z = member 2 (fst r) 2;
          sgt_X2 = member 2 (fst r) 3;
          sx = enabled cfg X_STALL_SENSITIVITY;
          sy = enabled cfg Y_STALL_SENSITIVITY;
          sz = enabled cfg Z_STALL_SENSITIVITY
      in if enabled cfg USE_SENSORLESS
         then committing
           ( homing_threshold cfg (sz \<and> AXIS_HAS_STALLGUARD cfg stepperZ4) stepperZ4 sgt_Z
           \<circ> homing_threshold cfg (sz \<and> AXIS_HAS_STALLGUARD cfg stepperZ3) stepperZ3 sgt_Z
           \<circ> homing_threshold cfg (sz \<and> AXIS_HAS_STALLGUARD cfg stepperZ2) stepperZ2 sgt_Z
           \<circ> homing_threshold cfg (sz \<and> AXIS_HAS_STALLGUARD cfg stepperZ) stepperZ sgt_Z
           \<circ> homing_threshold cfg (sy \<and> AXIS_HAS_STALLGUARD cfg stepperY2) stepperY2 sgt_Y
           \<circ> homing_threshold cfg (sy \<and> AXIS_HAS_STALLGUARD cfg stepperY) stepperY sgt_Y
           \<circ> homing_threshold cfg (enabled cfg X2_SENSORLESS) stepperX2 sgt_X2
           \<circ> homing_threshold cfg (sx \<and> AXIS_HAS_STALLGUARD cfg stepperX2
                                      \<and> \<not> enabled cfg X2_SENSORLESS) stepperX2 sgt_X
           \<circ> homing_threshold cfg (sx \<and> AXIS_HAS_STALLGUARD cfg stepperX) stepperX sgt_X)
           (snd r)
         else snd r)"

text \<open>\<^verbatim>\<open>SET_STEPPING_MODE(ST)\<close>: store the flag and refresh the driver.\<close>

definition load_tmc_stealth :: "config \<Rightarrow> persistentStore \<Rightarrow> MarlinSettings \<Rightarrow> MarlinSettings" where
  "load_tmc_stealth cfg ps s =
     (let r = EEPROM_READ ps 14 [] s
      in if enabled cfg HAS_TRINAMIC_CONFIG
         then committing
                (\<lambda>s. foldl (\<lambda>s ax. if AXIS_HAS_STEALTHCHOP cfg ax
                         then assign (stepper_stealthChop_enabled ax)
                                (member 1 (fst r) (member_index ax)) s
                         else s) s tmc_axes) (snd r)
         else snd r)"

definition load_tmc :: "config \<Rightarrow> persistentStore \<Rightarrow> MarlinSettings \<Rightarrow> MarlinSettings" where
  "load_tmc cfg ps s =
     load_tmc_stealth cfg ps
       (load_tmc_sgt cfg ps
         (load_tmc_hybrid_threshold cfg ps
           (load_tmc_current cfg ps
             (committing (reset_stepper_drivers cfg) s))))"

definition load_lin_advance :: "config \<Rightarrow> persistentStore \<Rightarrow> MarlinSettings \<Rightarrow> MarlinSettings" where
  "load_lin_advance cfg ps s =
     (let r = EEPROM_READ ps (4 * max (EXTRUDERS cfg) 1) [] s
      in if enabled cfg LIN_ADVANCE
         then committing (assign planner_extruder_advance_K (fst r)) (snd r)
         else snd r)"

definition load_motor_current :: "config \<Rightarrow> persistentStore \<Rightarrow> MarlinSettings \<Rightarrow> MarlinSettings" where
  "load_motor_current cfg ps s =
     (let r = EEPROM_READ ps 12 [] s
      in if enabled cfg HAS_MOTOR_CURRENT_PWM
         then committing (assign stepper_motor_current_setting (fst r)) (snd r)
         else snd r)"

text \<open>\<^verbatim>\<open>gcode.select_coordinate_system(-1)\<close> (outside this file): back to machine space.\<close>

definition select_coordinate_system_none :: "MarlinSettings \<Rightarrow> MarlinSettings" where
  "select_coordinate_system_none s =
     call ''gcode.select_coordinate_system'' (assign gcode_active_coordinate_system [- 1] s)"

definition load_coordinate_system :: "config \<Rightarrow> persistentStore \<Rightarrow> MarlinSettings
    \<Rightarrow> MarlinSettings" where
  "load_coordinate_system cfg ps s =
     (if enabled cfg CNC_COORDINATE_SYSTEMS
      then READ_var ps gcode_coordinate_system (12 * MAX_COORDINATE_SYSTEMS cfg)
             (committing select_coordinate_system_none s)
      else READ_dummy ps (12 * MAX_COORDINATE_SYSTEMS cfg) s)"

definition load_skew :: "config \<Rightarrow> persistentStore \<Rightarrow> MarlinSettings \<Rightarrow> MarlinSettings" where
  "load_skew cfg ps s =
     (let r = EEPROM_READ ps 12 [] s;
          skew_factor = fst r
      in if enabled cfg SKEW_CORRECTION_GCODE
         then committing (\<lambda>s. assign planner_skew_factor
                (member 4 skew_factor 0
                 @ (if enabled cfg SKEW_CORRECTION_FOR_Z
                    then member 4 skew_factor 1 @ member 4 skew_factor 2
                    else member 4 (live s planner_skew_factor) 1
                       @ member 4 (live s planner_skew_factor) 2)) s) (snd r)
         else snd r)"

definition load_fc_settings :: "config \<Rightarrow> persistentStore \<Rightarrow> MarlinSettings \<Rightarrow> MarlinSettings" where
  "load_fc_settings cfg ps s =
     (if 0 < EXTRUDERS cfg
      then (if \<not> enabled cfg ADVANCED_PAUSE_FEATURE then READ_dummy ps (8 * EXTRUDERS cfg) s
            else READ_var ps fc_settings (8 * EXTRUDERS cfg) s)
      else s)"

definition load_toolchange :: "config \<Rightarrow> persistentStore \<Rightarrow> MarlinSettings \<Rightarrow> MarlinSettings" where
  "load_toolchange cfg ps s =
     (if 1 < EXTRUDERS cfg
      then READ_var ps toolchange_settings (sizeof_toolchange_settings_t cfg) s else s)"

definition load_backlash :: "config \<Rightarrow> persistentStore \<Rightarrow> MarlinSettings \<Rightarrow> MarlinSettings" where
  "load_backlash cfg ps s =
     (let s1 = (if enabled cfg BACKLASH_GCODE
                then READ_var ps backlash_correction 1 (READ_var ps backlash_distance_mm 12 s)
                else READ_dummy ps 1 (READ_dummy ps 12 s))
      in if enabled cfg BACKLASH_GCODE \<and> enabled cfg BACKLASH_SMOOTHING_MM
         then READ_var ps backlash_smoothing_mm 4 s1
         else READ_dummy ps 4 s1)"

text \<open>\<^verbatim>\<open>const char extui_data[ExtUI::eeprom_data_size] = { 0 };\<close> then
  \<^verbatim>\<open>ExtUI::onLoadSettings(extui_data)\<close> on a committing pass.\<close>

definition load_extui :: "config \<Rightarrow> persistentStore \<Rightarrow> MarlinSettings \<Rightarrow> MarlinSettings" where
  "load_extui cfg ps s =
     (if enabled cfg EXTENSIBLE_UI
      then let r = EEPROM_READ ps (eeprom_data_size cfg) (zeros (eeprom_data_size cfg)) s
           in committing (call ''ExtUI::onLoadSettings'' \<circ> assign extui_data (fst r)) (snd r)
      else s)"

definition load_case_light :: "config \<Rightarrow> persistentStore \<Rightarrow> MarlinSettings \<Rightarrow> MarlinSettings" where
  "load_case_light cfg ps s =
     (if enabled cfg HAS_CASE_LIGHT_BRIGHTNESS then READ_var ps case_light_brightness 1 s
      else s)"

subsection \<open>Post-processing and the end of \<^verbatim>\<open>_load()\<close>\<close>

text \<open>
  \<^verbatim>\<open>void MarlinSettings::postprocess()\<close>: the recomputations are calls into the
  subsystems, logged in source order (\<^verbatim>\<open>LOOP_XYZ\<close> runs its two calls once per axis,
  the \<^verbatim>\<open>e_factor\<close> loop once per extruder);
  \<^verbatim>\<open>set_z_fade_height(new_z_fade_height, false)\<close> is the one that carries a loaded
  value into its live variable. The closing \<^verbatim>\<open>report_current_position()\<close> depends on
  the tool position, which is outside the settings, and is left out.
\<close>

definition postprocess :: "config \<Rightarrow> MarlinSettings \<Rightarrow> MarlinSettings" where
  "postprocess cfg =
       call ''planner.refresh_positioning''
     \<circ> ifdef (enabled cfg HAS_CASE_LIGHT_BRIGHTNESS) (call ''update_case_light'')
     \<circ> ifdef (enabled cfg HAS_LINEAR_E_JERK) (call ''planner.recalculate_max_e_jerk'')
     \<circ> ifdef (enabled cfg FWRETRACT) (call ''fwretract.refresh_autoretract'')
     \<circ> ifdef (enabled cfg HAS_MOTOR_CURRENT_PWM) (call ''stepper.refresh_motor_power'')
     \<circ> ifdef (enabled cfg AUTO_BED_LEVELING_BILINEAR) (call ''refresh_bed_level'')
     \<circ> ifdef (enabled cfg ENABLE_LEVELING_FADE_HEIGHT)
          (\<lambda>s. call ''set_z_fade_height''
                  (assign planner_z_fade_height (live s new_z_fade_height) s))
     \<circ> ((call ''update_software_endstops'' \<circ> call ''update_workspace_offset'') ^^ XYZ)
     \<circ> (if \<not> enabled cfg NO_VOLUMETRICS then call ''planner.calculate_volumetric_multipliers''
        else (call ''planner.refresh_e_factor'' ^^ EXTRUDERS cfg))
     \<circ> ifdef (enabled cfg PIDTEMP) (call ''thermalManager.updatePID'')
     \<circ> ifdef (enabled cfg DELTA) (call ''recalc_delta_settings'')
     \<circ> call ''planner.reset_acceleration_rates''"

text \<open>\<^verbatim>\<open>ubl.reset()\<close> (outside this file): leveling off, no slot, mesh invalid.\<close>

definition ubl_reset :: "config \<Rightarrow> MarlinSettings \<Rightarrow> MarlinSettings" where
  "ubl_reset cfg s =
     call ''ubl.reset''
       (assign ubl_z_values (hardcoded cfg ubl_z_values)
         (assign ubl_storage_slot [- 1]
           (assign planner_leveling_active (bool_byte False) s)))"

definition load_ubl_finish :: "config \<Rightarrow> persistentStore \<Rightarrow> MarlinSettings \<Rightarrow> MarlinSettings" where
  "load_ubl_finish cfg ps s =
     (let s1 = call ''ubl.report_state'' s;
          s2 = (if \<not> ubl_sanity_check cfg (live s1) then debug cfg '' initialized.'' s1
                else ubl_reset cfg (debug cfg ''?Can't enable '' (s1\<lparr>eeprom_error := True\<rparr>)))
      in if 0 \<le> int8_of (live s2 ubl_storage_slot)
         then debug cfg ''Mesh loaded from storage.''
                (load_mesh cfg (of_int (int8_of (live s2 ubl_storage_slot))) None ps s2)
         else debug cfg ''UBL reset'' (ubl_reset cfg s2))"

definition status_P :: "config \<Rightarrow> MarlinSettings \<Rightarrow> MarlinSettings" where
  "status_P cfg = ifdef (enabled cfg HAS_LCD_MENU \<and> \<not> enabled cfg EEPROM_AUTO_INIT)
                     (call ''ui.set_status_P'')"

definition load_finish :: "config \<Rightarrow> 16 word \<Rightarrow> persistentStore \<Rightarrow> MarlinSettings
    \<Rightarrow> MarlinSettings" where
  "load_finish cfg stored_crc ps s =
     (let s1 = s\<lparr>eeprom_error := size_error cfg (of_int (eeprom_index s - EEPROM_OFFSET))\<rparr>;
          s2 = (if eeprom_error s1 then status_P cfg (debug cfg ''Index: '' s1)
                else if working_crc s1 \<noteq> stored_crc
                then status_P cfg (debug cfg ''EEPROM CRC mismatch''
                                     (s1\<lparr>eeprom_error := True\<rparr>))
                else if \<not> validating s1 then debug cfg '' stored settings retrieved'' s1
                else s1);
          s3 = (if \<not> validating s2 \<and> \<not> eeprom_error s2 then postprocess cfg s2 else s2)
      in if enabled cfg AUTO_BED_LEVELING_UBL then committing (load_ubl_finish cfg ps) s3
         else s3)"

text \<open>The body between the header and the size check, in source order.\<close>

definition load_body :: "config \<Rightarrow> byte list \<Rightarrow> persistentStore \<Rightarrow> MarlinSettings
    \<Rightarrow> MarlinSettings" where
  "load_body cfg junk ps =
       load_case_light cfg ps
     \<circ> load_extui cfg ps
     \<circ> load_backlash cfg ps
     \<circ> load_toolchange cfg ps
     \<circ> load_fc_settings cfg ps
     \<circ> load_skew cfg ps
     \<circ> load_coordinate_system cfg ps
     \<circ> load_motor_current cfg ps
     \<circ> load_lin_advance cfg ps
     \<circ> load_tmc cfg ps
     \<circ> load_volumetric cfg ps
     \<circ> load_fwretract cfg ps
     \<circ> load_power_loss cfg ps
     \<circ> load_controller_fan cfg ps
     \<circ> load_lcd_contrast cfg junk ps
     \<circ> load_user_thermistors cfg ps
     \<circ> load_bed_pid cfg ps
     \<circ> load_hotend_pid cfg ps
     \<circ> load_preheat cfg ps
     \<circ> load_z_stepper_align cfg ps
     \<circ> load_endstops cfg ps
     \<circ> load_bltouch cfg ps
     \<circ> load_temp_comp cfg ps
     \<circ> load_servo_angles cfg ps
     \<circ> load_ubl cfg ps
     \<circ> load_bilinear cfg ps
     \<circ> load_planar cfg ps
     \<circ> load_probe_offset cfg ps
     \<circ> load_mesh_bed_leveling cfg ps
     \<circ> load_global_leveling cfg ps
     \<circ> load_runout cfg ps
     \<circ> load_home_offset cfg ps
     \<circ> load_planner_motion cfg ps"

text \<open>\<^verbatim>\<open>strncmp(a, b, n) != 0\<close> on character arrays.\<close>

fun strncmp_ne :: "byte list \<Rightarrow> byte list \<Rightarrow> nat \<Rightarrow> bool" where
  "strncmp_ne (a # as) (b # bs) (Suc n) =
     (if a \<noteq> b then True else if a = 0 then False else strncmp_ne as bs n)"
| "strncmp_ne _ _ _ = False"

definition load' :: "config \<Rightarrow> byte list \<Rightarrow> persistentStore \<Rightarrow> MarlinSettings
    \<Rightarrow> bool \<times> MarlinSettings" where
  "load' cfg junk ps s =
     (if \<not> access_start ps then (False, message ''No EEPROM.'' s)
      else
        let s0 = (call ''persistentStore.access_start'' s)
                   \<lparr>eeprom_index := EEPROM_OFFSET, working_crc := 0\<rparr>;
            rv = EEPROM_READ_ALWAYS ps 4 s0;
            stored_ver = fst rv;
            rc = EEPROM_READ_ALWAYS ps 2 (snd rv);
            stored_crc = rd16 (fst rc);
            s1 = snd rc;
            s2 = (if strncmp_ne version stored_ver 3
                  then (status_P cfg (debug cfg ''EEPROM version mismatch'' s1))
                         \<lparr>eeprom_error := True\<rparr>
                  else load_finish cfg stored_crc ps
                         (load_body cfg junk ps (s1\<lparr>working_crc := 0\<rparr>)));
            s3 = (if enabled cfg EEPROM_CHITCHAT \<and> \<not> enabled cfg DISABLE_M503
                     \<and> \<not> validating s2 \<and> (\<not> enabled cfg EEPROM_BOOT_SILENT \<or> IsRunning cfg)
                  then call ''report'' s2 else s2);
            s4 = call ''persistentStore.access_finish'' s3
        in (\<not> eeprom_error s4, s4))"

text \<open>\<^verbatim>\<open>bool MarlinSettings::validate()\<close>; with a flash backup the driver may restore
  the medium and the pass is tried once more.\<close>

definition validate :: "config \<Rightarrow> byte list \<Rightarrow> MarlinSettings \<times> persistentStore
    \<Rightarrow> bool \<times> MarlinSettings \<times> persistentStore" where
  "validate cfg junk sp =
     (let (s, ps) = sp;
          (success, s1) = load' cfg junk ps (s\<lparr>validating := True\<rparr>);
          (success', s2, ps') =
            (if enabled cfg ARCHIM2_SPI_FLASH_EEPROM_BACKUP_SIZE \<and> \<not> success
                \<and> fst (restoreEEPROM cfg ps)
             then (let ps1 = snd (restoreEEPROM cfg ps);
                       (ok, s') = load' cfg junk ps1
                                    (message ''Recovered backup EEPROM settings from SPI Flash'' s1)
                   in (ok, s', ps1))
             else (success, s1,
                   if enabled cfg ARCHIM2_SPI_FLASH_EEPROM_BACKUP_SIZE \<and> \<not> success
                   then snd (restoreEEPROM cfg ps) else ps))
      in (success', s2\<lparr>validating := False\<rparr>, ps'))"

subsection \<open>M502: \<^verbatim>\<open>reset()\<close>\<close>

text \<open>\<open>hard cfg v\<close> gives a variable its hardcoded image; the subsystem
  \<^verbatim>\<open>reset\<close> functions called from here (outside this file) do that for their
  variables.\<close>

definition hard :: "config \<Rightarrow> var \<Rightarrow> MarlinSettings \<Rightarrow> MarlinSettings" where
  "hard cfg v s = assign v (hardcoded cfg v) s"

definition defaults_array :: "config \<Rightarrow> byte list list \<Rightarrow> byte list" where
  "defaults_array cfg dflt = concat (map (pgm_read dflt) [0..<XYZE_N cfg])"

text \<open>\<^verbatim>\<open>reset_bed_level()\<close> (outside this file).\<close>

definition reset_bed_level :: "config \<Rightarrow> MarlinSettings \<Rightarrow> MarlinSettings" where
  "reset_bed_level cfg s =
     call ''reset_bed_level''
       (if enabled cfg AUTO_BED_LEVELING_UBL then ubl_reset cfg s
        else
          let s1 = set_bed_leveling_enabled_false s
          in if enabled cfg MESH_BED_LEVELING then mbl_reset cfg s1
             else if enabled cfg AUTO_BED_LEVELING_BILINEAR
             then hard cfg z_values (hard cfg bilinear_grid_spacing (hard cfg bilinear_start s1))
             else if enabled cfg ABL_PLANAR then hard cfg planner_bed_level_matrix s1
             else s1)"

definition reset_motion :: "config \<Rightarrow> MarlinSettings \<Rightarrow> MarlinSettings" where
  "reset_motion cfg =
       ifdef (\<not> enabled cfg CLASSIC_JERK) (hard cfg planner_junction_deviation_mm)
     \<circ> ifdef (enabled cfg HAS_CLASSIC_JERK)
         (\<lambda>s. assign planner_max_jerk
                 (img 12 (hardcoded cfg planner_max_jerk)
                  @ (if enabled cfg HAS_CLASSIC_E_JERK then img 4 (DEFAULT_EJERK cfg)
                     else drop 12 (live s planner_max_jerk))) s)
     \<circ> hard cfg planner_settings_min_travel_feedrate_mm_s
     \<circ> hard cfg planner_settings_min_feedrate_mm_s
     \<circ> hard cfg planner_settings_travel_acceleration
     \<circ> hard cfg planner_settings_retract_acceleration
     \<circ> hard cfg planner_settings_acceleration
     \<circ> hard cfg planner_settings_min_segment_time_us
     \<circ> assign planner_settings_max_feedrate_mm_s
         (defaults_array cfg (DEFAULT_MAX_FEEDRATE cfg))
     \<circ> assign planner_settings_axis_steps_per_mm
         (defaults_array cfg (DEFAULT_AXIS_STEPS_PER_UNIT cfg))
     \<circ> assign planner_settings_max_acceleration_mm_per_s2
         (defaults_array cfg (DEFAULT_MAX_ACCELERATION cfg))"

definition reset_offsets :: "config \<Rightarrow> MarlinSettings \<Rightarrow> MarlinSettings" where
  "reset_offsets cfg =
       ifdef (enabled cfg MAGNETIC_PARKING_EXTRUDER) (call ''mpe_settings_init'')
     \<circ> ifdef (enabled cfg HAS_CASE_LIGHT_BRIGHTNESS) (hard cfg case_light_brightness)
     \<circ> ifdef (enabled cfg EXTENSIBLE_UI) (call ''ExtUI::onFactoryReset'' \<circ> hard cfg extui_data)
     \<circ> ifdef (enabled cfg BACKLASH_GCODE)
         (ifdef (enabled cfg BACKLASH_SMOOTHING_MM) (hard cfg backlash_smoothing_mm)
          \<circ> hard cfg backlash_distance_mm \<circ> hard cfg backlash_correction)
     \<circ> ifdef (1 < EXTRUDERS cfg) (hard cfg toolchange_settings)
     \<circ> ifdef (enabled cfg HAS_FILAMENT_SENSOR)
         (ifdef (enabled cfg FILAMENT_RUNOUT_DISTANCE_MM) (hard cfg runout_distance_mm)
          \<circ> call ''runout.reset'' \<circ> assign runout_enabled (bool_byte True))
     \<circ> ifdef (enabled cfg HAS_HOTEND_OFFSET)
         (\<lambda>s. call ''reset_hotend_offsets''
                 (foldl (\<lambda>s e. hard cfg (hotend_offset e) s) s [0..<HOTENDS cfg]))
     \<circ> (if enabled cfg HAS_SCARA_OFFSET then hard cfg scara_home_offset
        else ifdef (enabled cfg HAS_HOME_OFFSET) (hard cfg home_offset))"

definition reset_leveling :: "config \<Rightarrow> MarlinSettings \<Rightarrow> MarlinSettings" where
  "reset_leveling cfg =
       ifdef (enabled cfg Z_MULTI_ENDSTOPS)
         (ifdef (4 \<le> NUM_Z_STEPPER_DRIVERS cfg) (hard cfg endstops_z4_endstop_adj)
          \<circ> ifdef (3 \<le> NUM_Z_STEPPER_DRIVERS cfg) (hard cfg endstops_z3_endstop_adj)
          \<circ> hard cfg endstops_z2_endstop_adj)
     \<circ> ifdef (enabled cfg Y_DUAL_ENDSTOPS) (hard cfg endstops_y2_endstop_adj)
     \<circ> ifdef (enabled cfg X_DUAL_ENDSTOPS) (hard cfg endstops_x2_endstop_adj)
     \<circ> ifdef (enabled cfg DELTA)
         (hard cfg delta_tower_angle_trim \<circ> hard cfg delta_segments_per_second
          \<circ> hard cfg delta_diagonal_rod \<circ> hard cfg delta_radius
          \<circ> hard cfg delta_endstop_adj \<circ> hard cfg delta_height)
     \<circ> ifdef (enabled cfg EDITABLE_SERVO_ANGLES) (hard cfg servo_angles)
     \<circ> ifdef (enabled cfg Z_STEPPER_AUTO_ALIGN)
         (call ''z_stepper_align.reset_to_default''
          \<circ> ifdef (enabled cfg Z_STEPPER_ALIGN_KNOWN_STEPPER_POSITIONS)
              (hard cfg z_stepper_align_stepper_xy)
          \<circ> hard cfg z_stepper_align_xy)
     \<circ> ifdef (enabled cfg HAS_BED_PROBE)
         (assign probe_offset
            (if enabled cfg HAS_PROBE_XY_OFFSET then img 12 (hardcoded cfg probe_offset)
             else zeros 8 @ member 4 (img 12 (hardcoded cfg probe_offset)) 2))
     \<circ> ifdef (enabled cfg HAS_LEVELING) (reset_bed_level cfg)
     \<circ> ifdef (enabled cfg ENABLE_LEVELING_FADE_HEIGHT) (assign new_z_fade_height (le32 0))"

definition reset_thermal :: "config \<Rightarrow> MarlinSettings \<Rightarrow> MarlinSettings" where
  "reset_thermal cfg =
       ifdef (\<not> enabled cfg NO_VOLUMETRICS)
         (assign planner_filament_size
            (concat (replicate (EXTRUDERS cfg) (img 4 (DEFAULT_NOMINAL_FILAMENT_DIA cfg))))
          \<circ> assign parser_volumetric_enabled (bool_byte (enabled cfg VOLUMETRIC_DEFAULT_ON)))
     \<circ> ifdef (enabled cfg FWRETRACT)
         (call ''fwretract.reset'' \<circ> hard cfg fwretract_autoretract_enabled
          \<circ> hard cfg fwretract_settings)
     \<circ> ifdef (enabled cfg POWER_LOSS_RECOVERY)
         (call ''recovery.enable''
          \<circ> assign recovery_enabled (bool_byte (enabled cfg PLR_ENABLED_DEFAULT)))
     \<circ> ifdef (enabled cfg USE_CONTROLLER_FAN) (hard cfg controllerFan_settings)
     \<circ> ifdef (enabled cfg HAS_LCD_CONTRAST) (ui_set_contrast (hardcoded cfg ui_contrast))
     \<circ> ifdef (enabled cfg HAS_USER_THERMISTORS) (hard cfg thermalManager_user_thermistor)
     \<circ> ifdef (enabled cfg PIDTEMPBED)
         (assign temp_bed_pid_Kd (scalePID_d cfg (hardcoded cfg temp_bed_pid_Kd))
          \<circ> assign temp_bed_pid_Ki (scalePID_i cfg (hardcoded cfg temp_bed_pid_Ki))
          \<circ> hard cfg temp_bed_pid_Kp)
     \<circ> ifdef (enabled cfg PID_EXTRUSION_SCALING) (assign thermalManager_lpq_len (le16 20))
     \<circ> ifdef (enabled cfg PIDTEMP)
         (\<lambda>s. foldl (\<lambda>s e.
                  (ifdef (enabled cfg PID_FAN_SCALING) (hard cfg (PID_Kf e))
                   \<circ> ifdef (enabled cfg PID_EXTRUSION_SCALING) (hard cfg (PID_Kc e))
                   \<circ> assign (PID_Kd e) (scalePID_d cfg (hardcoded cfg (PID_Kd e)))
                   \<circ> assign (PID_Ki e) (scalePID_i cfg (hardcoded cfg (PID_Ki e)))
                   \<circ> hard cfg (PID_Kp e)) s) s [0..<HOTENDS cfg])
     \<circ> ifdef (0 < HOTENDS cfg \<and> enabled cfg HAS_LCD_MENU)
         (hard cfg ui_preheat_fan_speed \<circ> hard cfg ui_preheat_bed_temp
          \<circ> hard cfg ui_preheat_hotend_temp)"

definition reset_drivers :: "config \<Rightarrow> MarlinSettings \<Rightarrow> MarlinSettings" where
  "reset_drivers cfg =
       ifdef (enabled cfg ADVANCED_PAUSE_FEATURE) (hard cfg fc_settings)
     \<circ> ifdef (enabled cfg SKEW_CORRECTION_GCODE)
         (\<lambda>s. assign planner_skew_factor
                 (member 4 (hardcoded cfg planner_skew_factor) 0
                  @ (if enabled cfg SKEW_CORRECTION_FOR_Z
                     then member 4 (hardcoded cfg planner_skew_factor) 1
                        @ member 4 (hardcoded cfg planner_skew_factor) 2
                     else member 4 (live s planner_skew_factor) 1
                        @ member 4 (live s planner_skew_factor) 2)) s)
     \<circ> ifdef (enabled cfg CNC_COORDINATE_SYSTEMS) select_coordinate_system_none
     \<circ> ifdef (enabled cfg HAS_MOTOR_CURRENT_PWM)
         ((call ''stepper.digipot_current'' ^^ 3) \<circ> hard cfg stepper_motor_current_setting)
     \<circ> ifdef (enabled cfg LIN_ADVANCE)
         (ifdef (enabled cfg EXTRA_LIN_ADVANCE_K) (hard cfg other_extruder_advance_K)
          \<circ> hard cfg planner_extruder_advance_K)
     \<circ> reset_stepper_drivers cfg
     \<circ> call ''endstops.enable_globally''
     \<circ> assign endstops_enabled_globally (bool_byte (enabled cfg ENDSTOPS_ALWAYS_ON_DEFAULT))"

definition reset :: "config \<Rightarrow> MarlinSettings \<Rightarrow> MarlinSettings" where
  "reset cfg =
       ifdef (enabled cfg EXTENSIBLE_UI) (call ''ExtUI::onFactoryReset'' \<circ> hard cfg extui_data)
     \<circ> debug cfg ''Hardcoded Default Settings Loaded''
     \<circ> postprocess cfg
     \<circ> reset_drivers cfg
     \<circ> reset_thermal cfg
     \<circ> reset_leveling cfg
     \<circ> reset_offsets cfg
     \<circ> reset_motion cfg"

subsection \<open>\<^verbatim>\<open>load()\<close>\<close>

definition load :: "config \<Rightarrow> byte list \<Rightarrow> MarlinSettings \<times> persistentStore
    \<Rightarrow> bool \<times> MarlinSettings \<times> persistentStore" where
  "load cfg junk sp =
     (let (valid, s1, ps1) = validate cfg junk sp in
      if valid
      then
        let (success, s2) = load' cfg junk ps1 s1;
            s3 = (if enabled cfg EXTENSIBLE_UI
                  then call ''ExtUI::onConfigurationStoreRead'' s2 else s2)
        in (success, s3, ps1)
      else
        let s2 = reset cfg s1
        in if enabled cfg EEPROM_AUTO_INIT
           then (let (saved, s3, ps3) = save cfg (s2, ps1)
                 in (False, message ''EEPROM Initialized'' s3, ps3))
           else (False, s2, ps1))"

subsection \<open>An example build\<close>

text \<open>
  A concrete configuration for evaluating the definitions: a Cartesian printer on an
  8-bit AVR board (16-bit \<^verbatim>\<open>int\<close> and \<^verbatim>\<open>size_t\<close>) with one extruder, PID heating, an
  LCD menu, four servo plugs and a 3 by 3 grid. Variants switch features on top.
  \<open>example_defaults\<close> lists, in the order of the numbered variables, the image each takes
  from \<^verbatim>\<open>Configuration.h\<close>: floats in IEEE single precision (3000.0 is
  \<^verbatim>\<open>0x453B8000\<close>), integers little-endian.
\<close>

definition features :: "feature list \<Rightarrow> feature \<Rightarrow> bool" where
  "features fs f = (f \<in> set fs)"

definition example_defaults :: "byte list list" where
  "example_defaults =
   [ le32 3000 @ le32 2000 @ le32 60 @ le32 10000,
     le32 20000,
     le32 0x42A00000 @ le32 0x42A00000 @ le32 0x43C80000 @ le32 0x42BA0000,
     le32 0x43FA0000 @ le32 0x43FA0000 @ le32 0x40C00000 @ le32 0x42700000,
     le32 0x453B8000,
     le32 0x453B8000,
     le32 0x453B8000,
     le32 0x00000000,
     le32 0x00000000,
     le32 0x41200000 @ le32 0x41200000 @ le32 0x3E99999A @ le32 0x40A00000,
     le32 0x3C54FDF4,
     zeros 12,
     zeros 12,
     [1],
     le32 0x00000000,
     le32 0x00000000,
     le32 0x00000000,
     le32 0x00000000,
     zeros 36,
     zeros 12,
     zeros 36,
     zeros 8,
     zeros 8,
     zeros 36,
     [0],
     [- 1],
     concat (replicate 9 NAN),
     zeros 16,
     [],
     [],
     [],
     [0],
     [0],
     le32 0x437A0000,
     zeros 12,
     le32 0x42F80000,
     le32 0x437A0000,
     le32 0x43480000,
     zeros 12,
     le32 0x00000000,
     le32 0x00000000,
     le32 0x00000000,
     le32 0x00000000,
     le32 0x00000000,
     [0],
     zeros 8,
     zeros 8,
     le16 180 @ le16 240,
     le16 70 @ le16 110,
     [0, 0],
     le16 20,
     le32 0x41200000,
     le32 0x3CBC6A7F,
     le32 0x4398B333,
     [],
     le16 127,
     [255, 0, 60, 0, 1],
     [0],
     le32 0x40400000 @ le32 0x42340000 @ le32 0x00000000 @ le32 0x41500000 @ le32 0x00000000 @ le32 0x41000000 @ le32 0x41500000 @ le32 0x41000000,
     [0],
     [0],
     le32 0x3FE00000,
     le32 0x00000000,
     le32 0x00000000,
     le32 1300 @ le32 1300 @ le32 1250,
     zeros 108,
     [- 1],
     zeros 12,
     le32 0x40000000 @ le32 0x00000000,
     [],
     zeros 12,
     [0],
     le32 0x40400000,
     [],
     [105] ]"

fun example_hardcoded :: "var \<Rightarrow> byte list" where
  "example_hardcoded (V n) = (if n < length example_defaults then example_defaults ! n else [])"
| "example_hardcoded (hotend_offset e) = zeros 12"
| "example_hardcoded (PID_Kp e) = le32 0x41B1999A"
| "example_hardcoded (PID_Ki e) = le32 0x3F8A3D71"
| "example_hardcoded (PID_Kd e) = le32 0x42E40000"
| "example_hardcoded (PID_Kc e) = le32 0x42C80000"
| "example_hardcoded (PID_Kf e) = le32 0x3F800000"
| "example_hardcoded (stepper_milliamps ax) = le16 800"
| "example_hardcoded (stepper_pwm_thrs ax) = le32 0"
| "example_hardcoded (stepper_homing_threshold ax) = le16 0"
| "example_hardcoded (stepper_stealthChop_enabled ax) = [0]"

definition example_build :: config where
  "example_build = \<lparr>
     enabled = features [HAS_CLASSIC_JERK, HAS_CLASSIC_E_JERK, CLASSIC_JERK, HAS_HOME_OFFSET,
                         HAS_LCD_MENU, PIDTEMP, PIDTEMPBED],
     AXIS_IS_TMC = (\<lambda>ax. False),
     AXIS_HAS_STEALTHCHOP = (\<lambda>ax. False),
     AXIS_HAS_STALLGUARD = (\<lambda>ax. False),
     XYZE_N = 4, HOTENDS = 1, EXTRUDERS = 1,
     GRID_MAX_POINTS_X = 3, GRID_MAX_POINTS_Y = 3,
     EEPROM_NUM_SERVOS = 4, NUM_Z_STEPPER_DRIVERS = 1, USER_THERMISTORS = 0,
     MAX_COORDINATE_SYSTEMS = 9, eeprom_data_size = 0,
     COUNT_z_offsets_probe = 0, COUNT_z_offsets_bed = 0, COUNT_z_offsets_ext = 0,
     sizeof_user_thermistor_t = 0, sizeof_controllerFan_settings_t = 5,
     sizeof_toolchange_settings_t = 0,
     DEFAULT_MAX_ACCELERATION = [le32 3000, le32 2000, le32 60, le32 10000],
     DEFAULT_AXIS_STEPS_PER_UNIT = [le32 0x42A00000, le32 0x42A00000, le32 0x43C80000, le32 0x42BA0000],
     DEFAULT_MAX_FEEDRATE = [le32 0x43FA0000, le32 0x43FA0000, le32 0x40C00000, le32 0x42700000],
     DEFAULT_EJERK = le32 0x40A00000,
     DEFAULT_NOMINAL_FILAMENT_DIA = le32 0x3FE00000,
     CURRENT = (\<lambda>ax. 800),
     hardcoded = example_hardcoded,
     scalePID_i = (\<lambda>bs. bs), unscalePID_i = (\<lambda>bs. bs),
     scalePID_d = (\<lambda>bs. bs), unscalePID_d = (\<lambda>bs. bs),
     ubl_sanity_check = (\<lambda>lv. False),
     restoreEEPROM = (\<lambda>ps. (False, ps)),
     IsRunning = True,
     sizeof_int = 2, sizeof_size_t = 2 \<rparr>"

text \<open>The same build with Unified Bed Leveling on a 4 KB medium.\<close>

definition ubl_build :: config where
  "ubl_build = example_build\<lparr>enabled := features [HAS_CLASSIC_JERK, HAS_CLASSIC_E_JERK,
      CLASSIC_JERK, HAS_HOME_OFFSET, HAS_LCD_MENU, PIDTEMP, PIDTEMPBED, HAS_LEVELING,
      AUTO_BED_LEVELING_UBL]\<rparr>"

definition blank_medium :: persistentStore where
  "blank_medium = \<lparr>mem = (\<lambda>a. 0xFF), stuck = (\<lambda>a. False), present = True, capacity = 4096\<rparr>"

text \<open>A medium too small for the record and the mesh area, and one of 64 KB.\<close>

definition small_medium :: persistentStore where
  "small_medium = blank_medium\<lparr>capacity := 512\<rparr>"

definition large_medium :: persistentStore where
  "large_medium = blank_medium\<lparr>capacity := 65536\<rparr>"

text \<open>The Unified Bed Leveling build with \<^verbatim>\<open>EEPROM_CHITCHAT\<close>, which compiles the debug
  prints in.\<close>

definition chatty_ubl_build :: config where
  "chatty_ubl_build = example_build\<lparr>enabled := features [HAS_CLASSIC_JERK, HAS_CLASSIC_E_JERK,
      CLASSIC_JERK, HAS_HOME_OFFSET, HAS_LCD_MENU, PIDTEMP, PIDTEMPBED, HAS_LEVELING,
      AUTO_BED_LEVELING_UBL, EEPROM_CHITCHAT]\<rparr>"

text \<open>The machine as it starts, every variable at its compile-time value.\<close>

definition power_on :: MarlinSettings where
  "power_on = \<lparr>live = example_hardcoded, eeprom_error = False, validating = False,
                events = [], eeprom_index = 0, working_crc = 0\<rparr>"

subsection \<open>Notions used in the statements\<close>

text \<open>The medium as \<^verbatim>\<open>write_data\<close> leaves it.\<close>

fun poke :: "persistentStore \<Rightarrow> int \<Rightarrow> byte list \<Rightarrow> persistentStore" where
  "poke ps pos [] = ps"
| "poke ps pos (v # vs) =
     poke (if stuck ps pos then ps else ps\<lparr>mem := (mem ps)(pos := v)\<rparr>) (pos + 1) vs"

text \<open>The status \<^verbatim>\<open>EEPROM_WRITE\<close> drops, and whether some write of a sequence of
  \<^verbatim>\<open>EEPROM_WRITE\<close> calls reported an error.\<close>

definition EEPROM_WRITE_status :: "byte list \<Rightarrow> MarlinSettings \<times> persistentStore \<Rightarrow> bool" where
  "EEPROM_WRITE_status bs sp =
     fst (write_data (snd sp) (eeprom_index (fst sp)) bs (working_crc (fst sp)))"

fun write_failed :: "byte list list \<Rightarrow> MarlinSettings \<times> persistentStore \<Rightarrow> bool" where
  "write_failed [] sp = False"
| "write_failed (bs # rest) sp =
     (EEPROM_WRITE_status bs sp \<or> write_failed rest (EEPROM_WRITE bs sp))"

text \<open>Whether some write of \<^verbatim>\<open>save()\<close> reported an error: the placeholder, a body
  field, the version tag or the checksum.\<close>

definition save_write_failed :: "config \<Rightarrow> MarlinSettings \<times> persistentStore \<Rightarrow> bool" where
  "save_write_failed cfg sp =
     (let (s, ps) = sp;
          s0 = (call ''persistentStore.access_start'' (s\<lparr>working_crc := 0\<rparr>))
                 \<lparr>eeprom_index := EEPROM_OFFSET, eeprom_error := False\<rparr>;
          sp1 = save_header cfg (s0, ps);
          sp2 = save_body cfg sp1;
          sp3 = ((fst sp2)\<lparr>eeprom_index := EEPROM_OFFSET\<rparr>, snd sp2)
      in (\<not> enabled cfg FLASH_EEPROM_EMULATION \<and> EEPROM_WRITE_status ERR (s0, ps))
       \<or> write_failed (save_fields cfg (live s)) sp1
       \<or> EEPROM_WRITE_status version sp3
       \<or> EEPROM_WRITE_status (le16 (working_crc (fst sp2))) (EEPROM_WRITE version sp3))"

text \<open>A medium with one worn cell: address 100, the first byte of the version slot,
  holds the letter E for good.\<close>

definition worn_medium :: persistentStore where
  "worn_medium = \<lparr>mem = (\<lambda>a. if a = 100 then 0x45 else 0xFF), stuck = (\<lambda>a. a = 100),
                    present = True, capacity = 4096\<rparr>"

text \<open>Two states that differ at most in the cursor and the running checksum.\<close>

definition cursor_only :: "MarlinSettings \<Rightarrow> MarlinSettings \<Rightarrow> bool" where
  "cursor_only s s' = (s' = s\<lparr>eeprom_index := eeprom_index s', working_crc := working_crc s'\<rparr>)"

text \<open>A step of the walk is \<open>quiet\<close> when it keeps the two flags and, on a validating
  pass, the live variables and the log of calls.\<close>

definition quiet :: "(MarlinSettings \<Rightarrow> MarlinSettings) \<Rightarrow> bool" where
  "quiet f = (\<forall>s. validating (f s) = validating s \<and> eeprom_error (f s) = eeprom_error s
                 \<and> (validating s \<longrightarrow> live (f s) = live s \<and> events (f s) = events s))"

text \<open>A machine whose acceleration was tuned away from the default, to 1234.0.\<close>

definition tuned :: MarlinSettings where
  "tuned = power_on\<lparr>live := example_hardcoded(planner_settings_acceleration := le32 0x449A4000)\<rparr>"

text \<open>
  Points of \<^verbatim>\<open>_load()\<close>: the state once the header has been read, the stored checksum,
  and the state once the whole body has streamed, just before the size and checksum
  comparison.
\<close>

definition load_header :: "persistentStore \<Rightarrow> MarlinSettings \<Rightarrow> MarlinSettings" where
  "load_header ps s =
     snd (EEPROM_READ_ALWAYS ps 2 (snd (EEPROM_READ_ALWAYS ps 4
       ((call ''persistentStore.access_start'' s)
          \<lparr>eeprom_index := EEPROM_OFFSET, working_crc := 0\<rparr>))))"

definition stored_crc :: "persistentStore \<Rightarrow> 16 word" where
  "stored_crc ps = rd16 (peek ps (EEPROM_OFFSET + 4) 2)"

definition body_streamed :: "config \<Rightarrow> byte list \<Rightarrow> persistentStore \<Rightarrow> MarlinSettings
    \<Rightarrow> MarlinSettings" where
  "body_streamed cfg junk ps s = load_body cfg junk ps ((load_header ps s)\<lparr>working_crc := 0\<rparr>)"

text \<open>The medium of a \<^verbatim>\<open>save()\<close> that is cut off after the placeholder header and the
  first \<open>k\<close> writes of the body.\<close>

definition save_interrupted :: "config \<Rightarrow> nat \<Rightarrow> MarlinSettings \<times> persistentStore
    \<Rightarrow> persistentStore" where
  "save_interrupted cfg k sp =
     snd (foldl (\<lambda>sp bs. EEPROM_WRITE bs sp)
            (save_header cfg (call ''persistentStore.access_start'' ((fst sp)\<lparr>working_crc := 0\<rparr>),
                              snd sp))
            (take k (save_fields cfg (live (fst sp)))))"

text \<open>
  The number of bytes the three blocks of data-dependent width take from the medium when
  they start at address \<open>i\<close>: the stored \<^verbatim>\<open>esteppers\<close> count and the stored grid
  dimensions decide.
\<close>

definition span_planner_motion :: "persistentStore \<Rightarrow> int \<Rightarrow> nat" where
  "span_planner_motion ps i =
     1 + 4 * (XYZ + unat (mem ps i)) + 4 + 4 * (XYZ + unat (mem ps i))
       + 4 * (XYZ + unat (mem ps i)) + 20 + 16 + 4"

definition span_mesh_bed_leveling :: "persistentStore \<Rightarrow> int \<Rightarrow> nat" where
  "span_mesh_bed_leveling ps i = 4 + 1 + 1 + 4 * (unat (mem ps (i + 4)) * unat (mem ps (i + 5)))"

definition span_bilinear :: "persistentStore \<Rightarrow> int \<Rightarrow> nat" where
  "span_bilinear ps i = 1 + 1 + 8 + 8 + 4 * (unat (mem ps i) * unat (mem ps (i + 1)))"


text \<open>
  The cursor of \<^verbatim>\<open>_load()\<close>. A step \<open>walks\<close> the medium over \<open>n i\<close> bytes when, started
  with the cursor at \<open>i\<close>, it moves the cursor by that many bytes and folds exactly those
  bytes into the running checksum; \<open>then_span\<close> is the width of two such steps in a row.
\<close>

definition walks :: "persistentStore \<Rightarrow> (MarlinSettings \<Rightarrow> MarlinSettings) \<Rightarrow> (int \<Rightarrow> nat) \<Rightarrow> bool" where
  "walks ps f n =
     (\<forall>s. eeprom_index (f s) = eeprom_index s + int (n (eeprom_index s))
        \<and> working_crc (f s)
            = crc16 (working_crc s) (peek ps (eeprom_index s) (n (eeprom_index s))))"

definition then_span :: "(int \<Rightarrow> nat) \<Rightarrow> (int \<Rightarrow> nat) \<Rightarrow> int \<Rightarrow> nat" where
  "then_span n m i = n i + m (i + int (n i))"

text \<open>The width of the blocks from the UBL flags to the case light, which no stored
  count changes, and of the whole body as \<^verbatim>\<open>_load()\<close> walks it from address \<open>i\<close>.\<close>

definition span_tail :: "config \<Rightarrow> nat" where
  "span_tail cfg =
     2 + (2 * (EEPROM_NUM_SERVOS cfg * 2)
     + ((if enabled cfg PROBE_TEMP_COMPENSATION
         then 2 * COUNT_z_offsets_probe cfg + 2 * COUNT_z_offsets_bed cfg
            + (if enabled cfg USE_TEMP_EXT_COMPENSATION then 2 * COUNT_z_offsets_ext cfg else 0)
         else 0)
     + (1
     + ((if enabled cfg DELTA then 40 else if enabled cfg HAS_EXTRA_ENDSTOPS then 20 else 0)
     + ((if enabled cfg Z_STEPPER_AUTO_ALIGN
         then 8 * NUM_Z_STEPPER_DRIVERS cfg
            + (if enabled cfg Z_STEPPER_ALIGN_KNOWN_STEPPER_POSITIONS
               then 8 * NUM_Z_STEPPER_DRIVERS cfg else 0)
         else 0)
     + (10
     + ((20 * HOTENDS cfg + 2)
     + (12
     + ((if enabled cfg HAS_USER_THERMISTORS
         then sizeof_user_thermistor_t cfg * USER_THERMISTORS cfg else 0)
     + (2
     + (sizeof_controllerFan_settings_t cfg
     + (1
     + (33
     + ((1 + 4 * EXTRUDERS cfg)
     + (106
     + (4 * max (EXTRUDERS cfg) 1
     + (12
     + (12 * MAX_COORDINATE_SYSTEMS cfg
     + (12
     + ((if 0 < EXTRUDERS cfg then 8 * EXTRUDERS cfg else 0)
     + ((if 1 < EXTRUDERS cfg then sizeof_toolchange_settings_t cfg else 0)
     + (17
     + ((if enabled cfg EXTENSIBLE_UI then eeprom_data_size cfg else 0)
     + (if enabled cfg HAS_CASE_LIGHT_BRIGHTNESS then 1 else 0))))))))))))))))))))))))"

definition span_body :: "config \<Rightarrow> persistentStore \<Rightarrow> int \<Rightarrow> nat" where
  "span_body cfg ps =
     then_span (span_planner_motion ps)
    (then_span (\<lambda>i. 12 + (if enabled cfg HAS_HOTEND_OFFSET then 12 * (HOTENDS cfg - 1) else 0))
    (then_span (\<lambda>i. 5)
    (then_span (\<lambda>i. 4)
    (then_span (span_mesh_bed_leveling ps)
    (then_span (\<lambda>i. 12)
    (then_span (\<lambda>i. 36)
    (then_span (span_bilinear ps) (\<lambda>i. span_tail cfg))))))))"

text \<open>A step \<open>keeps_motion\<close> when it leaves the nine planner settings of the first block
  as they are.\<close>

definition keeps_motion :: "(MarlinSettings \<Rightarrow> MarlinSettings) \<Rightarrow> bool" where
  "keeps_motion f = (\<forall>s. \<forall>k<9. live (f s) (V k) = live s (V k))"

text \<open>
  A stored record of the example build: the tag \<^verbatim>\<open>V76\<close>, the given checksum, one E stepper,
  the acceleration 1000.0 (\<^verbatim>\<open>0x447A0000\<close>, at address 159), 3 by 3 for both stored grid
  sizes, and zero elsewhere. \<open>valid_record\<close> carries the checksum of its body,
  \<open>corrupt_record\<close> a checksum that is off by one.
\<close>

definition stored_record :: "16 word \<Rightarrow> persistentStore" where
  "stored_record crc =
     \<lparr>mem = (\<lambda>a. if a = 100 then 0x56 else if a = 101 then 0x37 else if a = 102 then 0x36
                 else if a = 104 then ucast crc else if a = 105 then ucast (drop_bit 8 crc)
                 else if a = 106 then 1
                 else if a = 161 then 0x7A else if a = 162 then 0x44
                 else if a = 224 \<or> a = 225 \<or> a = 310 \<or> a = 311 then 3
                 else 0),
      stuck = (\<lambda>a. False), present = True, capacity = 4096\<rparr>"

definition valid_record :: persistentStore where
  "valid_record = stored_record (crc16 0 (peek (stored_record 0) 106 634))"

definition corrupt_record :: persistentStore where
  "corrupt_record = stored_record (crc16 0 (peek (stored_record 0) 106 634) + 1)"

text \<open>The example build on an Archim2 board, whose flash backup holds \<open>valid_record\<close>;
  and the Unified Bed Leveling build with a mesh configuration that
  \<^verbatim>\<open>ubl.sanity_check()\<close> rejects.\<close>

definition backup_build :: config where
  "backup_build = example_build\<lparr>enabled := features [HAS_CLASSIC_JERK, HAS_CLASSIC_E_JERK,
      CLASSIC_JERK, HAS_HOME_OFFSET, HAS_LCD_MENU, PIDTEMP, PIDTEMPBED,
      ARCHIM2_SPI_FLASH_EEPROM_BACKUP_SIZE],
      restoreEEPROM := (\<lambda>ps. (True, valid_record)), sizeof_int := 4, sizeof_size_t := 4\<rparr>"

definition unsound_ubl_build :: config where
  "unsound_ubl_build = ubl_build\<lparr>ubl_sanity_check := (\<lambda>lv. True)\<rparr>"
section \<open>Properties\<close>

subsection \<open>The slot allocator\<close>

lemma uint_meshes_end:
  assumes "129 \<le> capacity ps" "capacity ps < 65665"
  shows "uint (meshes_end ps) = int (capacity ps) - 129"
proof -
  define n where "n = capacity ps - 129"
  have e: "int (capacity ps) - 129 = int n" and n: "n < 65536"
    using assms by (simp_all add: n_def)
  have "unat (of_nat n :: 16 word) = n"
    using n by (simp add: unat_of_nat take_bit_eq_mod)
  then have "uint (of_nat n :: 16 word) = int n"
    by (metis uint_nat)
  then show ?thesis unfolding meshes_end_def e by simp
qed

lemma slot_product_bound:
  fixes k :: int and n :: nat
  assumes "- 127 \<le> k" "k \<le> 128" "n \<le> 65535"
  shows "- 8388480 \<le> k * int n \<and> k * int n \<le> 8388480"
proof -
  have "\<bar>k\<bar> \<le> 128" using assms by simp
  moreover have "\<bar>int n\<bar> \<le> 65535" using assms by simp
  ultimately have "\<bar>k\<bar> * \<bar>int n\<bar> \<le> 128 * 65535"
    by (intro mult_mono) simp_all
  then have "\<bar>k * int n\<bar> \<le> 8388480" by (simp add: abs_mult)
  then show ?thesis by linarith
qed

lemma sint16_small:
  fixes w :: "16 word"
  assumes "unat w < 32768"
  shows "sint w = int (unat w)"
proof -
  have "uint w = int (unat w)" by (rule uint_nat)
  with assms have u: "uint w < 32768" by linarith
  have "- 32768 \<le> uint w" using uint_ge_0 [of w] by linarith
  then have lo: "- (2 ^ 15 :: int) \<le> uint w" by simp
  have hi: "uint w < 2 ^ 15" using u by simp
  have "signed_take_bit 15 (uint w) = uint w"
    using lo hi by (rule signed_take_bit_int_eq_self)
  then show ?thesis by (simp add: sint_uint)
qed

lemma slot_out_of_range:
  fixes slot :: "8 word"
  assumes "sint slot < 0 \<or> int (unat (calc_num_meshes cfg ps)) \<le> sint slot"
  shows "\<not> WITHIN (sint slot) 0 (sint (calc_num_meshes cfg ps) - 1)"
proof (cases "sint slot < 0")
  case True
  then show ?thesis by (simp add: WITHIN_def)
next
  case False
  with assms have le: "int (unat (calc_num_meshes cfg ps)) \<le> sint slot" by simp
  have "sint slot \<le> 127" using sint_lt [of slot] by simp
  with le have "unat (calc_num_meshes cfg ps) < 32768" by linarith
  then have "sint (calc_num_meshes cfg ps) = int (unat (calc_num_meshes cfg ps))"
    by (rule sint16_small)
  with le show ?thesis by (simp add: WITHIN_def)
qed

subsection \<open>The streamed fields fill the declared layout\<close>

lemma length_img [simp]: "length (img n bs) = n"
  by (simp add: img_def)

lemma img_id [simp]: "length bs = n \<Longrightarrow> img n bs = bs"
  by (simp add: img_def)

lemma length_le16 [simp]: "length (le16 w) = 2" by (simp add: le16_def)
lemma length_le32 [simp]: "length (le32 w) = 4" by (simp add: le32_def)
lemma length_zeros [simp]: "length (zeros n) = n" by (simp add: zeros_def)
lemma length_u8 [simp]: "length (u8 n) = 1" by (simp add: u8_def)
lemma length_bool_byte [simp]: "length (bool_byte b) = 1" by (simp add: bool_byte_def)
lemma length_NAN [simp]: "length NAN = 4" by (simp add: NAN_def)

lemma length_concat_replicate [simp]:
  "length (concat (replicate n bs)) = n * length bs"
  by (induction n) simp_all

lemma length_concat_map_const:
  "(\<And>x. x \<in> set xs \<Longrightarrow> length (f x) = k) \<Longrightarrow> length (concat (map f xs)) = length xs * k"
  by (induction xs) simp_all

lemma len_planner_motion:
  "length (concat (save_planner_motion cfg lv)) = sizeof_planner_settings_t cfg + 16 + 4"
  by (simp add: save_planner_motion_def sizeof_planner_settings_t_def)

lemma len_home_offset:
  "length (concat (save_home_offset cfg lv))
     = 12 + (if enabled cfg HAS_HOTEND_OFFSET then 12 * (HOTENDS cfg - 1) else 0)"
  by (simp add: save_home_offset_def length_concat_map_const [where k = 12])

lemma len_runout: "length (concat (save_runout cfg lv)) = 1 + 4"
  by (simp add: save_runout_def)

lemma len_global_leveling: "length (concat (save_global_leveling cfg lv)) = 4"
  by (simp add: save_global_leveling_def)

lemma len_mesh_bed_leveling:
  "length (concat (save_mesh_bed_leveling cfg lv))
     = 4 + 1 + 1 + 4 * (fst (mesh_num cfg) * snd (mesh_num cfg))"
  by (simp add: save_mesh_bed_leveling_def mesh_num_def)

lemma len_probe_offset: "length (concat (save_probe_offset cfg lv)) = 12"
  by (simp add: save_probe_offset_def)

lemma len_planar: "length (concat (save_planar cfg lv)) = 36"
  by (simp add: save_planar_def)

lemma len_bilinear:
  "length (concat (save_bilinear cfg lv))
     = 1 + 1 + 8 + 8 + 4 * (fst (grid_max cfg) * snd (grid_max cfg))"
  by (simp add: save_bilinear_def grid_max_def)

lemma len_ubl: "length (concat (save_ubl cfg lv)) = 1 + 1"
  by (simp add: save_ubl_def)

lemma len_servo_angles:
  "length (concat (save_servo_angles cfg lv)) = 2 * (EEPROM_NUM_SERVOS cfg * 2)"
  by (simp add: save_servo_angles_def)

lemma len_temp_comp:
  "length (concat (save_temp_comp cfg lv))
     = (if enabled cfg PROBE_TEMP_COMPENSATION
        then 2 * COUNT_z_offsets_probe cfg + 2 * COUNT_z_offsets_bed cfg
           + (if enabled cfg USE_TEMP_EXT_COMPENSATION then 2 * COUNT_z_offsets_ext cfg else 0)
        else 0)"
  by (simp add: save_temp_comp_def)

lemma len_bltouch: "length (concat (save_bltouch cfg lv)) = 1"
  by (simp add: save_bltouch_def)

lemma len_endstops:
  "length (concat (save_endstops cfg lv))
     = (if enabled cfg DELTA then 4 + 12 + 4 + 4 + 4 + 12
        else if enabled cfg HAS_EXTRA_ENDSTOPS then 5 * 4 else 0)"
  by (simp add: save_endstops_def)

lemma len_z_stepper_align:
  "length (concat (save_z_stepper_align cfg lv))
     = (if enabled cfg Z_STEPPER_AUTO_ALIGN
        then 8 * NUM_Z_STEPPER_DRIVERS cfg
           + (if enabled cfg Z_STEPPER_ALIGN_KNOWN_STEPPER_POSITIONS
              then 8 * NUM_Z_STEPPER_DRIVERS cfg else 0)
        else 0)"
  by (simp add: save_z_stepper_align_def)

lemma len_preheat: "length (concat (save_preheat cfg lv)) = 4 + 4 + 2"
  by (simp add: save_preheat_def Let_def)

lemma len_hotend_pid: "length (concat (save_hotend_pid cfg lv)) = 20 * HOTENDS cfg + 2"
  by (simp add: save_hotend_pid_def length_concat_map_const [where k = 20])

lemma len_bed_pid: "length (concat (save_bed_pid cfg lv)) = 12"
  by (simp add: save_bed_pid_def)

lemma len_user_thermistors:
  "length (concat (save_user_thermistors cfg lv))
     = (if enabled cfg HAS_USER_THERMISTORS
        then sizeof_user_thermistor_t cfg * USER_THERMISTORS cfg else 0)"
  by (simp add: save_user_thermistors_def)

lemma len_lcd_contrast: "length (concat (save_lcd_contrast cfg lv)) = 2"
  by (simp add: save_lcd_contrast_def)

lemma len_controller_fan:
  "length (concat (save_controller_fan cfg lv)) = sizeof_controllerFan_settings_t cfg"
  by (simp add: save_controller_fan_def)

lemma len_power_loss: "length (concat (save_power_loss cfg lv)) = 1"
  by (simp add: save_power_loss_def)

lemma len_fwretract: "length (concat (save_fwretract cfg lv)) = 32 + 1"
  by (simp add: save_fwretract_def autoretract_defaults_def)

lemma len_volumetric: "length (concat (save_volumetric cfg lv)) = 1 + 4 * EXTRUDERS cfg"
  by (simp add: save_volumetric_def)

lemma length_tmc_axes [simp]: "length tmc_axes = 14"
  by (simp add: tmc_axes_def)

lemma len_tmc: "length (concat (save_tmc cfg lv)) = 28 + 56 + 8 + 14"
proof -
  have a: "length (concat (map (\<lambda>ax. if enabled cfg HAS_TRINAMIC_CONFIG \<and> AXIS_IS_TMC cfg ax
                         then img 2 (lv (stepper_milliamps ax)) else le16 0) tmc_axes)) = 28"
    by (subst length_concat_map_const [where k = 2]) simp_all
  have b: "length (concat (map (\<lambda>ax. if AXIS_HAS_STEALTHCHOP cfg ax
                              then img 4 (lv (stepper_pwm_thrs ax)) else le32 0) tmc_axes)) = 56"
    by (subst length_concat_map_const [where k = 4]) simp_all
  have d: "length (concat (map (\<lambda>ax. if enabled cfg HAS_STEALTHCHOP \<and> AXIS_HAS_STEALTHCHOP cfg ax
                         then img 1 (lv (stepper_stealthChop_enabled ax))
                         else bool_byte False) tmc_axes)) = 14"
    by (subst length_concat_map_const [where k = 1]) simp_all
  show ?thesis
    by (simp add: save_tmc_def a b d)
qed

lemma len_lin_advance:
  "length (concat (save_lin_advance cfg lv)) = 4 * max (EXTRUDERS cfg) 1"
  by (simp add: save_lin_advance_def)

lemma len_motor_current: "length (concat (save_motor_current cfg lv)) = 12"
  by (simp add: save_motor_current_def)

lemma len_coordinate_system:
  "length (concat (save_coordinate_system cfg lv)) = 12 * MAX_COORDINATE_SYSTEMS cfg"
  by (simp add: save_coordinate_system_def)

lemma len_skew: "length (concat (save_skew cfg lv)) = 12"
  by (simp add: save_skew_def)

lemma len_fc_settings:
  "length (concat (save_fc_settings cfg lv)) = (if 0 < EXTRUDERS cfg then 8 * EXTRUDERS cfg else 0)"
  by (simp add: save_fc_settings_def)

lemma len_toolchange:
  "length (concat (save_toolchange cfg lv))
     = (if 1 < EXTRUDERS cfg then sizeof_toolchange_settings_t cfg else 0)"
  by (simp add: save_toolchange_def)

lemma len_backlash: "length (concat (save_backlash cfg lv)) = 12 + 1 + 4"
  by (simp add: save_backlash_def)

lemma len_extui:
  "length (concat (save_extui cfg lv))
     = (if enabled cfg EXTENSIBLE_UI then eeprom_data_size cfg else 0)"
  by (simp add: save_extui_def)

lemma len_case_light:
  "length (concat (save_case_light cfg lv))
     = (if enabled cfg HAS_CASE_LIGHT_BRIGHTNESS then 1 else 0)"
  by (simp add: save_case_light_def)

lemmas len_blocks = len_planner_motion len_home_offset len_runout len_global_leveling
  len_mesh_bed_leveling len_probe_offset len_planar len_bilinear len_ubl len_servo_angles
  len_temp_comp len_bltouch len_endstops len_z_stepper_align len_preheat len_hotend_pid
  len_bed_pid len_user_thermistors len_lcd_contrast len_controller_fan len_power_loss
  len_fwretract len_volumetric len_tmc len_lin_advance len_motor_current
  len_coordinate_system len_skew len_fc_settings len_toolchange len_backlash len_extui
  len_case_light

lemma length_save_fields:
  "6 + length (concat (save_fields cfg lv)) = sizeof_SettingsData cfg"
  unfolding save_fields_def sizeof_SettingsData_def concat_append length_append len_blocks
  by simp

subsection \<open>The driver\<close>

lemma crc16_Cons: "crc16 c (b # bs) = crc16 (crc16_byte c b) bs"
  by (simp add: crc16_def)

lemma crc16_Nil [simp]: "crc16 c [] = c"
  by (simp add: crc16_def)

lemma crc16_append: "crc16 c (as @ bs) = crc16 (crc16 c as) bs"
  by (simp add: crc16_def)

lemma write_data_pos: "fst (snd (write_data ps pos bs crc)) = pos + int (length bs)"
  by (induction bs arbitrary: ps pos crc) (simp_all add: Let_def case_prod_beta)

lemma write_data_crc: "fst (snd (snd (write_data ps pos bs crc))) = crc16 crc bs"
  by (induction bs arbitrary: ps pos crc) (simp_all add: Let_def case_prod_beta crc16_Cons)

lemma write_data_store: "snd (snd (snd (write_data ps pos bs crc))) = poke ps pos bs"
  by (induction bs arbitrary: ps pos crc) (simp_all add: Let_def case_prod_beta)

lemma write_data_eq:
  "write_data ps pos bs crc
     = (fst (write_data ps pos bs crc), pos + int (length bs), crc16 crc bs, poke ps pos bs)"
  by (metis prod.collapse write_data_pos write_data_crc write_data_store)

lemma poke_fields [simp]:
  "stuck (poke ps pos bs) = stuck ps"
  "present (poke ps pos bs) = present ps"
  "capacity (poke ps pos bs) = capacity ps"
  by (induction bs arbitrary: ps pos) simp_all

lemma poke_append: "poke ps pos (as @ bs) = poke (poke ps pos as) (pos + int (length as)) bs"
  by (induction as arbitrary: ps pos) (simp_all add: add.assoc)

lemma mem_poke_outside:
  "a < pos \<or> pos + int (length bs) \<le> a \<Longrightarrow> mem (poke ps pos bs) a = mem ps a"
  by (induction bs arbitrary: ps pos) auto

lemma mem_poke_stuck: "stuck ps a \<Longrightarrow> mem (poke ps pos bs) a = mem ps a"
  by (induction bs arbitrary: ps pos) auto

lemma mem_poke_inside:
  "\<not> stuck ps (pos + int i) \<Longrightarrow> i < length bs \<Longrightarrow> mem (poke ps pos bs) (pos + int i) = bs ! i"
proof (induction bs arbitrary: ps pos i)
  case Nil
  then show ?case by simp
next
  case (Cons v vs)
  show ?case
  proof (cases i)
    case 0
    with Cons.prems show ?thesis by (simp add: mem_poke_outside)
  next
    case (Suc j)
    let ?ps = "if stuck ps pos then ps else ps\<lparr>mem := (mem ps)(pos := v)\<rparr>"
    have "mem (poke ?ps (pos + 1) vs) (pos + 1 + int j) = vs ! j"
      using Cons.prems Suc by (intro Cons.IH) (auto simp: add.assoc)
    with Suc show ?thesis by (simp add: add.assoc)
  qed
qed

lemma length_peek [simp]: "length (peek ps pos n) = n"
  by (simp add: peek_def)

lemma peek_poke_same:
  assumes "\<forall>i < length bs. \<not> stuck ps (pos + int i)"
  shows "peek (poke ps pos bs) pos (length bs) = bs"
proof (rule nth_equalityI)
  show "length (peek (poke ps pos bs) pos (length bs)) = length bs" by simp
next
  fix i
  assume "i < length (peek (poke ps pos bs) pos (length bs))"
  then have "i < length bs" by simp
  then show "peek (poke ps pos bs) pos (length bs) ! i = bs ! i"
    using assms by (simp add: peek_def mem_poke_inside)
qed

lemma peek_poke_other:
  "pos' + int n \<le> pos \<or> pos + int (length bs) \<le> pos' \<Longrightarrow>
   peek (poke ps pos bs) pos' n = peek ps pos' n"
  by (auto simp: peek_def mem_poke_outside)

lemma peek_add: "peek ps pos (m + n) = peek ps pos m @ peek ps (pos + int m) n"
proof (rule nth_equalityI)
  show "length (peek ps pos (m + n)) = length (peek ps pos m @ peek ps (pos + int m) n)"
    by simp
next
  fix i
  assume "i < length (peek ps pos (m + n))"
  then have i: "i < m + n" by simp
  show "peek ps pos (m + n) ! i = (peek ps pos m @ peek ps (pos + int m) n) ! i"
  proof (cases "i < m")
    case True
    with i show ?thesis by (simp add: peek_def nth_append)
  next
    case False
    then have e: "pos + int m + int (i - m) = pos + int i" by simp
    from False i have "i - m < n" by simp
    with False i show ?thesis by (simp add: peek_def nth_append e)
  qed
qed

subsection \<open>What \<^verbatim>\<open>save()\<close> does\<close>

lemma EEPROM_WRITE_eq:
  "EEPROM_WRITE bs (s, ps)
     = (s\<lparr>eeprom_index := eeprom_index s + int (length bs),
           working_crc := crc16 (working_crc s) bs\<rparr>, poke ps (eeprom_index s) bs)"
  by (subst EEPROM_WRITE_def, subst write_data_eq) simp

lemma foldl_EEPROM_WRITE:
  "foldl (\<lambda>sp bs. EEPROM_WRITE bs sp) (s, ps) bss
     = (s\<lparr>eeprom_index := eeprom_index s + int (length (concat bss)),
           working_crc := crc16 (working_crc s) (concat bss)\<rparr>,
        poke ps (eeprom_index s) (concat bss))"
proof (induction bss arbitrary: s ps)
  case Nil
  show ?case by simp
next
  case (Cons bs bss)
  show ?case
    by (simp add: EEPROM_WRITE_eq Cons.IH poke_append crc16_append add.assoc)
qed

lemma save_header_eq:
  "save_header cfg (s, ps)
     = (s\<lparr>eeprom_index := EEPROM_OFFSET + 6, eeprom_error := False, working_crc := 0\<rparr>,
        if enabled cfg FLASH_EEPROM_EMULATION then ps else poke ps EEPROM_OFFSET ERR)"
  by (simp add: save_header_def EEPROM_WRITE_eq EEPROM_SKIP_def ERR_def)

lemma call_fields [simp]:
  "live (call n s) = live s" "eeprom_error (call n s) = eeprom_error s"
  "validating (call n s) = validating s" "eeprom_index (call n s) = eeprom_index s"
  "working_crc (call n s) = working_crc s" "events (call n s) = events s @ [Call n]"
  by (simp_all add: call_def)

lemma message_fields [simp]:
  "live (message n s) = live s" "eeprom_error (message n s) = eeprom_error s"
  "validating (message n s) = validating s" "eeprom_index (message n s) = eeprom_index s"
  "working_crc (message n s) = working_crc s" "events (message n s) = events s @ [Message n]"
  by (simp_all add: message_def)

lemma assign_fields [simp]:
  "live (assign v bs s) = (live s)(v := bs)" "eeprom_error (assign v bs s) = eeprom_error s"
  "validating (assign v bs s) = validating s" "eeprom_index (assign v bs s) = eeprom_index s"
  "working_crc (assign v bs s) = working_crc s" "events (assign v bs s) = events s"
  by (simp_all add: assign_def)

lemma debug_fields [simp]:
  "live (debug cfg t s) = live s" "eeprom_error (debug cfg t s) = eeprom_error s"
  "validating (debug cfg t s) = validating s" "eeprom_index (debug cfg t s) = eeprom_index s"
  "working_crc (debug cfg t s) = working_crc s"
  "events (debug cfg t s) = events s @ (if enabled cfg EEPROM_CHITCHAT then [Message t] else [])"
  by (simp_all add: debug_def)

lemma debug_echo_fields [simp]:
  "live (debug_echo cfg n s) = live s" "eeprom_error (debug_echo cfg n s) = eeprom_error s"
  "validating (debug_echo cfg n s) = validating s" "eeprom_index (debug_echo cfg n s) = eeprom_index s"
  "working_crc (debug_echo cfg n s) = working_crc s"
  "events (debug_echo cfg n s) = events s @ (if enabled cfg EEPROM_CHITCHAT then [Echo n] else [])"
  by (simp_all add: debug_echo_def)

lemma ifdef_call_fields [simp]:
  "live (ifdef c (call n) s) = live s" "eeprom_error (ifdef c (call n) s) = eeprom_error s"
  "validating (ifdef c (call n) s) = validating s" "eeprom_index (ifdef c (call n) s) = eeprom_index s"
  "working_crc (ifdef c (call n) s) = working_crc s"
  "events (ifdef c (call n) s) = events s @ (if c then [Call n] else [])"
  by (simp_all add: ifdef_def)

lemma ubl_invalid_slot_fields [simp]:
  "live (ubl_invalid_slot cfg a s) = live s"
  "eeprom_error (ubl_invalid_slot cfg a s) = eeprom_error s"
  "validating (ubl_invalid_slot cfg a s) = validating s"
  "eeprom_index (ubl_invalid_slot cfg a s) = eeprom_index s"
  "working_crc (ubl_invalid_slot cfg a s) = working_crc s"
  "events (ubl_invalid_slot cfg a s)
     = events s @ (if enabled cfg EEPROM_CHITCHAT
                   then [Message ''?Invalid slot.'', Echo a, Message '' mesh slots available.'']
                   else [])"
  by (simp_all add: ubl_invalid_slot_def)

lemma save_body_eq:
  "save_body cfg (s, ps)
     = ((ifdef (enabled cfg EXTENSIBLE_UI) (call ''ExtUI::onStoreSettings'') s)
          \<lparr>eeprom_index := eeprom_index s + int (length (concat (save_fields cfg (live s)))),
           working_crc := crc16 (working_crc s) (concat (save_fields cfg (live s)))\<rparr>,
        poke ps (eeprom_index s) (concat (save_fields cfg (live s))))"
  by (simp add: save_body_def foldl_EEPROM_WRITE)

lemma store_mesh_eeprom_error [simp]:
  "eeprom_error (fst (store_mesh cfg slot (s, ps))) = eeprom_error s"
  by (simp add: store_mesh_def Let_def case_prod_beta)

lemma save_finish_eq:
  "\<not> eeprom_error s \<Longrightarrow>
   save_finish cfg (s, ps)
     = (s\<lparr>eeprom_index := EEPROM_OFFSET + 6,
           working_crc := crc16 (crc16 (working_crc s) version) (le16 (working_crc s)),
           eeprom_error := size_error cfg (of_int (eeprom_index s - EEPROM_OFFSET))\<rparr>,
        poke (poke ps EEPROM_OFFSET version) (EEPROM_OFFSET + 4) (le16 (working_crc s)))"
  by (simp add: save_finish_def EEPROM_WRITE_eq Let_def version_def EEPROM_VERSION_def)

lemma save_no_size_error:
  "\<not> size_error cfg (of_nat (6 + length (concat (save_fields cfg lv))))"
  unfolding size_error_def datasize_def length_save_fields by simp

lemma save_reports:
  "fst (save cfg (s, ps))
     = (access_start ps
        \<and> \<not> size_error cfg (of_nat (6 + length (concat (save_fields cfg (live s))))))"
  by (simp add: save_def save_header_eq save_body_eq save_finish_eq Let_def case_prod_beta)

lemma write_data_stuck_fails:
  "stuck ps pos \<Longrightarrow> mem ps pos \<noteq> v \<Longrightarrow> fst (write_data ps pos (v # vs) crc)"
  by (simp add: Let_def case_prod_beta)

lemma worn_medium_version_write:
  "EEPROM_WRITE_status version
     (s\<lparr>eeprom_index := EEPROM_OFFSET\<rparr>,
      poke (poke worn_medium EEPROM_OFFSET ERR) (EEPROM_OFFSET + 6) body)"
proof -
  have "fst (write_data (poke (poke worn_medium 100 ERR) (100 + 6) body) 100
               (0x56 # [0x37, 0x36, 0]) c)" for c
    by (rule write_data_stuck_fails) (simp_all add: mem_poke_stuck worn_medium_def)
  then show ?thesis
    by (simp add: EEPROM_WRITE_status_def version_def EEPROM_VERSION_def EEPROM_OFFSET_def
          del: write_data.simps)
qed

text \<open>
  C7, as stated, fails: on a medium whose version cell does not take the tag, the write of
  the version tag reports an error and \<open>save\<close> still reports success.
\<close>

theorem save_ignores_write_status:
  "save_write_failed example_build (power_on, worn_medium)
   \<and> fst (save example_build (power_on, worn_medium))"
proof
  show "save_write_failed example_build (power_on, worn_medium)"
    using worn_medium_version_write
    by (simp add: save_write_failed_def save_header_eq save_body_eq Let_def
          example_build_def features_def)
next
  show "fst (save example_build (power_on, worn_medium))"
    using save_reports [of example_build power_on worn_medium]
          save_no_size_error [of example_build "live power_on"]
    by (simp add: access_start_def worn_medium_def)
qed

text \<open>
  C7, amended. \<open>save\<close> reports failure exactly when the medium cannot be opened or the
  computed record size (the cursor's distance from \<open>EEPROM_OFFSET\<close>, six header bytes
  and the streamed body) differs from \<open>datasize\<close>; the status of the individual writes
  is not consulted.
\<close>

theorem save_reports_failure:
  "fst (save cfg (s, ps))
     = (access_start ps
        \<and> \<not> size_error cfg (of_nat (6 + length (concat (save_fields cfg (live s))))))"
  by (rule save_reports)

theorem save_reports_failure_witness:
  "fst (save example_build (power_on, blank_medium))
   \<and> access_start blank_medium
   \<and> \<not> fst (save example_build (power_on, blank_medium\<lparr>present := False\<rparr>))"
proof -
  have a: "\<not> size_error example_build
             (of_nat (6 + length (concat (save_fields example_build (live power_on)))))"
    by (rule save_no_size_error)
  have b: "access_start blank_medium"
    by (simp add: access_start_def blank_medium_def)
  have c: "\<not> access_start (blank_medium\<lparr>present := False\<rparr>)"
    by (simp add: access_start_def)
  show ?thesis
    using save_reports_failure [of example_build power_on blank_medium]
          save_reports_failure [of example_build power_on "blank_medium\<lparr>present := False\<rparr>"]
          a b c
    by blast
qed

subsection \<open>Reading: the primitives\<close>

lemma EEPROM_READ_eq:
  "EEPROM_READ ps n buf s
     = (if validating s then buf else peek ps (eeprom_index s) n,
        s\<lparr>eeprom_index := eeprom_index s + int n,
          working_crc := crc16 (working_crc s) (peek ps (eeprom_index s) n)\<rparr>)"
  by (simp add: EEPROM_READ_def read_data_def)

lemma EEPROM_READ_ALWAYS_eq:
  "EEPROM_READ_ALWAYS ps n s
     = (peek ps (eeprom_index s) n,
        s\<lparr>eeprom_index := eeprom_index s + int n,
          working_crc := crc16 (working_crc s) (peek ps (eeprom_index s) n)\<rparr>)"
  by (simp add: EEPROM_READ_ALWAYS_def read_data_def)

lemma READ_dummy_eq:
  "READ_dummy ps n s
     = s\<lparr>eeprom_index := eeprom_index s + int n,
         working_crc := crc16 (working_crc s) (peek ps (eeprom_index s) n)\<rparr>"
  by (simp add: READ_dummy_def EEPROM_READ_eq)

lemma READ_var_eq:
  "READ_var ps v n s
     = s\<lparr>eeprom_index := eeprom_index s + int n,
         working_crc := crc16 (working_crc s) (peek ps (eeprom_index s) n),
         live := (if validating s then live s else (live s)(v := peek ps (eeprom_index s) n))\<rparr>"
  by (simp add: READ_var_def EEPROM_READ_eq assign_def)

lemma cursor_only_refl [simp]: "cursor_only s s"
  by (simp add: cursor_only_def)

lemma cursor_only_trans: "cursor_only s s' \<Longrightarrow> cursor_only s' s'' \<Longrightarrow> cursor_only s s''"
  unfolding cursor_only_def
  by (metis (no_types, lifting) MarlinSettings.surjective MarlinSettings.update_convs(5,6))

lemma cursor_only_validating: "cursor_only s s' \<Longrightarrow> validating s' = validating s"
  unfolding cursor_only_def by (metis MarlinSettings.select_convs(3) MarlinSettings.surjective
      MarlinSettings.update_convs(5,6))

subsection \<open>A validating pass is quiet\<close>

lemma funpow_READ_dummy: "((READ_dummy ps k) ^^ n) s = READ_dummy ps (n * k) s"
proof (induction n)
  case 0
  show ?case by (simp add: READ_dummy_eq peek_def)
next
  case (Suc n)
  have "READ_dummy ps k (READ_dummy ps (n * k) s) = READ_dummy ps (n * k + k) s"
    by (simp add: READ_dummy_eq peek_add crc16_append add.assoc)
  with Suc show ?case by (simp add: add.commute)
qed

lemma quiet_comp: "quiet f \<Longrightarrow> quiet g \<Longrightarrow> quiet (f \<circ> g)"
  by (simp add: quiet_def)

lemma quiet_foldl:
  assumes "\<And>x. quiet (\<lambda>s. f s x)"
  shows "quiet (\<lambda>s. foldl f s xs)"
proof (induction xs rule: rev_induct)
  case Nil
  show ?case by (simp add: quiet_def)
next
  case (snoc x xs)
  from assms [of x] snoc show ?case by (simp add: quiet_def)
qed

lemma EEPROM_READ_sel [simp]:
  "fst (EEPROM_READ ps n buf s) = (if validating s then buf else peek ps (eeprom_index s) n)"
  "validating (snd (EEPROM_READ ps n buf s)) = validating s"
  "eeprom_error (snd (EEPROM_READ ps n buf s)) = eeprom_error s"
  "live (snd (EEPROM_READ ps n buf s)) = live s"
  "events (snd (EEPROM_READ ps n buf s)) = events s"
  "eeprom_index (snd (EEPROM_READ ps n buf s)) = eeprom_index s + int n"
  "working_crc (snd (EEPROM_READ ps n buf s))
     = crc16 (working_crc s) (peek ps (eeprom_index s) n)"
  by (simp_all add: EEPROM_READ_eq)

lemma EEPROM_READ_ALWAYS_sel [simp]:
  "fst (EEPROM_READ_ALWAYS ps n s) = peek ps (eeprom_index s) n"
  "validating (snd (EEPROM_READ_ALWAYS ps n s)) = validating s"
  "eeprom_error (snd (EEPROM_READ_ALWAYS ps n s)) = eeprom_error s"
  "live (snd (EEPROM_READ_ALWAYS ps n s)) = live s"
  "events (snd (EEPROM_READ_ALWAYS ps n s)) = events s"
  "eeprom_index (snd (EEPROM_READ_ALWAYS ps n s)) = eeprom_index s + int n"
  "working_crc (snd (EEPROM_READ_ALWAYS ps n s))
     = crc16 (working_crc s) (peek ps (eeprom_index s) n)"
  by (simp_all add: EEPROM_READ_ALWAYS_eq)

lemma READ_dummy_sel [simp]:
  "validating (READ_dummy ps n s) = validating s"
  "eeprom_error (READ_dummy ps n s) = eeprom_error s"
  "live (READ_dummy ps n s) = live s"
  "events (READ_dummy ps n s) = events s"
  "eeprom_index (READ_dummy ps n s) = eeprom_index s + int n"
  "working_crc (READ_dummy ps n s) = crc16 (working_crc s) (peek ps (eeprom_index s) n)"
  by (simp_all add: READ_dummy_eq)

lemma READ_var_sel [simp]:
  "validating (READ_var ps v n s) = validating s"
  "eeprom_error (READ_var ps v n s) = eeprom_error s"
  "live (READ_var ps v n s)
     = (if validating s then live s else (live s)(v := peek ps (eeprom_index s) n))"
  "events (READ_var ps v n s) = events s"
  "eeprom_index (READ_var ps v n s) = eeprom_index s + int n"
  "working_crc (READ_var ps v n s) = crc16 (working_crc s) (peek ps (eeprom_index s) n)"
  by (simp_all add: READ_var_eq)

lemmas reads = funpow_READ_dummy committing_def Let_def

lemma quiet_planner_motion: "quiet (load_planner_motion cfg ps)"
  by (simp add: quiet_def load_planner_motion_def reads)

lemma foldl_hotend_offset_quiet:
  "quiet (\<lambda>s. foldl (\<lambda>s e. READ_var ps (hotend_offset e) 12 s) s es)"
  by (rule quiet_foldl) (simp add: quiet_def)

lemma quiet_home_offset: "quiet (load_home_offset cfg ps)"
  using foldl_hotend_offset_quiet [of ps "[1..<HOTENDS cfg]"]
  by (simp add: quiet_def load_home_offset_def reads)

lemma quiet_runout: "quiet (load_runout cfg ps)"
  by (simp add: quiet_def load_runout_def reads)

lemma quiet_global_leveling: "quiet (load_global_leveling cfg ps)"
  by (simp add: quiet_def load_global_leveling_def reads)

lemma quiet_mesh_bed_leveling: "quiet (load_mesh_bed_leveling cfg ps)"
  by (simp add: quiet_def load_mesh_bed_leveling_def reads mbl_reset_def)

lemma quiet_probe_offset: "quiet (load_probe_offset cfg ps)"
  by (simp add: quiet_def load_probe_offset_def reads)

lemma quiet_planar: "quiet (load_planar cfg ps)"
  by (simp add: quiet_def load_planar_def reads)

lemma quiet_bilinear: "quiet (load_bilinear cfg ps)"
  by (simp add: quiet_def load_bilinear_def reads set_bed_leveling_enabled_false_def)

lemma quiet_ubl: "quiet (load_ubl cfg ps)"
  by (simp add: quiet_def load_ubl_def reads)

lemma quiet_servo_angles: "quiet (load_servo_angles cfg ps)"
  by (simp add: quiet_def load_servo_angles_def reads)

lemma quiet_temp_comp:
  "\<not> enabled cfg PROBE_TEMP_COMPENSATION \<Longrightarrow> quiet (load_temp_comp cfg ps)"
  by (simp add: quiet_def load_temp_comp_def reads)

lemma quiet_bltouch: "quiet (load_bltouch cfg ps)"
  by (simp add: quiet_def load_bltouch_def reads)

lemma quiet_endstops: "quiet (load_endstops cfg ps)"
  by (simp add: quiet_def load_endstops_def reads)

lemma quiet_z_stepper_align: "quiet (load_z_stepper_align cfg ps)"
  by (simp add: quiet_def load_z_stepper_align_def reads)

lemma quiet_preheat: "quiet (load_preheat cfg ps)"
  by (simp add: quiet_def load_preheat_def reads)

lemma quiet_pidcf: "quiet (\<lambda>s. load_pidcf cfg ps s e)"
  by (simp add: quiet_def load_pidcf_def reads)

lemma quiet_hotend_pid: "quiet (load_hotend_pid cfg ps)"
  using quiet_foldl [of "load_pidcf cfg ps" "[0..<HOTENDS cfg]", OF quiet_pidcf]
  by (simp add: quiet_def load_hotend_pid_def reads)

lemma quiet_bed_pid: "quiet (load_bed_pid cfg ps)"
  by (simp add: quiet_def load_bed_pid_def reads)

lemma quiet_user_thermistors: "quiet (load_user_thermistors cfg ps)"
  by (simp add: quiet_def load_user_thermistors_def reads)

lemma quiet_lcd_contrast:
  "\<not> enabled cfg HAS_LCD_CONTRAST \<Longrightarrow> quiet (load_lcd_contrast cfg junk ps)"
  by (simp add: quiet_def load_lcd_contrast_def reads)

lemma quiet_controller_fan: "quiet (load_controller_fan cfg ps)"
  by (simp add: quiet_def load_controller_fan_def reads)

lemma quiet_power_loss: "quiet (load_power_loss cfg ps)"
  by (simp add: quiet_def load_power_loss_def reads)

lemma quiet_fwretract: "quiet (load_fwretract cfg ps)"
  by (simp add: quiet_def load_fwretract_def reads)

lemma quiet_volumetric: "quiet (load_volumetric cfg ps)"
  by (simp add: quiet_def load_volumetric_def reads)

lemma foldl_flags:
  assumes "\<And>s x. validating (f s x) = validating s \<and> eeprom_error (f s x) = eeprom_error s"
  shows "validating (foldl f s xs) = validating s \<and> eeprom_error (foldl f s xs) = eeprom_error s"
  by (induction xs rule: rev_induct) (simp_all add: assms)

lemma reset_stepper_drivers_flags [simp]:
  "validating (reset_stepper_drivers cfg s) = validating s"
  "eeprom_error (reset_stepper_drivers cfg s) = eeprom_error s"
  by (simp_all add: reset_stepper_drivers_def foldl_flags)

lemma quiet_tmc_current: "quiet (load_tmc_current cfg ps)"
  by (simp add: quiet_def load_tmc_current_def reads foldl_flags SET_CURR_def)

lemma quiet_tmc_hybrid_threshold: "quiet (load_tmc_hybrid_threshold cfg ps)"
  by (simp add: quiet_def load_tmc_hybrid_threshold_def reads foldl_flags)

lemma homing_threshold_flags [simp]:
  "validating (homing_threshold cfg c ax v s) = validating s"
  "eeprom_error (homing_threshold cfg c ax v s) = eeprom_error s"
  by (simp_all add: homing_threshold_def)

lemma quiet_tmc_sgt: "quiet (load_tmc_sgt cfg ps)"
  by (simp add: quiet_def load_tmc_sgt_def reads)

lemma quiet_tmc_stealth: "quiet (load_tmc_stealth cfg ps)"
  by (simp add: quiet_def load_tmc_stealth_def reads foldl_flags)

lemma quiet_reset_stepper_drivers: "quiet (committing (reset_stepper_drivers cfg))"
  by (simp add: quiet_def committing_def)

lemma quiet_tmc: "quiet (load_tmc cfg ps)"
proof -
  have "load_tmc cfg ps = load_tmc_stealth cfg ps \<circ> load_tmc_sgt cfg ps
          \<circ> load_tmc_hybrid_threshold cfg ps \<circ> load_tmc_current cfg ps
          \<circ> committing (reset_stepper_drivers cfg)"
    by (rule ext) (simp add: load_tmc_def)
  then show ?thesis
    by (simp add: quiet_comp quiet_tmc_stealth quiet_tmc_sgt quiet_tmc_hybrid_threshold
          quiet_tmc_current quiet_reset_stepper_drivers)
qed

lemma quiet_lin_advance: "quiet (load_lin_advance cfg ps)"
  by (simp add: quiet_def load_lin_advance_def reads)

lemma quiet_motor_current: "quiet (load_motor_current cfg ps)"
  by (simp add: quiet_def load_motor_current_def reads)

lemma quiet_coordinate_system: "quiet (load_coordinate_system cfg ps)"
  by (simp add: quiet_def load_coordinate_system_def reads select_coordinate_system_none_def)

lemma quiet_skew: "quiet (load_skew cfg ps)"
  by (simp add: quiet_def load_skew_def reads)

lemma quiet_fc_settings: "quiet (load_fc_settings cfg ps)"
  by (simp add: quiet_def load_fc_settings_def reads)

lemma quiet_toolchange: "quiet (load_toolchange cfg ps)"
  by (simp add: quiet_def load_toolchange_def reads)

lemma quiet_backlash: "quiet (load_backlash cfg ps)"
  by (simp add: quiet_def load_backlash_def reads)

lemma quiet_extui: "quiet (load_extui cfg ps)"
  by (simp add: quiet_def load_extui_def reads)

lemma quiet_case_light: "quiet (load_case_light cfg ps)"
  by (simp add: quiet_def load_case_light_def reads)

lemma quiet_load_body:
  assumes "\<not> enabled cfg HAS_LCD_CONTRAST" "\<not> enabled cfg PROBE_TEMP_COMPENSATION"
  shows "quiet (load_body cfg junk ps)"
  unfolding load_body_def
  by (intro quiet_comp quiet_case_light quiet_extui quiet_backlash quiet_toolchange
        quiet_fc_settings quiet_skew quiet_coordinate_system quiet_motor_current
        quiet_lin_advance quiet_tmc quiet_volumetric quiet_fwretract quiet_power_loss
        quiet_controller_fan quiet_lcd_contrast quiet_user_thermistors quiet_bed_pid
        quiet_hotend_pid quiet_preheat quiet_z_stepper_align quiet_endstops quiet_bltouch
        quiet_temp_comp quiet_servo_angles quiet_ubl quiet_bilinear quiet_planar
        quiet_probe_offset quiet_mesh_bed_leveling quiet_global_leveling quiet_runout
        quiet_home_offset quiet_planner_motion assms)

subsection \<open>\<^verbatim>\<open>_load()\<close>, \<^verbatim>\<open>validate()\<close> and \<^verbatim>\<open>load()\<close>\<close>

lemma status_P_fields [simp]:
  "live (status_P cfg s) = live s" "eeprom_error (status_P cfg s) = eeprom_error s"
  "validating (status_P cfg s) = validating s" "eeprom_index (status_P cfg s) = eeprom_index s"
  "working_crc (status_P cfg s) = working_crc s"
  by (simp_all add: status_P_def ifdef_def)

lemma load_finish_validating:
  assumes "validating s"
  shows "live (load_finish cfg crc ps s) = live s"
    and "validating (load_finish cfg crc ps s)"
    and "eeprom_index (load_finish cfg crc ps s) = eeprom_index s"
    and "eeprom_error (load_finish cfg crc ps s)
           = (size_error cfg (of_int (eeprom_index s - EEPROM_OFFSET)) \<or> working_crc s \<noteq> crc)"
  using assms by (simp_all add: load_finish_def Let_def committing_def)

lemma quietD:
  assumes "quiet f"
  shows "validating (f s) = validating s" "eeprom_error (f s) = eeprom_error s"
    "validating s \<Longrightarrow> live (f s) = live s" "validating s \<Longrightarrow> events (f s) = events s"
  using assms by (simp_all add: quiet_def)

lemma load'_validating:
  assumes q: "quiet (load_body cfg junk ps)" and v: "validating s"
  shows "live (snd (load' cfg junk ps s)) = live s"
    and "validating (snd (load' cfg junk ps s))"
proof -
  let ?s1 = "snd (EEPROM_READ_ALWAYS ps 2 (snd (EEPROM_READ_ALWAYS ps 4
               ((call ''persistentStore.access_start'' s)
                  \<lparr>eeprom_index := EEPROM_OFFSET, working_crc := 0\<rparr>))))\<lparr>working_crc := 0\<rparr>"
  have v1: "validating ?s1" and l1: "live ?s1 = live s" using v by simp_all
  have vb: "validating (load_body cfg junk ps ?s1)"
    using quietD(1) [OF q, of ?s1] v1 by simp
  have lb: "live (load_body cfg junk ps ?s1) = live s"
    using quietD(3) [OF q v1] l1 by simp
  show "live (snd (load' cfg junk ps s)) = live s"
    using v lb vb
    by (simp add: load'_def Let_def load_finish_validating del: EEPROM_READ_ALWAYS_sel(6,7))
  show "validating (snd (load' cfg junk ps s))"
    using v vb
    by (simp add: load'_def Let_def load_finish_validating del: EEPROM_READ_ALWAYS_sel(6,7))
qed

lemma strncmp_ne_version:
  assumes "length stored = 4"
  shows "strncmp_ne version stored 3 = (take 3 stored \<noteq> EEPROM_VERSION)"
proof -
  obtain a r1 where 1: "stored = a # r1" "length r1 = 3"
    using assms by (cases stored) simp_all
  then obtain b r2 where 2: "r1 = b # r2" "length r2 = 2" by (cases r1) simp_all
  then obtain c r3 where 3: "r2 = c # r3" by (cases r2) simp_all
  show ?thesis
    unfolding 1 2 3 version_def EEPROM_VERSION_def
    by (simp add: numeral_3_eq_3)
qed

lemma load'_version_mismatch:
  assumes "take 3 (peek ps EEPROM_OFFSET 4) \<noteq> EEPROM_VERSION"
  shows "\<not> fst (load' cfg junk ps s)"
    and "live (snd (load' cfg junk ps s)) = live s"
    and "validating (snd (load' cfg junk ps s)) = validating s"
  using assms
  by (simp_all add: load'_def Let_def strncmp_ne_version del: EEPROM_READ_ALWAYS_sel(6,7))

lemma load'_version_mismatch_cursor:
  assumes "take 3 (peek ps EEPROM_OFFSET 4) \<noteq> EEPROM_VERSION" and "access_start ps"
  shows "eeprom_index (snd (load' cfg junk ps s)) = EEPROM_OFFSET + 6"
proof -
  let ?s0 = "(call ''persistentStore.access_start'' s)
               \<lparr>eeprom_index := EEPROM_OFFSET, working_crc := 0\<rparr>"
  let ?s1 = "snd (EEPROM_READ_ALWAYS ps 2 (snd (EEPROM_READ_ALWAYS ps 4 ?s0)))"
  have i: "eeprom_index ?s1 = EEPROM_OFFSET + 6"
    by (simp only: EEPROM_READ_ALWAYS_sel) simp
  have "strncmp_ne version (fst (EEPROM_READ_ALWAYS ps 4 ?s0)) 3"
    using assms(1) by (simp add: strncmp_ne_version)
  then have "eeprom_index (snd (load' cfg junk ps s)) = eeprom_index ?s1"
    using assms(2)
    by (simp add: load'_def Let_def del: EEPROM_READ_ALWAYS_sel)
  with i show ?thesis by simp
qed

lemma store_mesh_live [simp]: "live (fst (store_mesh cfg slot (s, ps))) = live s"
  by (simp add: store_mesh_def Let_def case_prod_beta)

lemma save_live: "live (fst (snd (save cfg (s, ps)))) = live s"
  by (simp add: save_def save_header_eq save_body_eq save_finish_eq Let_def case_prod_beta)

lemma load_rejected:
  assumes "\<not> fst (validate cfg junk sp)"
  shows "\<not> fst (load cfg junk sp)"
    and "live (fst (snd (load cfg junk sp))) = live (reset cfg (fst (snd (validate cfg junk sp))))"
  using assms
  by (simp_all add: load_def case_prod_beta Let_def save_live)

lemma validate_live:
  assumes "quiet (load_body cfg junk ps)"
      and "quiet (load_body cfg junk (snd (restoreEEPROM cfg ps)))"
  shows "live (fst (snd (validate cfg junk (s, ps)))) = live s"
proof -
  let ?s0 = "s\<lparr>validating := True\<rparr>"
  let ?s1 = "snd (load' cfg junk ps ?s0)"
  let ?m = "message ''Recovered backup EEPROM settings from SPI Flash'' ?s1"
  have a: "live ?s1 = live s" "validating ?s1"
    using load'_validating [OF assms(1), of ?s0] by simp_all
  then have "validating ?m" "live ?m = live s" by simp_all
  then have b: "live (snd (load' cfg junk (snd (restoreEEPROM cfg ps)) ?m)) = live s"
    using load'_validating(1) [OF assms(2), of ?m] by simp
  show ?thesis
    using a b by (simp add: validate_def case_prod_beta Let_def)
qed

lemma validate_version_mismatch:
  assumes "take 3 (peek ps EEPROM_OFFSET 4) \<noteq> EEPROM_VERSION"
      and "\<not> (enabled cfg ARCHIM2_SPI_FLASH_EEPROM_BACKUP_SIZE \<and> fst (restoreEEPROM cfg ps))"
  shows "\<not> fst (validate cfg junk (s, ps))"
    and "live (fst (snd (validate cfg junk (s, ps)))) = live s"
  using assms(2) load'_version_mismatch(1,2) [OF assms(1), of cfg junk "s\<lparr>validating := True\<rparr>"]
  by (auto simp add: validate_def case_prod_beta Let_def)

lemma blank_medium_tag: "take 3 (peek blank_medium EEPROM_OFFSET 4) \<noteq> EEPROM_VERSION"
  by code_simp

lemma example_build_no_backup:
  "\<not> (enabled example_build ARCHIM2_SPI_FLASH_EEPROM_BACKUP_SIZE
       \<and> fst (restoreEEPROM example_build blank_medium))"
  by (simp add: example_build_def features_def)

lemma ifdef_simps [simp]: "ifdef True f s = f s" "ifdef False f s = s"
  by (simp_all add: ifdef_def)

lemma hard_fields [simp]:
  "live (hard cfg v s) = (live s)(v := hardcoded cfg v)"
  "eeprom_error (hard cfg v s) = eeprom_error s" "validating (hard cfg v s) = validating s"
  by (simp_all add: hard_def)

subsection \<open>The size and checksum comparison\<close>

lemma ubl_reset_fields [simp]:
  "eeprom_error (ubl_reset cfg s) = eeprom_error s" "validating (ubl_reset cfg s) = validating s"
  by (simp_all add: ubl_reset_def)

lemma load_mesh_fields [simp]:
  "eeprom_error (load_mesh cfg slot into ps s) = eeprom_error s"
  "validating (load_mesh cfg slot into ps s) = validating s"
  by (simp_all add: load_mesh_def Let_def read_data_def)

lemma load_ubl_finish_error:
  "eeprom_error s \<Longrightarrow> eeprom_error (load_ubl_finish cfg ps s)"
  by (simp add: load_ubl_finish_def Let_def)

lemma load_finish_marks:
  assumes "size_error cfg (of_int (eeprom_index s - EEPROM_OFFSET)) \<or> working_crc s \<noteq> crc"
  shows "eeprom_error (load_finish cfg crc ps s)"
  using assms by (auto simp add: load_finish_def Let_def committing_def load_ubl_finish_error)

lemma load'_matching:
  assumes "access_start ps" and "take 3 (peek ps EEPROM_OFFSET 4) = EEPROM_VERSION"
  shows "fst (load' cfg junk ps s)
           = (\<not> eeprom_error (load_finish cfg (stored_crc ps) ps (body_streamed cfg junk ps s)))"
proof -
  have "\<not> strncmp_ne version (peek ps EEPROM_OFFSET 4) 3"
    using assms(2) by (simp add: strncmp_ne_version)
  then show ?thesis
    using assms(1)
    by (simp add: load'_def Let_def body_streamed_def load_header_def stored_crc_def)
qed

lemma load'_reports:
  "access_start ps \<Longrightarrow> fst (load' cfg junk ps s) = (\<not> eeprom_error (snd (load' cfg junk ps s)))"
  by (simp add: load'_def Let_def del: EEPROM_READ_ALWAYS_sel(6,7))

text \<open>
  C6. Once \<open>_load\<close> has streamed the body of a version-matching record: when the cursor's
  distance from \<open>EEPROM_OFFSET\<close>, taken as the \<^verbatim>\<open>uint16_t\<close> that \<open>size_error\<close>
  receives, differs from \<open>datasize\<close>, or the accumulated checksum differs from the stored
  one, \<open>_load\<close> sets \<open>eeprom_error\<close> and returns false.
\<close>

theorem size_and_checksum_gate:
  assumes "access_start ps" and "take 3 (peek ps EEPROM_OFFSET 4) = EEPROM_VERSION"
      and "size_error cfg (of_int (eeprom_index (body_streamed cfg junk ps s) - EEPROM_OFFSET))
           \<or> working_crc (body_streamed cfg junk ps s) \<noteq> stored_crc ps"
  shows "\<not> fst (load' cfg junk ps s) \<and> eeprom_error (snd (load' cfg junk ps s))"
  using load'_matching [OF assms(1,2), of cfg junk s] load'_reports [OF assms(1), of cfg junk s]
        load_finish_marks [OF assms(3), of ps]
  by blast

subsection \<open>Mesh slots: count, offsets and bounds\<close>

lemma signed_fit:
  fixes x :: int
  assumes "- (2 ^ (8 * si - 1)) \<le> x" "x < 2 ^ (8 * si - 1)" "si \<le> st" "2 \<le> st"
  shows "signed_take_bit (8 * si - 1) (x mod 2 ^ (8 * st)) = x"
proof -
  have "\<not> 8 * st \<le> 8 * si - 1" using assms(3,4) by linarith
  then have "signed_take_bit (8 * si - 1) (take_bit (8 * st) x) = signed_take_bit (8 * si - 1) x"
    by (simp add: signed_take_bit_take_bit)
  moreover have "signed_take_bit (8 * si - 1) x = x"
    using assms(1,2) by (rule signed_take_bit_int_eq_self)
  ultimately show ?thesis by (simp add: take_bit_eq_mod)
qed

lemma size_t_holds_16_bits:
  fixes d :: nat
  assumes "d < 65536" "2 \<le> st"
  shows "int d mod 2 ^ (8 * st) = int d"
proof -
  have "(2::int) ^ 16 \<le> 2 ^ (8 * st)"
    using assms(2) by (intro power_increasing) simp_all
  then have a: "(65536::int) \<le> 2 ^ (8 * st)" by simp
  have "int d < 65536" using assms(1) by simp
  with a have "int d < 2 ^ (8 * st)" by linarith
  then show ?thesis by simp
qed

text \<open>
  C8, as stated, fails in two ways. On a medium too small for the record (512 bytes, where
  the mesh area would start at 768) the difference wraps and the count is 1809, not the
  quotient \<open>- 11\<close> of the formula; and on a 64 KB medium with a 16-bit \<^verbatim>\<open>int\<close> the
  offset of slot 0 is returned as \<open>- 165\<close>, not 65371.
\<close>

theorem mesh_slots_wrap:
  "unat (calc_num_meshes ubl_build small_medium) = 1809
   \<and> (int (capacity small_medium) - 129 - uint (meshes_start_index ubl_build))
        div int (sizeof_ubl_z_values ubl_build) = - 11
   \<and> mesh_slot_offset ubl_build large_medium 0 = - 165
   \<and> int (capacity large_medium) - 129
        - (sint (0 :: 8 word) + 1) * int (sizeof_ubl_z_values ubl_build) = 65371"
proof -
  have b: "meshes_start_index ubl_build = 768" by code_simp
  have c: "sizeof_ubl_z_values ubl_build = 36" by code_simp
  have i: "sizeof_int ubl_build = 2" "sizeof_size_t ubl_build = 2"
    by (simp_all add: ubl_build_def example_build_def)
  have a: "calc_num_meshes ubl_build small_medium = 1809"
    unfolding calc_num_meshes_def b c i meshes_end_def small_medium_def blank_medium_def Let_def
    by simp
  have d: "mesh_slot_offset ubl_build large_medium 0 = - 165"
    unfolding mesh_slot_offset_def b c i meshes_end_def large_medium_def blank_medium_def Let_def
    by (simp add: signed_take_bit_eq_take_bit_minus)
  show ?thesis
    unfolding a b c d by (simp add: small_medium_def large_medium_def blank_medium_def)
qed

text \<open>
  C8, amended. On a medium that holds the record (\<open>129 \<le> capacity\<close>,
  \<open>capacity - 129\<close> fits 16 bits and the mesh area starts at or below it), with a
  \<^verbatim>\<open>size_t\<close> of at least 16 bits that is at least as wide as \<^verbatim>\<open>int\<close>, the number of
  mesh slots is \<open>(capacity - 129 - meshes_start_index) div slot_size\<close>, and slot \<open>i\<close>
  lies at \<open>capacity - 129 - (i + 1) * slot_size\<close> for every slot index for which that
  offset fits the platform's \<^verbatim>\<open>int\<close>: the slots are packed downward from the reserved
  tail.
\<close>

theorem mesh_slots_packed_from_end:
  assumes cap: "129 \<le> capacity ps" "capacity ps < 65665"
    and fits: "unat (meshes_start_index cfg) \<le> capacity ps - 129"
    and st: "2 \<le> sizeof_size_t cfg" "sizeof_int cfg \<le> sizeof_size_t cfg"
  shows "unat (calc_num_meshes cfg ps)
           = (capacity ps - 129 - unat (meshes_start_index cfg)) div sizeof_ubl_z_values cfg
       \<and> (\<forall>slot.
             - (2 ^ (8 * sizeof_int cfg - 1))
                 \<le> int (capacity ps) - 129 - (sint slot + 1) * int (sizeof_ubl_z_values cfg)
             \<and> int (capacity ps) - 129 - (sint slot + 1) * int (sizeof_ubl_z_values cfg)
                 < 2 ^ (8 * sizeof_int cfg - 1)
             \<longrightarrow> mesh_slot_offset cfg ps slot
                   = int (capacity ps) - 129 - (sint slot + 1) * int (sizeof_ubl_z_values cfg))"
proof
  let ?d = "capacity ps - 129 - unat (meshes_start_index cfg)"
  have me: "uint (meshes_end ps) = int (capacity ps) - 129" by (rule uint_meshes_end [OF cap])
  have ms: "uint (meshes_start_index cfg) = int (unat (meshes_start_index cfg))" by simp
  have diff: "uint (meshes_end ps) - uint (meshes_start_index cfg) = int ?d"
    using me fits cap unfolding ms by linarith
  have dlt: "?d < 65536" using cap by linarith
  have p: "(if 2 < sizeof_int cfg then int ?d else int ?d mod 2 ^ 16) = int ?d"
    using dlt by simp
  have "(int ?d mod 2 ^ (8 * sizeof_size_t cfg)) div int (sizeof_ubl_z_values cfg)
          = int (?d div sizeof_ubl_z_values cfg)"
    unfolding size_t_holds_16_bits [OF dlt st(1)] by (simp add: zdiv_int)
  moreover have "?d div sizeof_ubl_z_values cfg < 65536"
    using dlt by (meson div_le_dividend le_less_trans)
  ultimately show "unat (calc_num_meshes cfg ps) = ?d div sizeof_ubl_z_values cfg"
    unfolding calc_num_meshes_def Let_def diff p
    by (simp add: unat_of_nat take_bit_eq_mod)
next
  show "\<forall>slot.
             - (2 ^ (8 * sizeof_int cfg - 1))
                 \<le> int (capacity ps) - 129 - (sint slot + 1) * int (sizeof_ubl_z_values cfg)
             \<and> int (capacity ps) - 129 - (sint slot + 1) * int (sizeof_ubl_z_values cfg)
                 < 2 ^ (8 * sizeof_int cfg - 1)
             \<longrightarrow> mesh_slot_offset cfg ps slot
                   = int (capacity ps) - 129 - (sint slot + 1) * int (sizeof_ubl_z_values cfg)"
  proof (intro allI impI)
    fix slot :: "8 word"
    let ?x = "int (capacity ps) - 129 - (sint slot + 1) * int (sizeof_ubl_z_values cfg)"
    assume b: "- (2 ^ (8 * sizeof_int cfg - 1)) \<le> ?x \<and> ?x < 2 ^ (8 * sizeof_int cfg - 1)"
    have me: "uint (meshes_end ps) = int (capacity ps) - 129" by (rule uint_meshes_end [OF cap])
    have "signed_take_bit (8 * sizeof_int cfg - 1) (?x mod 2 ^ (8 * sizeof_size_t cfg)) = ?x"
      using b st by (intro signed_fit) simp_all
    then show "mesh_slot_offset cfg ps slot = ?x"
      unfolding mesh_slot_offset_def me .
  qed
qed

theorem mesh_slots_packed_from_end_witness:
  "129 \<le> capacity blank_medium \<and> capacity blank_medium < 65665
   \<and> unat (meshes_start_index ubl_build) \<le> capacity blank_medium - 129
   \<and> 2 \<le> sizeof_size_t ubl_build \<and> sizeof_int ubl_build \<le> sizeof_size_t ubl_build
   \<and> unat (calc_num_meshes ubl_build blank_medium) = (4096 - 129 - 768) div 36
   \<and> mesh_slot_offset ubl_build blank_medium 2 = 4096 - 129 - (2 + 1) * 36"
proof -
  have h1: "129 \<le> capacity blank_medium" and h2: "capacity blank_medium < 65665"
    by (simp_all add: blank_medium_def)
  have h3: "unat (meshes_start_index ubl_build) \<le> capacity blank_medium - 129"
    by code_simp
  have h4: "2 \<le> sizeof_size_t ubl_build" and h5: "sizeof_int ubl_build \<le> sizeof_size_t ubl_build"
    by (simp_all add: ubl_build_def example_build_def)
  have b: "meshes_start_index ubl_build = 768" by code_simp
  have c: "sizeof_ubl_z_values ubl_build = 36" by code_simp
  have i: "sizeof_int ubl_build = 2" by (simp add: ubl_build_def example_build_def)
  have k: "capacity blank_medium = 4096" by (simp add: blank_medium_def)
  have "unat (calc_num_meshes ubl_build blank_medium) = (4096 - 129 - 768) div 36"
    using mesh_slots_packed_from_end [OF h1 h2 h3 h4 h5] unfolding b c k by simp
  moreover have "mesh_slot_offset ubl_build blank_medium 2 = 4096 - 129 - (2 + 1) * 36"
    using mesh_slots_packed_from_end [OF h1 h2 h3 h4 h5] unfolding b c i k by simp
  ultimately show ?thesis using h1 h2 h3 h4 h5 by blast
qed

lemma ubl_build_slots: "calc_num_meshes ubl_build blank_medium = 88"
  by code_simp

lemma chatty_ubl_build_slots: "calc_num_meshes chatty_ubl_build blank_medium = 88"
  by code_simp

text \<open>
  C9, as stated, fails: in a build without \<^verbatim>\<open>EEPROM_CHITCHAT\<close>, \<open>store_mesh\<close> at
  \<open>num_slots\<close> (88 here) and \<open>load_mesh\<close> at \<open>- 1\<close> hand back the state they were
  given, log included: nothing is reported.
\<close>

theorem invalid_slot_unreported:
  "calc_num_meshes ubl_build blank_medium = 88
   \<and> store_mesh ubl_build 88 (power_on, blank_medium) = (power_on, blank_medium)
   \<and> load_mesh ubl_build (- 1) None blank_medium power_on = power_on"
proof -
  have u: "enabled ubl_build AUTO_BED_LEVELING_UBL" "\<not> enabled ubl_build EEPROM_CHITCHAT"
    by (simp_all add: ubl_build_def example_build_def features_def)
  have w: "\<not> WITHIN (sint (88 :: 8 word)) 0 (sint (88 :: 16 word) - 1)"
          "\<not> WITHIN (sint (- 1 :: 8 word)) 0 (sint (88 :: 16 word) - 1)"
    by (simp_all add: WITHIN_def)
  show ?thesis
    using u w
    by (simp add: store_mesh_def load_mesh_def Let_def ubl_build_slots ubl_invalid_slot_def
          debug_def debug_echo_def)
qed

text \<open>
  C9, amended. For a slot index outside \<open>0 .. num_slots - 1\<close> (below zero, or at or above
  \<open>calc_num_meshes\<close>), \<open>store_mesh\<close> and \<open>load_mesh\<close> return with the medium and
  the state they were given: no live variable changes and no transaction is opened. They
  return no status; the invalid-slot message is printed only in builds with
  \<^verbatim>\<open>EEPROM_CHITCHAT\<close>, and is then the only change, to the log.
\<close>

theorem mesh_slot_bounds:
  assumes ubl: "enabled cfg AUTO_BED_LEVELING_UBL"
    and out: "sint slot < 0 \<or> int (unat (calc_num_meshes cfg ps)) \<le> sint slot"
  shows "store_mesh cfg slot (s, ps)
           = (s\<lparr>events := events s @
                 (if enabled cfg EEPROM_CHITCHAT
                  then [Message ''?Invalid slot.'', Echo (sint (calc_num_meshes cfg ps)),
                        Message '' mesh slots available.'', Message ''E2END= meshes_end= slot='']
                  else [])\<rparr>, ps)
       \<and> load_mesh cfg slot into ps s
           = s\<lparr>events := events s @
                 (if enabled cfg EEPROM_CHITCHAT
                  then [Message ''?Invalid slot.'', Echo (sint (calc_num_meshes cfg ps)),
                        Message '' mesh slots available.'']
                  else [])\<rparr>"
  using ubl slot_out_of_range [OF out]
  by (simp add: store_mesh_def load_mesh_def Let_def ubl_invalid_slot_def debug_def
        debug_echo_def message_def)

theorem mesh_slot_bounds_witness:
  "enabled chatty_ubl_build AUTO_BED_LEVELING_UBL
   \<and> (sint (88 :: 8 word) < 0
        \<or> int (unat (calc_num_meshes chatty_ubl_build blank_medium)) \<le> sint (88 :: 8 word))
   \<and> store_mesh chatty_ubl_build 88 (power_on, blank_medium)
       = (power_on\<lparr>events := [Message ''?Invalid slot.'', Echo 88,
                     Message '' mesh slots available.'', Message ''E2END= meshes_end= slot='']\<rparr>,
          blank_medium)
   \<and> load_mesh chatty_ubl_build 88 None blank_medium power_on
       = power_on\<lparr>events := [Message ''?Invalid slot.'', Echo 88,
                     Message '' mesh slots available.'']\<rparr>"
proof -
  have h1: "enabled chatty_ubl_build AUTO_BED_LEVELING_UBL"
    and c: "enabled chatty_ubl_build EEPROM_CHITCHAT"
    by (simp_all add: chatty_ubl_build_def example_build_def features_def)
  have h2: "sint (88 :: 8 word) < 0
        \<or> int (unat (calc_num_meshes chatty_ubl_build blank_medium)) \<le> sint (88 :: 8 word)"
    unfolding chatty_ubl_build_slots by simp
  have e: "events power_on = []" by (simp add: power_on_def)
  show ?thesis
    using mesh_slot_bounds [OF h1 h2, of power_on None] h1 h2 c e
    by (simp add: chatty_ubl_build_slots)
qed

text \<open>An in-range slot, by contrast, is written: slot 0 of the blank medium takes the
  mesh image, whose first byte lands at offset 3931.\<close>

lemma store_mesh_in_range_writes:
  "mem (snd (store_mesh ubl_build 0 (power_on, blank_medium))) 3931 = 0
   \<and> mem blank_medium 3931 = 0xFF"
  by code_simp
end
